theory Spec2Isabelle
  imports Main "HOL-Library.Sublist"
begin

section \<open>SpecForge: raw documents, the typed model, the normalizer and the renderer\<close>

text \<open>
  A shallow embedding of \<^verbatim>\<open>src/specforge.py\<close>: the classes
  \<^verbatim>\<open>SpecificationProcessor\<close> (the normalizer), \<^verbatim>\<open>OutputFormatter\<close>
  (the renderer) and \<^verbatim>\<open>SpecForge\<close> (the forge operation \<^verbatim>\<open>process_spec\<close>).

  Python checks none of the type annotations of the dataclasses, so a field of the typed
  model holds whatever value the raw document supplied. The model therefore keeps the
  fields as raw values, and every Python operation that can raise on a value of the wrong
  shape (\<^verbatim>\<open>.get\<close>, \<^verbatim>\<open>x[k]\<close>, iteration, \<^verbatim>\<open>.items()\<close>,
  \<^verbatim>\<open>str.join\<close>) returns a sum: \<open>Inl\<close> the exception, \<open>Inr\<close> the result.
\<close>

subsection \<open>Raw values and exceptions\<close>

text \<open>
  The values a loaded document is made of: null, booleans, integers, strings, lists and
  mappings with string keys. A mapping is an association list in the document's order
  (Python dictionaries iterate in insertion order); its keys are distinct in every
  well-formed document, and a lookup reads the first entry of a key. Strings are lists of
  characters, one \<open>char\<close> for each character of the Python string; a \<open>char\<close>
  is a code point below 256, so the strings of the model are the Python strings over
  Latin-1.
\<close>

datatype raw =
    RNull
  | RBool bool
  | RInt int
  | RStr string
  | RList "raw list"
  | RDict "(string \<times> raw) list"

text \<open>
  The exceptions of the program. The three wrappers keep the exception they were raised
  from, in place of the message text the source builds from it:
  \<^verbatim>\<open>ValidationError(f"Missing required field: {e}")\<close>,
  \<^verbatim>\<open>SpecForgeError(f"Error creating specification: {str(e)}")\<close> and
  \<^verbatim>\<open>SpecForgeError(f"Failed to process specification: {str(e)}")\<close>.
\<close>

datatype exn =
    KeyError string
  | AttributeError
  | TypeError
  | ValidationError exn
  | SpecForgeError_creating exn
  | SpecForgeError_failed exn

definition bindE :: "'e + 'a \<Rightarrow> ('a \<Rightarrow> 'e + 'b) \<Rightarrow> 'e + 'b" where
  "bindE m f = (case m of Inl e \<Rightarrow> Inl e | Inr x \<Rightarrow> f x)"

fun mapE :: "('a \<Rightarrow> 'e + 'b) \<Rightarrow> 'a list \<Rightarrow> 'e + 'b list" where
  "mapE f [] = Inr []"
| "mapE f (x # xs) = bindE (f x) (\<lambda>y. bindE (mapE f xs) (\<lambda>ys. Inr (y # ys)))"

subsection \<open>Python operations on raw values\<close>

text \<open>\<^verbatim>\<open>x.get(k, d)\<close>: only a mapping has the method.\<close>

definition py_get :: "raw \<Rightarrow> string \<Rightarrow> raw \<Rightarrow> exn + raw" where
  "py_get x k d =
     (case x of
        RDict kvs \<Rightarrow> Inr (case map_of kvs k of Some v \<Rightarrow> v | None \<Rightarrow> d)
      | _ \<Rightarrow> Inl AttributeError)"

text \<open>\<^verbatim>\<open>x[k]\<close> for a string key \<open>k\<close>: a mapping without the key raises
  KeyError, every other value raises TypeError.\<close>

definition py_index :: "raw \<Rightarrow> string \<Rightarrow> exn + raw" where
  "py_index x k =
     (case x of
        RDict kvs \<Rightarrow> (case map_of kvs k of Some v \<Rightarrow> Inr v | None \<Rightarrow> Inl (KeyError k))
      | _ \<Rightarrow> Inl TypeError)"

text \<open>\<^verbatim>\<open>for v in x\<close>: a list gives its items, a string its characters, a mapping
  its keys; null, booleans and integers are not iterable.\<close>

definition py_iter :: "raw \<Rightarrow> exn + raw list" where
  "py_iter x =
     (case x of
        RList xs \<Rightarrow> Inr xs
      | RStr s \<Rightarrow> Inr (map (\<lambda>c. RStr [c]) s)
      | RDict kvs \<Rightarrow> Inr (map (\<lambda>kv. RStr (fst kv)) kvs)
      | _ \<Rightarrow> Inl TypeError)"

text \<open>\<^verbatim>\<open>x.items()\<close>.\<close>

definition py_items :: "raw \<Rightarrow> exn + (string \<times> raw) list" where
  "py_items x = (case x of RDict kvs \<Rightarrow> Inr kvs | _ \<Rightarrow> Inl AttributeError)"

text \<open>\<^verbatim>\<open>k in x\<close> for a string \<open>k\<close>.\<close>

definition py_in :: "string \<Rightarrow> raw \<Rightarrow> exn + bool" where
  "py_in k x =
     (case x of
        RDict kvs \<Rightarrow> Inr (k \<in> set (map fst kvs))
      | RList xs \<Rightarrow> Inr (RStr k \<in> set xs)
      | RStr s \<Rightarrow> Inr (sublist k s)
      | _ \<Rightarrow> Inl TypeError)"

text \<open>The truth value of \<^verbatim>\<open>if x:\<close>.\<close>

definition py_truthy :: "raw \<Rightarrow> bool" where
  "py_truthy x =
     (case x of
        RNull \<Rightarrow> False
      | RBool b \<Rightarrow> b
      | RInt i \<Rightarrow> i \<noteq> 0
      | RStr s \<Rightarrow> s \<noteq> []
      | RList xs \<Rightarrow> xs \<noteq> []
      | RDict kvs \<Rightarrow> kvs \<noteq> [])"

definition is_str :: "raw \<Rightarrow> bool" where
  "is_str x = (case x of RStr s \<Rightarrow> True | _ \<Rightarrow> False)"

definition is_list :: "raw \<Rightarrow> bool" where
  "is_list x = (case x of RList xs \<Rightarrow> True | _ \<Rightarrow> False)"

definition is_dict :: "raw \<Rightarrow> bool" where
  "is_dict x = (case x of RDict kvs \<Rightarrow> True | _ \<Rightarrow> False)"

text \<open>\<^verbatim>\<open>sep.join(parts)\<close> on strings.\<close>

fun join :: "string \<Rightarrow> string list \<Rightarrow> string" where
  "join sep [] = []"
| "join sep [x] = x"
| "join sep (x # y # ys) = x @ sep @ join sep (y # ys)"

text \<open>\<^verbatim>\<open>str(x)\<close> and \<^verbatim>\<open>repr(x)\<close>, which an f-string applies to the values it
  interpolates. A string prints as itself; inside a list or a mapping it prints as its
  \<^verbatim>\<open>repr\<close>: quoted (in double quotes when it holds a single quote and no double
  quote), with backslash and the quote escaped by a backslash, tab, newline and carriage
  return written as a backslash and \<open>t\<close>, \<open>n\<close>, \<open>r\<close>, and every other
  character that is not printable written as a backslash, \<open>x\<close> and two lower-case
  hexadecimal digits: the code points below 32, 127, 128 to 160 (the C1 controls and the
  no-break space) and 173 (the soft hyphen).\<close>

definition digit_char :: "nat \<Rightarrow> char" where
  "digit_char d = char_of (48 + d)"

fun str_nat :: "nat \<Rightarrow> string" where
  "str_nat n =
     (if n < 10 then [digit_char n] else str_nat (n div 10) @ [digit_char (n mod 10)])"

definition str_int :: "int \<Rightarrow> string" where
  "str_int i = (if i < 0 then CHR ''-'' # str_nat (nat (- i)) else str_nat (nat i))"

definition hex_digit :: "nat \<Rightarrow> char" where
  "hex_digit d = (if d < 10 then char_of (48 + d) else char_of (87 + d))"

definition escape_char :: "char \<Rightarrow> char \<Rightarrow> string" where
  "escape_char q c =
     (if c = q \<or> c = CHR 0x5C then [CHR 0x5C, c]
      else if c = CHR 0x09 then [CHR 0x5C, CHR ''t'']
      else if c = CHR 0x0A then [CHR 0x5C, CHR ''n'']
      else if c = CHR 0x0D then [CHR 0x5C, CHR ''r'']
      else if (of_char c :: nat) < 32 \<or> (of_char c :: nat) = 127
              \<or> (128 \<le> (of_char c :: nat) \<and> (of_char c :: nat) \<le> 160)
              \<or> (of_char c :: nat) = 173
        then [CHR 0x5C, CHR ''x'', hex_digit (of_char c div 16), hex_digit (of_char c mod 16)]
      else [c])"

definition repr_str :: "string \<Rightarrow> string" where
  "repr_str s =
     (let q = (if CHR 0x27 \<in> set s \<and> CHR 0x22 \<notin> set s then CHR 0x22 else CHR 0x27)
      in q # concat (map (escape_char q) s) @ [q])"

fun py_repr :: "raw \<Rightarrow> string" where
  "py_repr RNull = ''None''"
| "py_repr (RBool b) = (if b then ''True'' else ''False'')"
| "py_repr (RInt i) = str_int i"
| "py_repr (RStr s) = repr_str s"
| "py_repr (RList xs) = ''['' @ join '', '' (map py_repr xs) @ '']''"
| "py_repr (RDict kvs) =
     ''{'' @ join '', '' (map (\<lambda>(k, v). repr_str k @ '': '' @ py_repr v) kvs) @ ''}''"

definition py_str :: "raw \<Rightarrow> string" where
  "py_str x = (case x of RStr s \<Rightarrow> s | _ \<Rightarrow> py_repr x)"

text \<open>\<^verbatim>\<open>', '.join(x)\<close>: \<open>x\<close> is iterated and every item must be a string.\<close>

definition the_str :: "raw \<Rightarrow> string" where
  "the_str x = (case x of RStr s \<Rightarrow> s | _ \<Rightarrow> [])"

definition py_join :: "string \<Rightarrow> raw \<Rightarrow> exn + string" where
  "py_join sep x =
     bindE (py_iter x) (\<lambda>xs.
       if list_all is_str xs then Inr (join sep (map the_str xs)) else Inl TypeError)"

text \<open>\<^verbatim>\<open>d[k] = v\<close> on a dictionary under construction: a key that is already there
  keeps its place, a new key goes last.\<close>

fun dict_set :: "('k \<times> 'v) list \<Rightarrow> 'k \<Rightarrow> 'v \<Rightarrow> ('k \<times> 'v) list" where
  "dict_set [] k v = [(k, v)]"
| "dict_set ((k', v') # kvs) k v =
     (if k' = k then (k, v) # kvs else (k', v') # dict_set kvs k v)"

text \<open>The loop \<^verbatim>\<open>for name, x in items: d[name] = f(name, x)\<close>.\<close>

fun dict_loop ::
  "('k \<Rightarrow> 'a \<Rightarrow> 'e + 'v) \<Rightarrow> ('k \<times> 'a) list \<Rightarrow> ('k \<times> 'v) list \<Rightarrow> 'e + ('k \<times> 'v) list" where
  "dict_loop f [] d = Inr d"
| "dict_loop f ((name, x) # items) d =
     bindE (f name x) (\<lambda>y. dict_loop f items (dict_set d name y))"

subsection \<open>The typed model\<close>

text \<open>
  One record for each dataclass of the source, field for field and in the source's order.
  Field names carry a prefix for their record (\<open>hf_\<close> for HeaderFormat, \<open>ri_\<close> for
  RegisterInfo and so on), since records share one name space. The two dictionaries the
  normalizer builds itself (\<open>structures\<close>, \<open>algorithms\<close>) are association lists
  in insertion order.
\<close>

record HeaderFormat =
  hf_border_line :: raw
  hf_file_name_line :: raw
  hf_description_line :: raw
  hf_blank_comment :: raw
  hf_assembly_lines :: raw
  hf_directives :: raw

record RegisterInfo =
  ri_name :: raw
  ri_purpose :: raw
  ri_byte_regs :: raw
  ri_constraints :: raw

record RegisterUsage =
  ru_general_purpose :: "RegisterInfo list"

record Field =
  fd_name :: raw
  fd_type :: raw
  fd_description :: raw
  fd_constraints :: raw

record DataStructure =
  ds_name :: string
  ds_fields :: "Field list"
  ds_documentation :: raw
  ds_constraints :: raw
  ds_examples :: raw
  ds_complexity :: raw

record PaddingRules =
  pr_one_byte :: raw
  pr_two_bytes :: raw

record ImplementationRequirements =
  ir_memory_operations :: raw
  ir_encoding_requirements :: raw
  ir_leftover_handling :: raw
  ir_padding_rules :: PaddingRules

record Algorithm =
  al_name :: string
  al_description :: raw
  al_implementation_requirements :: ImplementationRequirements
  al_steps :: raw
  al_complexity :: raw
  al_edge_cases :: raw
  al_preconditions :: raw
  al_postconditions :: raw
  al_invariants :: raw
  al_examples :: raw

record ErrorType =
  et_name :: raw
  et_description :: raw
  et_handling :: raw

record ErrorHandling =
  eh_strategies :: raw
  eh_error_types :: "ErrorType list"
  eh_syscall_requirements :: raw

record BssVariable =
  bv_name :: raw
  bv_size :: raw
  bv_align :: raw
  bv_purpose :: raw

record SectionRequirements =
  sr_data :: raw
  sr_bss :: "BssVariable list"
  sr_text :: raw

record Benchmark =
  bm_name :: raw
  bm_input_size :: raw
  bm_expected_time :: raw
  bm_requirements :: raw

record Performance =
  pf_time_complexity :: raw
  pf_space_complexity :: raw
  pf_constraints :: raw
  pf_register_usage :: raw
  pf_memory_access :: raw
  pf_benchmarks :: "Benchmark list"

record TestCase =
  tc_name :: raw
  tc_input :: raw
  tc_expected_output :: raw
  tc_validation :: raw

record Testing =
  ts_unit_tests :: "TestCase list"
  ts_integration_tests :: "raw list"
  ts_conformance_tests :: "raw list"

record CodeStyle =
  cs_indentation :: raw
  cs_comments :: raw
  cs_naming :: raw
  cs_organization :: raw

record Specification =
  sp_metadata :: raw
  sp_header_format :: HeaderFormat
  sp_register_usage :: RegisterUsage
  sp_structures :: "(string \<times> DataStructure) list"
  sp_algorithms :: "(string \<times> Algorithm) list"
  sp_error_handling :: ErrorHandling
  sp_section_requirements :: SectionRequirements
  sp_performance :: Performance
  sp_testing :: Testing
  sp_code_style :: CodeStyle

subsection \<open>The normalizer: SpecificationProcessor\<close>

text \<open>
  Each function takes the whole raw document \<open>data\<close>, as in the source. Keyword
  arguments are evaluated left to right, so the reads of a constructor call are bound in
  the order the source writes them.
\<close>

definition process_metadata :: "raw \<Rightarrow> exn + raw" where
  "process_metadata data = py_get data ''metadata'' (RDict [])"

definition process_header_format :: "raw \<Rightarrow> exn + HeaderFormat" where
  "process_header_format data =
     bindE (py_get data ''header_format'' (RDict [])) (\<lambda>header.
     bindE (py_get header ''border_line'' (RStr [])) (\<lambda>v1.
     bindE (py_get header ''file_name_line'' (RStr [])) (\<lambda>v2.
     bindE (py_get header ''description_line'' (RStr [])) (\<lambda>v3.
     bindE (py_get header ''blank_comment'' (RStr [])) (\<lambda>v4.
     bindE (py_get header ''assembly_lines'' (RList [])) (\<lambda>v5.
     bindE (py_get header ''directives'' (RList [])) (\<lambda>v6.
     Inr \<lparr>hf_border_line = v1, hf_file_name_line = v2, hf_description_line = v3,
          hf_blank_comment = v4, hf_assembly_lines = v5, hf_directives = v6\<rparr>)))))))"

text \<open>The body of the list comprehension of \<^verbatim>\<open>process_register_usage\<close>:
  \<^verbatim>\<open>name\<close> and \<^verbatim>\<open>purpose\<close> are read with \<^verbatim>\<open>reg[...]\<close>,
  \<^verbatim>\<open>byte_regs\<close> with \<^verbatim>\<open>reg.get('byte_regs')\<close>, whose default is None.\<close>

definition register_info :: "raw \<Rightarrow> exn + RegisterInfo" where
  "register_info reg =
     bindE (py_index reg ''name'') (\<lambda>v1.
     bindE (py_index reg ''purpose'') (\<lambda>v2.
     bindE (py_get reg ''byte_regs'' RNull) (\<lambda>v3.
     bindE (py_get reg ''constraints'' (RList [])) (\<lambda>v4.
     Inr \<lparr>ri_name = v1, ri_purpose = v2, ri_byte_regs = v3, ri_constraints = v4\<rparr>))))"

definition process_register_usage :: "raw \<Rightarrow> exn + RegisterUsage" where
  "process_register_usage data =
     bindE (py_get data ''register_usage'' (RDict [])) (\<lambda>usage.
     bindE (py_get usage ''general_purpose'' (RList [])) (\<lambda>gp.
     bindE (py_iter gp) (\<lambda>regs.
     bindE (mapE register_info regs) (\<lambda>general_purpose.
     Inr \<lparr>ru_general_purpose = general_purpose\<rparr>))))"

definition field_info :: "raw \<Rightarrow> exn + Field" where
  "field_info fld =
     bindE (py_index fld ''name'') (\<lambda>v1.
     bindE (py_index fld ''type'') (\<lambda>v2.
     bindE (py_get fld ''description'' (RStr [])) (\<lambda>v3.
     bindE (py_get fld ''constraints'' (RList [])) (\<lambda>v4.
     Inr \<lparr>fd_name = v1, fd_type = v2, fd_description = v3, fd_constraints = v4\<rparr>))))"

text \<open>The body of the loop of \<^verbatim>\<open>process_data_structures\<close>.\<close>

definition data_structure :: "string \<Rightarrow> raw \<Rightarrow> exn + DataStructure" where
  "data_structure name struct =
     bindE (py_get struct ''fields'' (RList [])) (\<lambda>fs.
     bindE (py_iter fs) (\<lambda>flds.
     bindE (mapE field_info flds) (\<lambda>fields.
     bindE (py_get struct ''documentation'' (RStr [])) (\<lambda>v1.
     bindE (py_get struct ''constraints'' (RList [])) (\<lambda>v2.
     bindE (py_get struct ''examples'' (RList [])) (\<lambda>v3.
     bindE (py_get struct ''complexity'' (RDict [])) (\<lambda>v4.
     Inr \<lparr>ds_name = name, ds_fields = fields, ds_documentation = v1,
          ds_constraints = v2, ds_examples = v3, ds_complexity = v4\<rparr>)))))))"

definition process_data_structures :: "raw \<Rightarrow> exn + (string \<times> DataStructure) list" where
  "process_data_structures data =
     bindE (py_get data ''structures'' (RDict [])) (\<lambda>ss.
     bindE (py_items ss) (\<lambda>items.
     dict_loop data_structure items []))"

text \<open>The body of the loop of \<^verbatim>\<open>process_algorithms\<close>.\<close>

definition algorithm :: "string \<Rightarrow> raw \<Rightarrow> exn + Algorithm" where
  "algorithm name algo =
     bindE (py_get algo ''implementation_requirements'' (RDict [])) (\<lambda>impl_req.
     bindE (py_get impl_req ''padding_rules'' (RDict [])) (\<lambda>padding_rules.
     bindE (py_get impl_req ''memory_operations'' (RList [])) (\<lambda>r1.
     bindE (py_get impl_req ''encoding_requirements'' (RList [])) (\<lambda>r2.
     bindE (py_get impl_req ''leftover_handling'' (RList [])) (\<lambda>r3.
     bindE (py_get padding_rules ''one_byte'' (RList [])) (\<lambda>p1.
     bindE (py_get padding_rules ''two_bytes'' (RList [])) (\<lambda>p2.
     bindE (py_get algo ''description'' (RStr [])) (\<lambda>v1.
     bindE (py_get algo ''steps'' (RDict [])) (\<lambda>v2.
     bindE (py_get algo ''complexity'' (RDict [])) (\<lambda>v3.
     bindE (py_get algo ''edge_cases'' (RList [])) (\<lambda>v4.
     bindE (py_get algo ''preconditions'' (RList [])) (\<lambda>v5.
     bindE (py_get algo ''postconditions'' (RList [])) (\<lambda>v6.
     bindE (py_get algo ''invariants'' (RList [])) (\<lambda>v7.
     bindE (py_get algo ''examples'' (RList [])) (\<lambda>v8.
     Inr \<lparr>al_name = name, al_description = v1,
          al_implementation_requirements =
            \<lparr>ir_memory_operations = r1, ir_encoding_requirements = r2,
             ir_leftover_handling = r3,
             ir_padding_rules = \<lparr>pr_one_byte = p1, pr_two_bytes = p2\<rparr>\<rparr>,
          al_steps = v2, al_complexity = v3, al_edge_cases = v4, al_preconditions = v5,
          al_postconditions = v6, al_invariants = v7, al_examples = v8\<rparr>)))))))))))))))"

definition process_algorithms :: "raw \<Rightarrow> exn + (string \<times> Algorithm) list" where
  "process_algorithms data =
     bindE (py_get data ''algorithms'' (RDict [])) (\<lambda>as.
     bindE (py_items as) (\<lambda>items.
     dict_loop algorithm items []))"

text \<open>The body of the loop over \<^verbatim>\<open>error_types_raw\<close>: the entities one raw entry
  appends to \<^verbatim>\<open>error_types\<close>. A string is expanded, a mapping is read field by
  field (the default of \<^verbatim>\<open>description\<close> is built from \<^verbatim>\<open>err['name']\<close>
  before \<^verbatim>\<open>.get\<close> is called), and an entry that is neither appends nothing.\<close>

definition default_handling :: raw where
  "default_handling = RList [RStr ''Detect'', RStr ''Log'', RStr ''Handle'']"

definition error_type_entry :: "raw \<Rightarrow> exn + ErrorType list" where
  "error_type_entry err =
     (if is_str err then
        Inr [\<lparr>et_name = err, et_description = RStr (''Handle '' @ py_str err),
              et_handling = default_handling\<rparr>]
      else if is_dict err then
        bindE (py_index err ''name'') (\<lambda>v1.
        bindE (py_index err ''name'') (\<lambda>n.
        bindE (py_get err ''description'' (RStr (''Handle '' @ py_str n))) (\<lambda>v2.
        bindE (py_get err ''handling'' default_handling) (\<lambda>v3.
        Inr [\<lparr>et_name = v1, et_description = v2, et_handling = v3\<rparr>]))))
      else Inr [])"

definition process_error_handling :: "raw \<Rightarrow> exn + ErrorHandling" where
  "process_error_handling data =
     bindE (py_get data ''error_handling'' (RDict [])) (\<lambda>err_handling.
     bindE (py_get err_handling ''error_types'' (RList [])) (\<lambda>error_types_raw.
     bindE (py_iter error_types_raw) (\<lambda>errs.
     bindE (mapE error_type_entry errs) (\<lambda>appended.
     bindE (py_get err_handling ''strategies'' (RDict [])) (\<lambda>strategies_raw.
     bindE (py_get err_handling ''syscall_requirements'' (RList [])) (\<lambda>v3.
     Inr \<lparr>eh_strategies =
            (if is_list strategies_raw then RDict [(''general'', strategies_raw)]
             else if is_dict strategies_raw then strategies_raw
             else RDict []),
          eh_error_types = concat appended,
          eh_syscall_requirements = v3\<rparr>))))))"

definition bss_variable :: "raw \<Rightarrow> exn + BssVariable" where
  "bss_variable var =
     bindE (py_index var ''name'') (\<lambda>v1.
     bindE (py_index var ''size'') (\<lambda>v2.
     bindE (py_index var ''align'') (\<lambda>v3.
     bindE (py_index var ''purpose'') (\<lambda>v4.
     Inr \<lparr>bv_name = v1, bv_size = v2, bv_align = v3, bv_purpose = v4\<rparr>))))"

definition process_section_requirements :: "raw \<Rightarrow> exn + SectionRequirements" where
  "process_section_requirements data =
     bindE (py_get data ''section_requirements'' (RDict [])) (\<lambda>reqs.
     bindE (py_get reqs ''bss'' (RDict [])) (\<lambda>bss.
     bindE (py_get bss ''variables'' (RList [])) (\<lambda>variables.
     bindE (py_iter variables) (\<lambda>vars.
     bindE (mapE bss_variable vars) (\<lambda>bss_vars.
     bindE (py_get reqs ''data'' (RList [])) (\<lambda>v1.
     bindE (py_get reqs ''text'' (RDict [])) (\<lambda>v3.
     Inr \<lparr>sr_data = v1, sr_bss = bss_vars, sr_text = v3\<rparr>)))))))"

definition benchmark :: "raw \<Rightarrow> exn + Benchmark" where
  "benchmark bench =
     bindE (py_index bench ''name'') (\<lambda>v1.
     bindE (py_index bench ''input_size'') (\<lambda>v2.
     bindE (py_get bench ''expected_time'' RNull) (\<lambda>v3.
     bindE (py_get bench ''requirements'' (RList [])) (\<lambda>v4.
     Inr \<lparr>bm_name = v1, bm_input_size = v2, bm_expected_time = v3,
          bm_requirements = v4\<rparr>))))"

definition process_performance :: "raw \<Rightarrow> exn + Performance" where
  "process_performance data =
     bindE (py_get data ''performance'' (RDict [])) (\<lambda>perf.
     bindE (py_get perf ''benchmarks'' (RList [])) (\<lambda>bs.
     bindE (py_iter bs) (\<lambda>benches.
     bindE (mapE benchmark benches) (\<lambda>benchmarks.
     bindE (py_get perf ''time_complexity'' (RStr [])) (\<lambda>v1.
     bindE (py_get perf ''space_complexity'' (RStr [])) (\<lambda>v2.
     bindE (py_get perf ''constraints'' (RList [])) (\<lambda>v3.
     bindE (py_get perf ''register_usage'' (RList [])) (\<lambda>v4.
     bindE (py_get perf ''memory_access'' (RList [])) (\<lambda>v5.
     Inr \<lparr>pf_time_complexity = v1, pf_space_complexity = v2, pf_constraints = v3,
          pf_register_usage = v4, pf_memory_access = v5,
          pf_benchmarks = benchmarks\<rparr>)))))))))"

text \<open>The bodies of the three loops of \<^verbatim>\<open>process_testing\<close>.\<close>

definition unit_test :: "raw \<Rightarrow> exn + TestCase" where
  "unit_test test =
     (if is_str test then
        Inr \<lparr>tc_name = test, tc_input = RStr ''TBD'', tc_expected_output = RStr ''TBD'',
             tc_validation = RList []\<rparr>
      else
        bindE (py_index test ''name'') (\<lambda>v1.
        bindE (py_get test ''input'' (RStr ''TBD'')) (\<lambda>v2.
        bindE (py_get test ''expected_output'' (RStr ''TBD'')) (\<lambda>v3.
        bindE (py_get test ''validation'' (RList [])) (\<lambda>v4.
        Inr \<lparr>tc_name = v1, tc_input = v2, tc_expected_output = v3,
             tc_validation = v4\<rparr>)))))"

definition integration_test :: "raw \<Rightarrow> raw" where
  "integration_test test = (if is_str test then RDict [(''name'', test)] else test)"

definition conformance_test :: "raw \<Rightarrow> raw" where
  "conformance_test test = (if is_str test then RDict [(''standard'', test)] else test)"

definition process_testing :: "raw \<Rightarrow> exn + Testing" where
  "process_testing data =
     bindE (py_get data ''testing'' (RDict [])) (\<lambda>test_data.
     bindE (py_get test_data ''unit_tests'' (RList [])) (\<lambda>u.
     bindE (py_iter u) (\<lambda>us.
     bindE (mapE unit_test us) (\<lambda>unit_tests.
     bindE (py_get test_data ''integration_tests'' (RList [])) (\<lambda>i.
     bindE (py_iter i) (\<lambda>is.
     bindE (py_get test_data ''conformance_tests'' (RList [])) (\<lambda>c.
     bindE (py_iter c) (\<lambda>cs.
     Inr \<lparr>ts_unit_tests = unit_tests,
          ts_integration_tests = map integration_test is,
          ts_conformance_tests = map conformance_test cs\<rparr>))))))))"

definition process_code_style :: "raw \<Rightarrow> exn + CodeStyle" where
  "process_code_style data =
     bindE (py_get data ''code_style'' (RDict [])) (\<lambda>style.
     bindE (py_get style ''indentation'' (RList [])) (\<lambda>v1.
     bindE (py_get style ''comments'' (RList [])) (\<lambda>v2.
     bindE (py_get style ''naming'' (RList [])) (\<lambda>v3.
     bindE (py_get style ''organization'' (RList [])) (\<lambda>v4.
     Inr \<lparr>cs_indentation = v1, cs_comments = v2, cs_naming = v3,
          cs_organization = v4\<rparr>)))))"

subsection \<open>The renderer: OutputFormatter.format_text\<close>

text \<open>
  \<^verbatim>\<open>format_text\<close> appends to one list \<^verbatim>\<open>lines\<close> and joins it with newlines
  at the end. The model builds the lines section by section, in the source's order, and
  stops at the first exception as the source does.

  Two loop shapes recur in the source:
  \<^verbatim>\<open>for v in x: lines.append(f"<prefix>{v}")\<close>, which is \<open>bullets\<close>, and the same loop
  under a label line that is guarded by \<^verbatim>\<open>if x:\<close>, which is \<open>opt_block\<close>.
\<close>

definition bullets :: "string \<Rightarrow> raw \<Rightarrow> exn + string list" where
  "bullets pre x = bindE (py_iter x) (\<lambda>xs. Inr (map (\<lambda>v. pre @ py_str v) xs))"

definition opt_block :: "string \<Rightarrow> string \<Rightarrow> raw \<Rightarrow> exn + string list" where
  "opt_block label pre x =
     (if py_truthy x then bindE (bullets pre x) (\<lambda>ls. Inr (label # ls)) else Inr [])"

definition fmt_metadata :: "raw \<Rightarrow> exn + string list" where
  "fmt_metadata md =
     bindE (py_index md ''name'') (\<lambda>n.
     bindE (py_index md ''version'') (\<lambda>v.
     bindE (py_index md ''description'') (\<lambda>d.
     Inr [''=== SPECIFICATION ==='',
          ''Name: '' @ py_str n,
          ''Version: '' @ py_str v,
          ''Description: '' @ py_str d,
          []])))"

definition fmt_header_format :: "HeaderFormat \<Rightarrow> exn + string list" where
  "fmt_header_format hf =
     bindE (bullets ''  '' (hf_assembly_lines hf)) (\<lambda>als.
     bindE (bullets ''  '' (hf_directives hf)) (\<lambda>ds.
     Inr ([''=== HEADER FORMAT ==='',
           ''Border Line: '' @ py_str (hf_border_line hf),
           ''Assembly Lines:''] @ als @ [''Directives:''] @ ds @ [[]])))"

definition fmt_register :: "RegisterInfo \<Rightarrow> exn + string list" where
  "fmt_register reg =
     bindE (if py_truthy (ri_byte_regs reg)
            then bindE (py_join '', '' (ri_byte_regs reg)) (\<lambda>j. Inr [''Byte Registers: '' @ j])
            else Inr []) (\<lambda>bs.
     bindE (opt_block ''Constraints:'' ''  - '' (ri_constraints reg)) (\<lambda>cs.
     Inr ([''Register: '' @ py_str (ri_name reg),
           ''Purpose: '' @ py_str (ri_purpose reg)] @ bs @ cs @ [[]])))"

definition fmt_register_usage :: "RegisterUsage \<Rightarrow> exn + string list" where
  "fmt_register_usage ru =
     bindE (mapE fmt_register (ru_general_purpose ru)) (\<lambda>rs.
     Inr (''=== REGISTER USAGE ==='' # concat rs))"

definition fmt_field :: "Field \<Rightarrow> string" where
  "fmt_field fld =
     ''  '' @ py_str (fd_name fld) @ '' ('' @ py_str (fd_type fld) @ ''): ''
       @ py_str (fd_description fld)"

definition fmt_structure :: "string \<times> DataStructure \<Rightarrow> exn + string list" where
  "fmt_structure item =
     (case item of (name, struct) \<Rightarrow>
        bindE (opt_block ''Constraints:'' ''  - '' (ds_constraints struct)) (\<lambda>cs.
        Inr ([''Structure: '' @ name,
              ''Documentation: '' @ py_str (ds_documentation struct),
              ''Fields:''] @ map fmt_field (ds_fields struct) @ cs @ [[]])))"

definition fmt_structures :: "(string \<times> DataStructure) list \<Rightarrow> exn + string list" where
  "fmt_structures structures =
     bindE (mapE fmt_structure structures) (\<lambda>ss.
     Inr (''=== DATA STRUCTURES ==='' # concat ss))"

text \<open>One entry of a mapping from a name to a list: the name as a label, then the items.
  It renders a step of an algorithm, a strategy and a category of the text section.\<close>

definition fmt_named_list :: "string \<times> raw \<Rightarrow> exn + string list" where
  "fmt_named_list item =
     (case item of (name, xs) \<Rightarrow>
        bindE (bullets ''    - '' xs) (\<lambda>ls. Inr ((''  '' @ name @ '':'') # ls)))"

definition fmt_algorithm :: "string \<times> Algorithm \<Rightarrow> exn + string list" where
  "fmt_algorithm item =
     (case item of (name, algo) \<Rightarrow>
        let ir = al_implementation_requirements algo in
        bindE (bullets ''    - '' (ir_memory_operations ir)) (\<lambda>l1.
        bindE (bullets ''    - '' (ir_encoding_requirements ir)) (\<lambda>l2.
        bindE (bullets ''    - '' (ir_leftover_handling ir)) (\<lambda>l3.
        bindE (bullets ''      - '' (pr_one_byte (ir_padding_rules ir))) (\<lambda>l4.
        bindE (bullets ''      - '' (pr_two_bytes (ir_padding_rules ir))) (\<lambda>l5.
        bindE (py_items (al_steps algo)) (\<lambda>steps.
        bindE (mapE fmt_named_list steps) (\<lambda>l6.
        bindE (opt_block ''Edge Cases:'' ''  - '' (al_edge_cases algo)) (\<lambda>l7.
        bindE (opt_block ''Preconditions:'' ''  - '' (al_preconditions algo)) (\<lambda>l8.
        bindE (opt_block ''Postconditions:'' ''  - '' (al_postconditions algo)) (\<lambda>l9.
        bindE (opt_block ''Invariants:'' ''  - '' (al_invariants algo)) (\<lambda>l10.
        Inr ([''Algorithm: '' @ name,
              ''Description: '' @ py_str (al_description algo),
              ''Implementation Requirements:'',
              ''  Memory Operations:''] @ l1
             @ [''  Encoding Requirements:''] @ l2
             @ [''  Leftover Handling:''] @ l3
             @ [''  Padding Rules:'', ''    One Byte:''] @ l4
             @ [''    Two Bytes:''] @ l5
             @ [''Steps:''] @ concat l6
             @ l7 @ l8 @ l9 @ l10 @ [[]])))))))))))))"

definition fmt_algorithms :: "(string \<times> Algorithm) list \<Rightarrow> exn + string list" where
  "fmt_algorithms algorithms =
     bindE (mapE fmt_algorithm algorithms) (\<lambda>as.
     Inr (''=== ALGORITHMS ==='' # concat as))"

definition fmt_strategies :: "raw \<Rightarrow> exn + string list" where
  "fmt_strategies strategies =
     (if is_dict strategies then
        bindE (py_items strategies) (\<lambda>items.
        bindE (mapE fmt_named_list items) (\<lambda>ls. Inr (concat ls)))
      else if is_list strategies then bullets ''  - '' strategies
      else Inr [])"

definition fmt_error_type :: "ErrorType \<Rightarrow> exn + string list" where
  "fmt_error_type err =
     bindE (bullets ''      - '' (et_handling err)) (\<lambda>hs.
     Inr ([''  '' @ py_str (et_name err) @ '':'',
           ''    Description: '' @ py_str (et_description err),
           ''    Handling:''] @ hs))"

definition fmt_error_handling :: "ErrorHandling \<Rightarrow> exn + string list" where
  "fmt_error_handling eh =
     bindE (fmt_strategies (eh_strategies eh)) (\<lambda>l1.
     bindE (mapE fmt_error_type (eh_error_types eh)) (\<lambda>l2.
     bindE (bullets ''  - '' (eh_syscall_requirements eh)) (\<lambda>l3.
     Inr ([''=== ERROR HANDLING ==='', ''Strategies:''] @ l1
          @ [''Error Types:''] @ concat l2
          @ [''Syscall Requirements:''] @ l3 @ [[]]))))"

definition fmt_bss_variable :: "BssVariable \<Rightarrow> string list" where
  "fmt_bss_variable var =
     [''  '' @ py_str (bv_name var) @ '':'',
      ''    Size: '' @ py_str (bv_size var),
      ''    Align: '' @ py_str (bv_align var),
      ''    Purpose: '' @ py_str (bv_purpose var)]"

definition fmt_section_requirements :: "SectionRequirements \<Rightarrow> exn + string list" where
  "fmt_section_requirements sr =
     bindE (bullets ''  - '' (sr_data sr)) (\<lambda>l1.
     bindE (py_items (sr_text sr)) (\<lambda>items.
     bindE (mapE fmt_named_list items) (\<lambda>l3.
     Inr ([''=== SECTION REQUIREMENTS ==='', ''Data Section:''] @ l1
          @ [''BSS Section:''] @ concat (map fmt_bss_variable (sr_bss sr))
          @ [''Text Section:''] @ concat l3 @ [[]]))))"

definition fmt_benchmark :: "Benchmark \<Rightarrow> exn + string list" where
  "fmt_benchmark bench =
     bindE (opt_block ''    Requirements:'' ''      - '' (bm_requirements bench)) (\<lambda>rs.
     Inr ([''  '' @ py_str (bm_name bench) @ '':'',
           ''    Input Size: '' @ py_str (bm_input_size bench)]
          @ (if py_truthy (bm_expected_time bench)
             then [''    Expected Time: '' @ py_str (bm_expected_time bench)] else [])
          @ rs))"

definition fmt_performance :: "Performance \<Rightarrow> exn + string list" where
  "fmt_performance pf =
     bindE (bullets ''  - '' (pf_constraints pf)) (\<lambda>l1.
     bindE (bullets ''  - '' (pf_register_usage pf)) (\<lambda>l2.
     bindE (bullets ''  - '' (pf_memory_access pf)) (\<lambda>l3.
     bindE (mapE fmt_benchmark (pf_benchmarks pf)) (\<lambda>l4.
     Inr ([''=== PERFORMANCE ==='',
           ''Time Complexity: '' @ py_str (pf_time_complexity pf),
           ''Space Complexity: '' @ py_str (pf_space_complexity pf),
           ''Constraints:''] @ l1
          @ [''Register Usage:''] @ l2
          @ [''Memory Access:''] @ l3
          @ [''Benchmarks:''] @ concat l4 @ [[]])))))"

definition fmt_unit_test :: "TestCase \<Rightarrow> exn + string list" where
  "fmt_unit_test test =
     bindE (opt_block ''    Validation:'' ''      - '' (tc_validation test)) (\<lambda>vs.
     Inr ([''  '' @ py_str (tc_name test) @ '':'',
           ''    Input: '' @ py_str (tc_input test),
           ''    Expected Output: '' @ py_str (tc_expected_output test)] @ vs))"

text \<open>An integration test is a loosely-typed record: \<^verbatim>\<open>test['name']\<close> is read
  first, then every other key is printed, a list value item by item.\<close>

definition fmt_integration_item :: "string \<times> raw \<Rightarrow> string list" where
  "fmt_integration_item item =
     (case item of (key, val) \<Rightarrow>
        if key \<noteq> ''name'' then
          (case val of
             RList xs \<Rightarrow> (''    '' @ key @ '':'') # map (\<lambda>x. ''      - '' @ py_str x) xs
           | _ \<Rightarrow> [''    '' @ key @ '': '' @ py_str val])
        else [])"

definition fmt_integration_test :: "raw \<Rightarrow> exn + string list" where
  "fmt_integration_test test =
     bindE (py_index test ''name'') (\<lambda>n.
     bindE (py_items test) (\<lambda>items.
     Inr ((''  '' @ py_str n @ '':'') # concat (map fmt_integration_item items))))"

definition fmt_test_vector :: "raw \<Rightarrow> exn + string list" where
  "fmt_test_vector vector =
     bindE (py_index vector ''input'') (\<lambda>i.
     bindE (py_index vector ''output'') (\<lambda>out.
     Inr [''    Input: '' @ py_str i, ''    Output: '' @ py_str out]))"

definition fmt_conformance_test :: "raw \<Rightarrow> exn + string list" where
  "fmt_conformance_test test =
     bindE (py_index test ''standard'') (\<lambda>st.
     bindE (py_in ''test_vectors'' test) (\<lambda>has_vectors.
     if has_vectors then
       bindE (py_index test ''test_vectors'') (\<lambda>tv.
       bindE (py_iter tv) (\<lambda>vectors.
       bindE (mapE fmt_test_vector vectors) (\<lambda>vs.
       Inr ([''  Standard: '' @ py_str st, ''  Test Vectors:''] @ concat vs))))
     else Inr [''  Standard: '' @ py_str st]))"

definition fmt_testing :: "Testing \<Rightarrow> exn + string list" where
  "fmt_testing ts =
     bindE (mapE fmt_unit_test (ts_unit_tests ts)) (\<lambda>l1.
     bindE (mapE fmt_integration_test (ts_integration_tests ts)) (\<lambda>l2.
     bindE (mapE fmt_conformance_test (ts_conformance_tests ts)) (\<lambda>l3.
     Inr ([''=== TESTING ==='', ''Unit Tests:''] @ concat l1
          @ [''Integration Tests:''] @ concat l2
          @ [''Conformance Tests:''] @ concat l3 @ [[]]))))"

definition fmt_code_style :: "CodeStyle \<Rightarrow> exn + string list" where
  "fmt_code_style cs =
     bindE (bullets ''  - '' (cs_indentation cs)) (\<lambda>l1.
     bindE (bullets ''  - '' (cs_comments cs)) (\<lambda>l2.
     bindE (bullets ''  - '' (cs_naming cs)) (\<lambda>l3.
     bindE (bullets ''  - '' (cs_organization cs)) (\<lambda>l4.
     Inr ([''=== CODE STYLE ==='', ''Indentation:''] @ l1
          @ [''Comments:''] @ l2
          @ [''Naming:''] @ l3
          @ [''Organization:''] @ l4)))))"

text \<open>The list \<^verbatim>\<open>lines\<close> when \<^verbatim>\<open>format_text\<close> reaches its return statement.\<close>

definition format_lines :: "Specification \<Rightarrow> exn + string list" where
  "format_lines spec =
     bindE (fmt_metadata (sp_metadata spec)) (\<lambda>s1.
     bindE (fmt_header_format (sp_header_format spec)) (\<lambda>s2.
     bindE (fmt_register_usage (sp_register_usage spec)) (\<lambda>s3.
     bindE (fmt_structures (sp_structures spec)) (\<lambda>s4.
     bindE (fmt_algorithms (sp_algorithms spec)) (\<lambda>s5.
     bindE (fmt_error_handling (sp_error_handling spec)) (\<lambda>s6.
     bindE (fmt_section_requirements (sp_section_requirements spec)) (\<lambda>s7.
     bindE (fmt_performance (sp_performance spec)) (\<lambda>s8.
     bindE (fmt_testing (sp_testing spec)) (\<lambda>s9.
     bindE (fmt_code_style (sp_code_style spec)) (\<lambda>s10.
     Inr (s1 @ s2 @ s3 @ s4 @ s5 @ s6 @ s7 @ s8 @ s9 @ s10)))))))))))"

definition format_text :: "Specification \<Rightarrow> exn + string" where
  "format_text spec = bindE (format_lines spec) (\<lambda>lines. Inr (join [CHR 0x0A] lines))"

subsection \<open>The forge operation: SpecForge\<close>

text \<open>\<^verbatim>\<open>_create_specification\<close>: the ten normalizers in the order of the keyword
  arguments (\<open>build_specification\<close> is the body of its \<^verbatim>\<open>try\<close>); a KeyError
  becomes a ValidationError, any other exception a SpecForgeError.\<close>

definition build_specification :: "raw \<Rightarrow> exn + Specification" where
  "build_specification data =
     bindE (process_metadata data) (\<lambda>v1.
     bindE (process_header_format data) (\<lambda>v2.
     bindE (process_register_usage data) (\<lambda>v3.
     bindE (process_data_structures data) (\<lambda>v4.
     bindE (process_algorithms data) (\<lambda>v5.
     bindE (process_error_handling data) (\<lambda>v6.
     bindE (process_section_requirements data) (\<lambda>v7.
     bindE (process_performance data) (\<lambda>v8.
     bindE (process_testing data) (\<lambda>v9.
     bindE (process_code_style data) (\<lambda>v10.
     Inr \<lparr>sp_metadata = v1, sp_header_format = v2, sp_register_usage = v3,
          sp_structures = v4, sp_algorithms = v5, sp_error_handling = v6,
          sp_section_requirements = v7, sp_performance = v8, sp_testing = v9,
          sp_code_style = v10\<rparr>))))))))))"

definition create_specification :: "raw \<Rightarrow> exn + Specification" where
  "create_specification data =
     (case build_specification data of
        Inl (KeyError k) \<Rightarrow> Inl (ValidationError (KeyError k))
      | Inl e \<Rightarrow> Inl (SpecForgeError_creating e)
      | Inr spec \<Rightarrow> Inr spec)"

text \<open>\<^verbatim>\<open>process_spec\<close>: every exception of the normalizer or the renderer is caught and
  raised again as a SpecForgeError.\<close>

definition process_spec :: "raw \<Rightarrow> exn + string" where
  "process_spec spec_data =
     (case bindE (create_specification spec_data) format_text of
        Inl e \<Rightarrow> Inl (SpecForgeError_failed e)
      | Inr report \<Rightarrow> Inr report)"

section \<open>Reference definitions and documents of the statements\<close>

text \<open>The value a raw mapping holds under a key, or \<open>None\<close> when the key is absent
  (or the value is no mapping at all).\<close>

definition raw_lookup :: "raw \<Rightarrow> string \<Rightarrow> raw option" where
  "raw_lookup x k = (case x of RDict kvs \<Rightarrow> map_of kvs k | _ \<Rightarrow> None)"

text \<open>The reconciliation rule for \<^verbatim>\<open>error_handling.strategies\<close> as the specification
  words it: a list becomes the single strategy \<^verbatim>\<open>general\<close>, a mapping is used as
  it is, anything else (absence too) becomes the empty mapping.\<close>

definition strategies_spec :: "raw option \<Rightarrow> raw" where
  "strategies_spec v =
     (case v of
        Some (RList l) \<Rightarrow> RDict [(''general'', RList l)]
      | Some (RDict m) \<Rightarrow> RDict m
      | _ \<Rightarrow> RDict [])"

text \<open>The expansion rules for the entries of \<^verbatim>\<open>testing\<close> as the specification words
  them: what the typed test case of a raw \<^verbatim>\<open>unit_tests\<close> entry must be, and the
  one-key wrapper of a bare string in \<^verbatim>\<open>integration_tests\<close> and
  \<^verbatim>\<open>conformance_tests\<close>.\<close>

definition unit_test_spec :: "raw \<Rightarrow> TestCase \<Rightarrow> bool" where
  "unit_test_spec entry tc =
     (case entry of
        RStr s \<Rightarrow>
          tc = \<lparr>tc_name = RStr s, tc_input = RStr ''TBD'', tc_expected_output = RStr ''TBD'',
                tc_validation = RList []\<rparr>
      | RDict kvs \<Rightarrow>
          map_of kvs ''name'' = Some (tc_name tc)
          \<and> tc_input tc = (case map_of kvs ''input'' of Some v \<Rightarrow> v | None \<Rightarrow> RStr ''TBD'')
          \<and> tc_expected_output tc =
              (case map_of kvs ''expected_output'' of Some v \<Rightarrow> v | None \<Rightarrow> RStr ''TBD'')
          \<and> tc_validation tc =
              (case map_of kvs ''validation'' of Some v \<Rightarrow> v | None \<Rightarrow> RList [])
      | _ \<Rightarrow> False)"

definition wrap_spec :: "string \<Rightarrow> raw \<Rightarrow> raw" where
  "wrap_spec key entry = (case entry of RStr s \<Rightarrow> RDict [(key, RStr s)] | _ \<Rightarrow> entry)"

text \<open>A testing section with a bare string and a mapping in each of its three lists;
  the unit tests hold a mapping without \<^verbatim>\<open>expected_output\<close> and a mapping with
  neither \<^verbatim>\<open>input\<close> nor \<^verbatim>\<open>expected_output\<close>.\<close>

definition testing_units :: "raw list" where
  "testing_units =
     [RStr ''smoke'', RDict [(''name'', RStr ''full''), (''input'', RStr ''abc'')],
      RDict [(''name'', RStr ''edge'')]]"

definition testing_integrations :: "raw list" where
  "testing_integrations =
     [RStr ''boot'', RDict [(''name'', RStr ''io''), (''steps'', RList [RStr ''open''])]]"

definition testing_conformances :: "raw list" where
  "testing_conformances = [RStr ''RFC 4648'', RDict [(''standard'', RStr ''MIME'')]]"

definition testing_section :: "(string \<times> raw) list" where
  "testing_section =
     [(''unit_tests'', RList testing_units),
      (''integration_tests'', RList testing_integrations),
      (''conformance_tests'', RList testing_conformances)]"

definition doc_testing :: raw where
  "doc_testing = RDict [(''testing'', RDict testing_section)]"

text \<open>The document of the end-to-end scenario: complete metadata, one structure with one
  field, and no other key.\<close>

definition doc_memcpy :: raw where
  "doc_memcpy = RDict
     [(''metadata'', RDict [(''name'', RStr ''memcpy_impl''), (''version'', RStr ''1.0''),
                            (''description'', RStr ''fast copy'')]),
      (''structures'', RDict [(''Header'', RDict [(''fields'', RList
          [RDict [(''name'', RStr ''len''), (''type'', RStr ''u32''),
                  (''description'', RStr ''length'')]])])])]"

text \<open>The default-valued instance of every section: what the normalizer returns for a
  document that does not have the section's key. \<open>default_specification md\<close> is the
  typed model of a document with metadata \<open>md\<close> and no other key.\<close>

definition default_header_format :: HeaderFormat where
  "default_header_format =
     \<lparr>hf_border_line = RStr [], hf_file_name_line = RStr [], hf_description_line = RStr [],
      hf_blank_comment = RStr [], hf_assembly_lines = RList [], hf_directives = RList []\<rparr>"

definition default_register_usage :: RegisterUsage where
  "default_register_usage = \<lparr>ru_general_purpose = []\<rparr>"

definition default_error_handling :: ErrorHandling where
  "default_error_handling =
     \<lparr>eh_strategies = RDict [], eh_error_types = [], eh_syscall_requirements = RList []\<rparr>"

definition default_section_requirements :: SectionRequirements where
  "default_section_requirements = \<lparr>sr_data = RList [], sr_bss = [], sr_text = RDict []\<rparr>"

definition default_performance :: Performance where
  "default_performance =
     \<lparr>pf_time_complexity = RStr [], pf_space_complexity = RStr [], pf_constraints = RList [],
      pf_register_usage = RList [], pf_memory_access = RList [], pf_benchmarks = []\<rparr>"

definition default_testing :: Testing where
  "default_testing =
     \<lparr>ts_unit_tests = [], ts_integration_tests = [], ts_conformance_tests = []\<rparr>"

definition default_code_style :: CodeStyle where
  "default_code_style =
     \<lparr>cs_indentation = RList [], cs_comments = RList [], cs_naming = RList [],
      cs_organization = RList []\<rparr>"

definition default_specification :: "raw \<Rightarrow> Specification" where
  "default_specification md =
     \<lparr>sp_metadata = md,
      sp_header_format = default_header_format,
      sp_register_usage = default_register_usage,
      sp_structures = [],
      sp_algorithms = [],
      sp_error_handling = default_error_handling,
      sp_section_requirements = default_section_requirements,
      sp_performance = default_performance,
      sp_testing = default_testing,
      sp_code_style = default_code_style\<rparr>"

text \<open>Complete metadata, and two documents whose testing section holds a mapping entry
  without the key the renderer indexes.\<close>

definition md_codec :: raw where
  "md_codec = RDict [(''name'', RStr ''codec''), (''version'', RStr ''2''),
                     (''description'', RStr ''base64 codec'')]"

definition doc_integration_nameless :: raw where
  "doc_integration_nameless = RDict
     [(''metadata'', md_codec),
      (''testing'', RDict [(''integration_tests'', RList
          [RDict [(''description'', RStr ''round trip'')]])])]"

definition doc_conformance_no_standard :: raw where
  "doc_conformance_no_standard = RDict
     [(''metadata'', md_codec),
      (''testing'', RDict [(''conformance_tests'', RList
          [RDict [(''test_vectors'', RList [])]])])]"

text \<open>A raw value that holds no null, at any depth.\<close>

fun no_null :: "raw \<Rightarrow> bool" where
  "no_null RNull = False"
| "no_null (RBool b) = True"
| "no_null (RInt i) = True"
| "no_null (RStr s) = True"
| "no_null (RList xs) = list_all no_null xs"
| "no_null (RDict kvs) = list_all (\<lambda>kv. no_null (snd kv)) kvs"

text \<open>The fields of the typed model that hold no null, entity by entity: every field but
  \<open>ri_byte_regs\<close> and \<open>bm_expected_time\<close>, which are either None or hold no null.\<close>

definition present_HeaderFormat :: "HeaderFormat \<Rightarrow> bool" where
  "present_HeaderFormat hf \<longleftrightarrow>
     no_null (hf_border_line hf) \<and> no_null (hf_file_name_line hf)
     \<and> no_null (hf_description_line hf) \<and> no_null (hf_blank_comment hf)
     \<and> no_null (hf_assembly_lines hf) \<and> no_null (hf_directives hf)"

definition present_RegisterInfo :: "RegisterInfo \<Rightarrow> bool" where
  "present_RegisterInfo r \<longleftrightarrow>
     no_null (ri_name r) \<and> no_null (ri_purpose r)
     \<and> (ri_byte_regs r = RNull \<or> no_null (ri_byte_regs r))
     \<and> no_null (ri_constraints r)"

definition present_Field :: "Field \<Rightarrow> bool" where
  "present_Field f \<longleftrightarrow>
     no_null (fd_name f) \<and> no_null (fd_type f) \<and> no_null (fd_description f)
     \<and> no_null (fd_constraints f)"

definition present_DataStructure :: "DataStructure \<Rightarrow> bool" where
  "present_DataStructure s \<longleftrightarrow>
     list_all present_Field (ds_fields s) \<and> no_null (ds_documentation s)
     \<and> no_null (ds_constraints s) \<and> no_null (ds_examples s) \<and> no_null (ds_complexity s)"

definition present_Algorithm :: "Algorithm \<Rightarrow> bool" where
  "present_Algorithm a \<longleftrightarrow>
     no_null (al_description a)
     \<and> no_null (ir_memory_operations (al_implementation_requirements a))
     \<and> no_null (ir_encoding_requirements (al_implementation_requirements a))
     \<and> no_null (ir_leftover_handling (al_implementation_requirements a))
     \<and> no_null (pr_one_byte (ir_padding_rules (al_implementation_requirements a)))
     \<and> no_null (pr_two_bytes (ir_padding_rules (al_implementation_requirements a)))
     \<and> no_null (al_steps a) \<and> no_null (al_complexity a) \<and> no_null (al_edge_cases a)
     \<and> no_null (al_preconditions a) \<and> no_null (al_postconditions a)
     \<and> no_null (al_invariants a) \<and> no_null (al_examples a)"

definition present_ErrorType :: "ErrorType \<Rightarrow> bool" where
  "present_ErrorType e \<longleftrightarrow>
     no_null (et_name e) \<and> no_null (et_description e) \<and> no_null (et_handling e)"

definition present_ErrorHandling :: "ErrorHandling \<Rightarrow> bool" where
  "present_ErrorHandling eh \<longleftrightarrow>
     no_null (eh_strategies eh) \<and> list_all present_ErrorType (eh_error_types eh)
     \<and> no_null (eh_syscall_requirements eh)"

definition present_BssVariable :: "BssVariable \<Rightarrow> bool" where
  "present_BssVariable v \<longleftrightarrow>
     no_null (bv_name v) \<and> no_null (bv_size v) \<and> no_null (bv_align v)
     \<and> no_null (bv_purpose v)"

definition present_SectionRequirements :: "SectionRequirements \<Rightarrow> bool" where
  "present_SectionRequirements sr \<longleftrightarrow>
     no_null (sr_data sr) \<and> list_all present_BssVariable (sr_bss sr) \<and> no_null (sr_text sr)"

definition present_Benchmark :: "Benchmark \<Rightarrow> bool" where
  "present_Benchmark b \<longleftrightarrow>
     no_null (bm_name b) \<and> no_null (bm_input_size b)
     \<and> (bm_expected_time b = RNull \<or> no_null (bm_expected_time b))
     \<and> no_null (bm_requirements b)"

definition present_Performance :: "Performance \<Rightarrow> bool" where
  "present_Performance p \<longleftrightarrow>
     no_null (pf_time_complexity p) \<and> no_null (pf_space_complexity p)
     \<and> no_null (pf_constraints p) \<and> no_null (pf_register_usage p)
     \<and> no_null (pf_memory_access p) \<and> list_all present_Benchmark (pf_benchmarks p)"

definition present_TestCase :: "TestCase \<Rightarrow> bool" where
  "present_TestCase t \<longleftrightarrow>
     no_null (tc_name t) \<and> no_null (tc_input t) \<and> no_null (tc_expected_output t)
     \<and> no_null (tc_validation t)"

definition present_Testing :: "Testing \<Rightarrow> bool" where
  "present_Testing t \<longleftrightarrow>
     list_all present_TestCase (ts_unit_tests t)
     \<and> list_all no_null (ts_integration_tests t)
     \<and> list_all no_null (ts_conformance_tests t)"

definition present_CodeStyle :: "CodeStyle \<Rightarrow> bool" where
  "present_CodeStyle c \<longleftrightarrow>
     no_null (cs_indentation c) \<and> no_null (cs_comments c) \<and> no_null (cs_naming c)
     \<and> no_null (cs_organization c)"

definition present_Specification :: "Specification \<Rightarrow> bool" where
  "present_Specification s \<longleftrightarrow>
     no_null (sp_metadata s)
     \<and> present_HeaderFormat (sp_header_format s)
     \<and> list_all present_RegisterInfo (ru_general_purpose (sp_register_usage s))
     \<and> list_all (\<lambda>kv. present_DataStructure (snd kv)) (sp_structures s)
     \<and> list_all (\<lambda>kv. present_Algorithm (snd kv)) (sp_algorithms s)
     \<and> present_ErrorHandling (sp_error_handling s)
     \<and> present_SectionRequirements (sp_section_requirements s)
     \<and> present_Performance (sp_performance s)
     \<and> present_Testing (sp_testing s)
     \<and> present_CodeStyle (sp_code_style s)"

text \<open>A register and a benchmark that supply their required keys only.\<close>

definition doc_register_benchmark :: raw where
  "doc_register_benchmark = RDict
     [(''metadata'', md_codec),
      (''register_usage'', RDict [(''general_purpose'', RList
          [RDict [(''name'', RStr ''rax''), (''purpose'', RStr ''accumulator'')]])]),
      (''performance'', RDict [(''benchmarks'', RList
          [RDict [(''name'', RStr ''bulk''), (''input_size'', RStr ''1 MiB'')]])])]"

text \<open>\<open>returns m Q\<close>: if the computation \<open>m\<close> returns, its result satisfies \<open>Q\<close>.\<close>

definition returns :: "'e + 'a \<Rightarrow> ('a \<Rightarrow> bool) \<Rightarrow> bool" where
  "returns m Q \<longleftrightarrow> (\<forall>v. m = Inr v \<longrightarrow> Q v)"

text \<open>The value of a key in a mapping, or a default when the key is absent.\<close>

definition field_or :: "(string \<times> raw) list \<Rightarrow> string \<Rightarrow> raw \<Rightarrow> raw" where
  "field_or m k d = (case map_of m k of Some v \<Rightarrow> v | None \<Rightarrow> d)"

text \<open>The first key of a list that a mapping does not have.\<close>

definition first_missing :: "(string \<times> raw) list \<Rightarrow> string list \<Rightarrow> string option" where
  "first_missing m ks = find (\<lambda>k. map_of m k = None) ks"

text \<open>The keys the normalizer reads by index (\<^verbatim>\<open>item[key]\<close>), and the exceptions its
  body can raise: a KeyError of one of these keys, an AttributeError or a TypeError.\<close>

definition required_keys :: "string list" where
  "required_keys = [''name'', ''purpose'', ''type'', ''size'', ''align'', ''input_size'']"

fun normalizer_exn :: "exn \<Rightarrow> bool" where
  "normalizer_exn (KeyError k) = (k \<in> set required_keys)"
| "normalizer_exn AttributeError = True"
| "normalizer_exn TypeError = True"
| "normalizer_exn _ = False"

text \<open>\<open>raises m E\<close>: if the computation \<open>m\<close> raises, the exception satisfies \<open>E\<close>.\<close>

definition raises :: "'e + 'a \<Rightarrow> ('e \<Rightarrow> bool) \<Rightarrow> bool" where
  "raises m E \<longleftrightarrow> (\<forall>e. m = Inl e \<longrightarrow> E e)"

text \<open>Complete metadata, and three items that each lack one required key: a register
  without \<^verbatim>\<open>purpose\<close>, a bss variable without \<^verbatim>\<open>align\<close>, a benchmark without
  \<^verbatim>\<open>input_size\<close>.\<close>

definition doc_missing_required :: raw where
  "doc_missing_required = RDict
     [(''metadata'', md_codec),
      (''register_usage'', RDict [(''general_purpose'', RList
          [RDict [(''name'', RStr ''rax'')]])]),
      (''section_requirements'', RDict [(''bss'', RDict [(''variables'', RList
          [RDict [(''name'', RStr ''buf''), (''size'', RInt 64),
                  (''purpose'', RStr ''scratch space'')]])])]),
      (''performance'', RDict [(''benchmarks'', RList
          [RDict [(''name'', RStr ''bulk'')]])])]"

text \<open>The keys of the document: the three mandatory metadata fields and the nine
  sections next to metadata. \<open>drop_keys K d\<close> is the mapping \<open>d\<close> without the keys in
  \<open>K\<close>, and \<open>empty_sections_lines\<close> are the lines the nine sections render to when
  all of them are absent.\<close>

definition metadata_keys :: "string list" where
  "metadata_keys = [''name'', ''version'', ''description'']"

definition section_keys :: "string list" where
  "section_keys = [''header_format'', ''register_usage'', ''structures'', ''algorithms'',
     ''error_handling'', ''section_requirements'', ''performance'', ''testing'',
     ''code_style'']"

definition drop_keys :: "string set \<Rightarrow> (string \<times> raw) list \<Rightarrow> (string \<times> raw) list" where
  "drop_keys K d = filter (\<lambda>kv. fst kv \<notin> K) d"

definition empty_sections_lines :: "string list" where
  "empty_sections_lines =
     [''=== HEADER FORMAT ==='', ''Border Line: '', ''Assembly Lines:'', ''Directives:'', [],
      ''=== REGISTER USAGE ==='',
      ''=== DATA STRUCTURES ==='',
      ''=== ALGORITHMS ==='',
      ''=== ERROR HANDLING ==='', ''Strategies:'', ''Error Types:'',
      ''Syscall Requirements:'', [],
      ''=== SECTION REQUIREMENTS ==='', ''Data Section:'', ''BSS Section:'',
      ''Text Section:'', [],
      ''=== PERFORMANCE ==='', ''Time Complexity: '', ''Space Complexity: '',
      ''Constraints:'', ''Register Usage:'', ''Memory Access:'', ''Benchmarks:'', [],
      ''=== TESTING ==='', ''Unit Tests:'', ''Integration Tests:'', ''Conformance Tests:'', [],
      ''=== CODE STYLE ==='', ''Indentation:'', ''Comments:'', ''Naming:'',
      ''Organization:'']"

text \<open>Complete metadata and a structure whose field has no \<^verbatim>\<open>type\<close>.\<close>

definition doc_field_no_type :: raw where
  "doc_field_no_type = RDict
     [(''metadata'', md_codec),
      (''structures'', RDict [(''Header'', RDict [(''fields'', RList
          [RDict [(''name'', RStr ''len'')]])])])]"

text \<open>The lines that carry the fields of a typed model, section by section and in the
  renderer's order, without the fixed labels: what the report must hold if the renderer
  drops no field it prints. \<open>items_of\<close> are the items of an iterable value,
  \<open>pairs_of\<close> the entries of a mapping, \<open>raw_at\<close> the value under a key;
  \<open>listed pre x\<close> is one line for each item of \<open>x\<close>, and \<open>named_lists x\<close>
  one label and its items for each entry of the mapping \<open>x\<close>. A field of a structure
  is the line \<open>name (type): description\<close>, a bss variable its name and the three
  lines of its size, alignment and purpose, and an integration test its name and, for
  every other key, the key with its value (a list value item by item under the key).\<close>

definition items_of :: "raw \<Rightarrow> raw list" where
  "items_of x = (case py_iter x of Inr xs \<Rightarrow> xs | Inl e \<Rightarrow> [])"

definition pairs_of :: "raw \<Rightarrow> (string \<times> raw) list" where
  "pairs_of x = (case x of RDict kvs \<Rightarrow> kvs | _ \<Rightarrow> [])"

definition raw_at :: "raw \<Rightarrow> string \<Rightarrow> raw" where
  "raw_at x k = (case raw_lookup x k of Some v \<Rightarrow> v | None \<Rightarrow> RNull)"

definition listed :: "string \<Rightarrow> raw \<Rightarrow> string list" where
  "listed pre x = map (\<lambda>v. pre @ py_str v) (items_of x)"

definition named_lists :: "raw \<Rightarrow> string list" where
  "named_lists x =
     concat (map (\<lambda>kv. (''  '' @ fst kv @ '':'') # listed ''    - '' (snd kv)) (pairs_of x))"

definition lines_metadata :: "raw \<Rightarrow> string list" where
  "lines_metadata md =
     [''Name: '' @ py_str (raw_at md ''name''),
      ''Version: '' @ py_str (raw_at md ''version''),
      ''Description: '' @ py_str (raw_at md ''description'')]"

definition lines_header_format :: "HeaderFormat \<Rightarrow> string list" where
  "lines_header_format hf =
     [''Border Line: '' @ py_str (hf_border_line hf)]
     @ listed ''  '' (hf_assembly_lines hf)
     @ listed ''  '' (hf_directives hf)"

definition lines_register :: "RegisterInfo \<Rightarrow> string list" where
  "lines_register reg =
     [''Register: '' @ py_str (ri_name reg), ''Purpose: '' @ py_str (ri_purpose reg)]
     @ (if py_truthy (ri_byte_regs reg)
        then [''Byte Registers: '' @ join '', '' (map the_str (items_of (ri_byte_regs reg)))]
        else [])
     @ listed ''  - '' (ri_constraints reg)"

definition lines_field :: "Field \<Rightarrow> string" where
  "lines_field f =
     concat [''  '', py_str (fd_name f), '' ('', py_str (fd_type f), ''): '',
             py_str (fd_description f)]"

definition lines_structure :: "string \<times> DataStructure \<Rightarrow> string list" where
  "lines_structure item =
     [''Structure: '' @ fst item, ''Documentation: '' @ py_str (ds_documentation (snd item))]
     @ map lines_field (ds_fields (snd item))
     @ listed ''  - '' (ds_constraints (snd item))"

definition lines_algorithm :: "string \<times> Algorithm \<Rightarrow> string list" where
  "lines_algorithm item =
     [''Algorithm: '' @ fst item, ''Description: '' @ py_str (al_description (snd item))]
     @ listed ''    - '' (ir_memory_operations (al_implementation_requirements (snd item)))
     @ listed ''    - '' (ir_encoding_requirements (al_implementation_requirements (snd item)))
     @ listed ''    - '' (ir_leftover_handling (al_implementation_requirements (snd item)))
     @ listed ''      - ''
         (pr_one_byte (ir_padding_rules (al_implementation_requirements (snd item))))
     @ listed ''      - ''
         (pr_two_bytes (ir_padding_rules (al_implementation_requirements (snd item))))
     @ named_lists (al_steps (snd item))
     @ listed ''  - '' (al_edge_cases (snd item))
     @ listed ''  - '' (al_preconditions (snd item))
     @ listed ''  - '' (al_postconditions (snd item))
     @ listed ''  - '' (al_invariants (snd item))"

definition lines_strategies :: "raw \<Rightarrow> string list" where
  "lines_strategies x =
     (case x of RDict kvs \<Rightarrow> named_lists x | RList xs \<Rightarrow> listed ''  - '' x | _ \<Rightarrow> [])"

definition lines_error_type :: "ErrorType \<Rightarrow> string list" where
  "lines_error_type err =
     [''  '' @ py_str (et_name err) @ '':'',
      ''    Description: '' @ py_str (et_description err)]
     @ listed ''      - '' (et_handling err)"

definition lines_error_handling :: "ErrorHandling \<Rightarrow> string list" where
  "lines_error_handling eh =
     lines_strategies (eh_strategies eh)
     @ concat (map lines_error_type (eh_error_types eh))
     @ listed ''  - '' (eh_syscall_requirements eh)"

definition lines_bss_variable :: "BssVariable \<Rightarrow> string list" where
  "lines_bss_variable v =
     [''  '' @ py_str (bv_name v) @ '':'',
      ''    Size: '' @ py_str (bv_size v),
      ''    Align: '' @ py_str (bv_align v),
      ''    Purpose: '' @ py_str (bv_purpose v)]"

definition lines_section_requirements :: "SectionRequirements \<Rightarrow> string list" where
  "lines_section_requirements sr =
     listed ''  - '' (sr_data sr)
     @ concat (map lines_bss_variable (sr_bss sr))
     @ named_lists (sr_text sr)"

definition lines_benchmark :: "Benchmark \<Rightarrow> string list" where
  "lines_benchmark bench =
     [''  '' @ py_str (bm_name bench) @ '':'',
      ''    Input Size: '' @ py_str (bm_input_size bench)]
     @ (if py_truthy (bm_expected_time bench)
        then [''    Expected Time: '' @ py_str (bm_expected_time bench)] else [])
     @ listed ''      - '' (bm_requirements bench)"

definition lines_performance :: "Performance \<Rightarrow> string list" where
  "lines_performance pf =
     [''Time Complexity: '' @ py_str (pf_time_complexity pf),
      ''Space Complexity: '' @ py_str (pf_space_complexity pf)]
     @ listed ''  - '' (pf_constraints pf)
     @ listed ''  - '' (pf_register_usage pf)
     @ listed ''  - '' (pf_memory_access pf)
     @ concat (map lines_benchmark (pf_benchmarks pf))"

definition lines_unit_test :: "TestCase \<Rightarrow> string list" where
  "lines_unit_test test =
     [''  '' @ py_str (tc_name test) @ '':'',
      ''    Input: '' @ py_str (tc_input test),
      ''    Expected Output: '' @ py_str (tc_expected_output test)]
     @ listed ''      - '' (tc_validation test)"

definition lines_integration_key :: "string \<times> raw \<Rightarrow> string list" where
  "lines_integration_key kv =
     (if is_list (snd kv) then (''    '' @ fst kv @ '':'') # listed ''      - '' (snd kv)
      else [''    '' @ fst kv @ '': '' @ py_str (snd kv)])"

definition lines_integration_test :: "raw \<Rightarrow> string list" where
  "lines_integration_test test =
     (''  '' @ py_str (raw_at test ''name'') @ '':'')
     # concat (map lines_integration_key
                (filter (\<lambda>kv. fst kv \<noteq> ''name'') (pairs_of test)))"

definition lines_test_vector :: "raw \<Rightarrow> string list" where
  "lines_test_vector vector =
     [''    Input: '' @ py_str (raw_at vector ''input''),
      ''    Output: '' @ py_str (raw_at vector ''output'')]"

definition lines_conformance_test :: "raw \<Rightarrow> string list" where
  "lines_conformance_test test =
     (''  Standard: '' @ py_str (raw_at test ''standard''))
     # concat (map lines_test_vector (items_of (raw_at test ''test_vectors'')))"

definition lines_testing :: "Testing \<Rightarrow> string list" where
  "lines_testing ts =
     concat (map lines_unit_test (ts_unit_tests ts))
     @ concat (map lines_integration_test (ts_integration_tests ts))
     @ concat (map lines_conformance_test (ts_conformance_tests ts))"

definition lines_code_style :: "CodeStyle \<Rightarrow> string list" where
  "lines_code_style cs =
     listed ''  - '' (cs_indentation cs) @ listed ''  - '' (cs_comments cs)
     @ listed ''  - '' (cs_naming cs) @ listed ''  - '' (cs_organization cs)"

definition field_lines :: "Specification \<Rightarrow> string list" where
  "field_lines spec =
     lines_metadata (sp_metadata spec)
     @ lines_header_format (sp_header_format spec)
     @ concat (map lines_register (ru_general_purpose (sp_register_usage spec)))
     @ concat (map lines_structure (sp_structures spec))
     @ concat (map lines_algorithm (sp_algorithms spec))
     @ lines_error_handling (sp_error_handling spec)
     @ lines_section_requirements (sp_section_requirements spec)
     @ lines_performance (sp_performance spec)
     @ lines_testing (sp_testing spec)
     @ lines_code_style (sp_code_style spec)"

text \<open>The typed model with the fields the renderer never prints set to their defaults:
  three fields of the header format, the constraints of a structure's fields, the examples
  and the complexity of a structure and of an algorithm.\<close>

definition erase_unrendered :: "Specification \<Rightarrow> Specification" where
  "erase_unrendered spec =
     spec
     \<lparr>sp_header_format :=
        (sp_header_format spec)
        \<lparr>hf_file_name_line := RStr [], hf_description_line := RStr [],
         hf_blank_comment := RStr []\<rparr>,
      sp_structures :=
        map (\<lambda>item.
               (fst item,
                (snd item)
                \<lparr>ds_fields := map (\<lambda>f. f\<lparr>fd_constraints := RList []\<rparr>) (ds_fields (snd item)),
                 ds_examples := RList [], ds_complexity := RDict []\<rparr>))
            (sp_structures spec),
      sp_algorithms :=
        map (\<lambda>item. (fst item, (snd item)\<lparr>al_complexity := RDict [], al_examples := RList []\<rparr>))
            (sp_algorithms spec)\<rparr>"

text \<open>A document that populates fields the renderer never prints, and its report.\<close>

definition doc_unrendered :: raw where
  "doc_unrendered = RDict
     [(''metadata'', md_codec),
      (''header_format'', RDict
         [(''border_line'', RStr '';====''),
          (''file_name_line'', RStr ''; File: b64.asm''),
          (''description_line'', RStr ''; Encoder & decoder''),
          (''blank_comment'', RStr '';'')]),
      (''structures'', RDict [(''Table'', RDict
         [(''examples'', RList [RStr ''Table{size=64}'']),
          (''complexity'', RDict [(''lookup'', RStr ''O(1)'')])])]),
      (''algorithms'', RDict [(''encode'', RDict
         [(''complexity'', RDict [(''time'', RStr ''O(n)'')]),
          (''examples'', RList [RDict [(''input'', RStr ''Man''), (''output'', RStr ''TWFu'')]])])])]"

definition lines_unrendered :: "string list" where
  "lines_unrendered =
     [''=== SPECIFICATION ==='', ''Name: codec'', ''Version: 2'',
      ''Description: base64 codec'', [],
      ''=== HEADER FORMAT ==='', ''Border Line: ;===='', ''Assembly Lines:'',
      ''Directives:'', [],
      ''=== REGISTER USAGE ==='',
      ''=== DATA STRUCTURES ==='', ''Structure: Table'', ''Documentation: '',
      ''Fields:'', [],
      ''=== ALGORITHMS ==='', ''Algorithm: encode'', ''Description: '',
      ''Implementation Requirements:'', ''  Memory Operations:'',
      ''  Encoding Requirements:'', ''  Leftover Handling:'',
      ''  Padding Rules:'', ''    One Byte:'', ''    Two Bytes:'',
      ''Steps:'', [],
      ''=== ERROR HANDLING ==='', ''Strategies:'', ''Error Types:'',
      ''Syscall Requirements:'', [],
      ''=== SECTION REQUIREMENTS ==='', ''Data Section:'', ''BSS Section:'',
      ''Text Section:'', [],
      ''=== PERFORMANCE ==='', ''Time Complexity: '', ''Space Complexity: '',
      ''Constraints:'', ''Register Usage:'', ''Memory Access:'', ''Benchmarks:'', [],
      ''=== TESTING ==='', ''Unit Tests:'', ''Integration Tests:'',
      ''Conformance Tests:'', [],
      ''=== CODE STYLE ==='', ''Indentation:'', ''Comments:'', ''Naming:'',
      ''Organization:'']"

text \<open>The lines that name the algorithms of a raw \<^verbatim>\<open>algorithms\<close> mapping and list
  their steps, in the order of the mapping: for each algorithm its name line, the label
  \<open>Steps:\<close>, and each step of its raw \<^verbatim>\<open>steps\<close> mapping with its actions.
  A plain line is a line that does not start with \<open>Algorithm: \<close>.\<close>

definition algorithm_order_lines :: "(string \<times> raw) list \<Rightarrow> string list" where
  "algorithm_order_lines algos =
     concat (map (\<lambda>item. (''Algorithm: '' @ fst item) # ''Steps:''
                          # named_lists (raw_at (snd item) ''steps'')) algos)"

definition plain_line :: "string \<Rightarrow> bool" where
  "plain_line l \<longleftrightarrow> \<not> prefix ''Algorithm: '' l"

text \<open>A document with two algorithms, not in alphabetical order, and its report.\<close>

definition algos_two :: "(string \<times> raw) list" where
  "algos_two =
     [(''encode'', RDict [(''steps'', RDict
         [(''split'', RList [RStr ''read 3 bytes'', RStr ''cut into 4 sextets'']),
          (''emit'', RList [RStr ''look up each sextet''])])]),
      (''decode'', RDict [(''steps'', RDict
         [(''collect'', RList [RStr ''read 4 characters''])])])]"

definition doc_two_algorithms :: raw where
  "doc_two_algorithms = RDict [(''metadata'', md_codec), (''algorithms'', RDict algos_two)]"

definition lines_two_algorithms :: "string list" where
  "lines_two_algorithms =
     [''=== SPECIFICATION ==='', ''Name: codec'', ''Version: 2'',
      ''Description: base64 codec'', [],
      ''=== HEADER FORMAT ==='', ''Border Line: '', ''Assembly Lines:'', ''Directives:'', [],
      ''=== REGISTER USAGE ==='',
      ''=== DATA STRUCTURES ==='',
      ''=== ALGORITHMS ==='',
      ''Algorithm: encode'', ''Description: '', ''Implementation Requirements:'',
      ''  Memory Operations:'', ''  Encoding Requirements:'', ''  Leftover Handling:'',
      ''  Padding Rules:'', ''    One Byte:'', ''    Two Bytes:'',
      ''Steps:'', ''  split:'', ''    - read 3 bytes'', ''    - cut into 4 sextets'',
      ''  emit:'', ''    - look up each sextet'', [],
      ''Algorithm: decode'', ''Description: '', ''Implementation Requirements:'',
      ''  Memory Operations:'', ''  Encoding Requirements:'', ''  Leftover Handling:'',
      ''  Padding Rules:'', ''    One Byte:'', ''    Two Bytes:'',
      ''Steps:'', ''  collect:'', ''    - read 4 characters'', [],
      ''=== ERROR HANDLING ==='', ''Strategies:'', ''Error Types:'',
      ''Syscall Requirements:'', [],
      ''=== SECTION REQUIREMENTS ==='', ''Data Section:'', ''BSS Section:'',
      ''Text Section:'', [],
      ''=== PERFORMANCE ==='', ''Time Complexity: '', ''Space Complexity: '',
      ''Constraints:'', ''Register Usage:'', ''Memory Access:'', ''Benchmarks:'', [],
      ''=== TESTING ==='', ''Unit Tests:'', ''Integration Tests:'',
      ''Conformance Tests:'', [],
      ''=== CODE STYLE ==='', ''Indentation:'', ''Comments:'', ''Naming:'',
      ''Organization:'']"




text \<open>A document that populates fields of every kind the renderer prints (a header
  format, a structure with a field, a bss variable, an integration test with a list, a
  nested list holding a no-break space, and a number), and its report.\<close>

definition doc_rendered :: raw where
  "doc_rendered = RDict
     [(''metadata'', md_codec),
      (''header_format'', RDict
         [(''border_line'', RStr '';====''),
          (''assembly_lines'', RList [RStr ''; build: nasm'']),
          (''file_name_line'', RStr ''; File: b64.asm'')]),
      (''structures'', RDict [(''Table'', RDict [(''fields'', RList
         [RDict [(''name'', RStr ''size''), (''type'', RStr ''u8''),
                 (''description'', RStr ''entries''),
                 (''constraints'', RList [RStr ''at most 64''])]])])]),
      (''section_requirements'', RDict [(''bss'', RDict [(''variables'', RList
         [RDict [(''name'', RStr ''buf''), (''size'', RInt 64), (''align'', RInt 16),
                 (''purpose'', RStr ''scratch'')]])])]),
      (''testing'', RDict [(''integration_tests'', RList
         [RDict [(''name'', RStr ''io''),
                 (''steps'', RList [RStr ''open'', RStr ''close'']),
                 (''tags'', RList [RList [RStr (''a'' @ [CHR 0xA0] @ ''b'')]]),
                 (''timeout'', RInt 5)]])])]"

definition fields_rendered :: "string list" where
  "fields_rendered =
     [''Name: codec'', ''Version: 2'', ''Description: base64 codec'',
      ''Border Line: ;===='', ''  ; build: nasm'',
      ''Structure: Table'', ''Documentation: '', ''  size (u8): entries'',
      ''  buf:'', ''    Size: 64'', ''    Align: 16'', ''    Purpose: scratch'',
      ''Time Complexity: '', ''Space Complexity: '',
      ''  io:'', ''    steps:'', ''      - open'', ''      - close'', ''    tags:'',
      ''      - ['' @ [CHR 0x27] @ ''a'' @ [CHR 0x5C] @ ''xa0b'' @ [CHR 0x27] @ '']'',
      ''    timeout: 5'']"

definition lines_rendered :: "string list" where
  "lines_rendered =
     [''=== SPECIFICATION ==='', ''Name: codec'', ''Version: 2'',
      ''Description: base64 codec'', [],
      ''=== HEADER FORMAT ==='', ''Border Line: ;===='', ''Assembly Lines:'',
      ''  ; build: nasm'', ''Directives:'', [],
      ''=== REGISTER USAGE ==='',
      ''=== DATA STRUCTURES ==='', ''Structure: Table'', ''Documentation: '',
      ''Fields:'', ''  size (u8): entries'', [],
      ''=== ALGORITHMS ==='',
      ''=== ERROR HANDLING ==='', ''Strategies:'', ''Error Types:'',
      ''Syscall Requirements:'', [],
      ''=== SECTION REQUIREMENTS ==='', ''Data Section:'', ''BSS Section:'',
      ''  buf:'', ''    Size: 64'', ''    Align: 16'', ''    Purpose: scratch'',
      ''Text Section:'', [],
      ''=== PERFORMANCE ==='', ''Time Complexity: '', ''Space Complexity: '',
      ''Constraints:'', ''Register Usage:'', ''Memory Access:'', ''Benchmarks:'', [],
      ''=== TESTING ==='', ''Unit Tests:'', ''Integration Tests:'',
      ''  io:'', ''    steps:'', ''      - open'', ''      - close'', ''    tags:'',
      ''      - ['' @ [CHR 0x27] @ ''a'' @ [CHR 0x5C] @ ''xa0b'' @ [CHR 0x27] @ '']'',
      ''    timeout: 5'',
      ''Conformance Tests:'', [],
      ''=== CODE STYLE ==='', ''Indentation:'', ''Comments:'', ''Naming:'',
      ''Organization:'']"

text \<open>\<open>succeeds m Q\<close>: the computation \<open>m\<close> returns, and its result satisfies
  \<open>Q\<close>.\<close>

definition succeeds :: "'e + 'a \<Rightarrow> ('a \<Rightarrow> bool) \<Rightarrow> bool" where
  "succeeds m Q = (case m of Inr v \<Rightarrow> Q v | Inl e \<Rightarrow> False)"

text \<open>
  The shape of a raw document on which nothing but the required keys of an item is
  needed. \<open>opt_field m k P\<close> says that the key \<open>k\<close> is absent from the mapping
  \<open>m\<close>, or holds a value that satisfies \<open>P\<close>: every key constrained in this way
  may be left out. A value is iterable when \<^verbatim>\<open>for v in x\<close> does not raise (a list,
  a string or a mapping); \<open>list_or_empty\<close> is the shape of a list the renderer prints
  under \<^verbatim>\<open>if x:\<close> (a false value is never iterated), \<open>names_or_empty\<close> the shape
  of \<^verbatim>\<open>byte_regs\<close>, which the renderer joins with \<^verbatim>\<open>', '.join\<close> (its items
  must be strings); \<open>mapping_of P\<close> is a mapping that satisfies \<open>P\<close>,
  \<open>items_are P\<close> an iterable value whose items satisfy \<open>P\<close>, and
  \<open>lists_by_name\<close> a mapping whose values are iterable.
\<close>

definition opt_field :: "(string \<times> raw) list \<Rightarrow> string \<Rightarrow> (raw \<Rightarrow> bool) \<Rightarrow> bool" where
  "opt_field m k P = (case map_of m k of None \<Rightarrow> True | Some v \<Rightarrow> P v)"

definition iterable :: "raw \<Rightarrow> bool" where
  "iterable x = (case py_iter x of Inr xs \<Rightarrow> True | Inl e \<Rightarrow> False)"

definition list_or_empty :: "raw \<Rightarrow> bool" where
  "list_or_empty x = (if py_truthy x then iterable x else True)"

definition names_or_empty :: "raw \<Rightarrow> bool" where
  "names_or_empty x = (if py_truthy x then iterable x \<and> list_all is_str (items_of x) else True)"

definition mapping_of :: "((string \<times> raw) list \<Rightarrow> bool) \<Rightarrow> raw \<Rightarrow> bool" where
  "mapping_of P x = (case x of RDict m \<Rightarrow> P m | _ \<Rightarrow> False)"

definition items_are :: "(raw \<Rightarrow> bool) \<Rightarrow> raw \<Rightarrow> bool" where
  "items_are P x \<longleftrightarrow> iterable x \<and> list_all P (items_of x)"

definition lists_by_name :: "raw \<Rightarrow> bool" where
  "lists_by_name = mapping_of (list_all (\<lambda>kv. iterable (snd kv)))"

text \<open>
  Section by section: what the normalizer and the renderer read of a present value. An
  item needs its required keys (read with \<^verbatim>\<open>item[key]\<close>); every other key is
  optional. A unit test, an integration test and a conformance test may also be a bare
  string; an integration test that is a mapping needs the \<^verbatim>\<open>name\<close> the renderer
  indexes, a conformance test its \<^verbatim>\<open>standard\<close>, a test vector its \<^verbatim>\<open>input\<close>
  and \<^verbatim>\<open>output\<close>. An entry of \<^verbatim>\<open>error_types\<close> that is neither a string nor a
  mapping is skipped, and a \<^verbatim>\<open>strategies\<close> value of any shape is accepted.
\<close>

definition header_format_ok :: "raw \<Rightarrow> bool" where
  "header_format_ok =
     mapping_of (\<lambda>m. opt_field m ''assembly_lines'' iterable
                    \<and> opt_field m ''directives'' iterable)"

definition register_ok :: "raw \<Rightarrow> bool" where
  "register_ok =
     mapping_of (\<lambda>m. first_missing m [''name'', ''purpose''] = None
                    \<and> opt_field m ''byte_regs'' names_or_empty
                    \<and> opt_field m ''constraints'' list_or_empty)"

definition register_usage_ok :: "raw \<Rightarrow> bool" where
  "register_usage_ok = mapping_of (\<lambda>m. opt_field m ''general_purpose'' (items_are register_ok))"

definition field_ok :: "raw \<Rightarrow> bool" where
  "field_ok = mapping_of (\<lambda>m. first_missing m [''name'', ''type''] = None)"

definition structure_ok :: "raw \<Rightarrow> bool" where
  "structure_ok =
     mapping_of (\<lambda>m. opt_field m ''fields'' (items_are field_ok)
                    \<and> opt_field m ''constraints'' list_or_empty)"

definition structures_ok :: "raw \<Rightarrow> bool" where
  "structures_ok = mapping_of (list_all (\<lambda>kv. structure_ok (snd kv)))"

definition padding_rules_ok :: "raw \<Rightarrow> bool" where
  "padding_rules_ok =
     mapping_of (\<lambda>p. opt_field p ''one_byte'' iterable \<and> opt_field p ''two_bytes'' iterable)"

definition implementation_requirements_ok :: "raw \<Rightarrow> bool" where
  "implementation_requirements_ok =
     mapping_of (\<lambda>i. opt_field i ''padding_rules'' padding_rules_ok
                    \<and> opt_field i ''memory_operations'' iterable
                    \<and> opt_field i ''encoding_requirements'' iterable
                    \<and> opt_field i ''leftover_handling'' iterable)"

definition algorithm_ok :: "raw \<Rightarrow> bool" where
  "algorithm_ok =
     mapping_of (\<lambda>m. opt_field m ''implementation_requirements'' implementation_requirements_ok
                    \<and> opt_field m ''steps'' lists_by_name
                    \<and> opt_field m ''edge_cases'' list_or_empty
                    \<and> opt_field m ''preconditions'' list_or_empty
                    \<and> opt_field m ''postconditions'' list_or_empty
                    \<and> opt_field m ''invariants'' list_or_empty)"

definition algorithms_ok :: "raw \<Rightarrow> bool" where
  "algorithms_ok = mapping_of (list_all (\<lambda>kv. algorithm_ok (snd kv)))"

definition error_type_ok :: "raw \<Rightarrow> bool" where
  "error_type_ok e =
     (case e of
        RDict m \<Rightarrow> first_missing m [''name''] = None \<and> opt_field m ''handling'' iterable
      | _ \<Rightarrow> True)"

definition strategies_ok :: "raw \<Rightarrow> bool" where
  "strategies_ok s =
     (case s of RDict m \<Rightarrow> list_all (\<lambda>kv. iterable (snd kv)) m | _ \<Rightarrow> True)"

definition error_handling_ok :: "raw \<Rightarrow> bool" where
  "error_handling_ok =
     mapping_of (\<lambda>m. opt_field m ''error_types'' (items_are error_type_ok)
                    \<and> opt_field m ''strategies'' strategies_ok
                    \<and> opt_field m ''syscall_requirements'' iterable)"

definition bss_variable_ok :: "raw \<Rightarrow> bool" where
  "bss_variable_ok =
     mapping_of (\<lambda>m. first_missing m [''name'', ''size'', ''align'', ''purpose''] = None)"

definition section_requirements_ok :: "raw \<Rightarrow> bool" where
  "section_requirements_ok =
     mapping_of (\<lambda>m. opt_field m ''bss''
                        (mapping_of (\<lambda>b. opt_field b ''variables'' (items_are bss_variable_ok)))
                    \<and> opt_field m ''data'' iterable
                    \<and> opt_field m ''text'' lists_by_name)"

definition benchmark_ok :: "raw \<Rightarrow> bool" where
  "benchmark_ok =
     mapping_of (\<lambda>m. first_missing m [''name'', ''input_size''] = None
                    \<and> opt_field m ''requirements'' list_or_empty)"

definition performance_ok :: "raw \<Rightarrow> bool" where
  "performance_ok =
     mapping_of (\<lambda>m. opt_field m ''benchmarks'' (items_are benchmark_ok)
                    \<and> opt_field m ''constraints'' iterable
                    \<and> opt_field m ''register_usage'' iterable
                    \<and> opt_field m ''memory_access'' iterable)"

definition unit_test_ok :: "raw \<Rightarrow> bool" where
  "unit_test_ok t =
     (case t of
        RStr s \<Rightarrow> True
      | RDict m \<Rightarrow> first_missing m [''name''] = None \<and> opt_field m ''validation'' list_or_empty
      | _ \<Rightarrow> False)"

definition integration_test_ok :: "raw \<Rightarrow> bool" where
  "integration_test_ok t =
     (case t of RStr s \<Rightarrow> True | RDict m \<Rightarrow> first_missing m [''name''] = None | _ \<Rightarrow> False)"

definition test_vector_ok :: "raw \<Rightarrow> bool" where
  "test_vector_ok = mapping_of (\<lambda>m. first_missing m [''input'', ''output''] = None)"

definition conformance_test_ok :: "raw \<Rightarrow> bool" where
  "conformance_test_ok t =
     (case t of
        RStr s \<Rightarrow> True
      | RDict m \<Rightarrow> first_missing m [''standard''] = None
                   \<and> opt_field m ''test_vectors'' (items_are test_vector_ok)
      | _ \<Rightarrow> False)"

definition testing_ok :: "raw \<Rightarrow> bool" where
  "testing_ok =
     mapping_of (\<lambda>m. opt_field m ''unit_tests'' (items_are unit_test_ok)
                    \<and> opt_field m ''integration_tests'' (items_are integration_test_ok)
                    \<and> opt_field m ''conformance_tests'' (items_are conformance_test_ok))"

definition code_style_ok :: "raw \<Rightarrow> bool" where
  "code_style_ok =
     mapping_of (\<lambda>m. opt_field m ''indentation'' iterable \<and> opt_field m ''comments'' iterable
                    \<and> opt_field m ''naming'' iterable \<and> opt_field m ''organization'' iterable)"

definition well_shaped :: "(string \<times> raw) list \<Rightarrow> bool" where
  "well_shaped d \<longleftrightarrow>
     opt_field d ''header_format'' header_format_ok
     \<and> opt_field d ''register_usage'' register_usage_ok
     \<and> opt_field d ''structures'' structures_ok
     \<and> opt_field d ''algorithms'' algorithms_ok
     \<and> opt_field d ''error_handling'' error_handling_ok
     \<and> opt_field d ''section_requirements'' section_requirements_ok
     \<and> opt_field d ''performance'' performance_ok
     \<and> opt_field d ''testing'' testing_ok
     \<and> opt_field d ''code_style'' code_style_ok"

text \<open>A document in which every section is present and every item supplies its required
  keys only.\<close>

definition sparse_sections :: "(string \<times> raw) list" where
  "sparse_sections =
     [(''metadata'', md_codec),
      (''header_format'', RDict []),
      (''register_usage'', RDict [(''general_purpose'', RList
         [RDict [(''name'', RStr ''rax''), (''purpose'', RStr ''accumulator'')]])]),
      (''structures'', RDict [(''Table'', RDict [(''fields'', RList
         [RDict [(''name'', RStr ''size''), (''type'', RStr ''u8'')]])])]),
      (''algorithms'', RDict [(''encode'', RDict [])]),
      (''error_handling'', RDict [(''error_types'', RList
         [RDict [(''name'', RStr ''overflow'')]])]),
      (''section_requirements'', RDict [(''bss'', RDict [(''variables'', RList
         [RDict [(''name'', RStr ''buf''), (''size'', RInt 64), (''align'', RInt 16),
                 (''purpose'', RStr ''scratch'')]])])]),
      (''performance'', RDict [(''benchmarks'', RList
         [RDict [(''name'', RStr ''bulk''), (''input_size'', RStr ''1 MiB'')]])]),
      (''testing'', RDict
         [(''unit_tests'', RList [RDict [(''name'', RStr ''edge'')]]),
          (''integration_tests'', RList [RDict [(''name'', RStr ''io'')]]),
          (''conformance_tests'', RList [RDict [(''standard'', RStr ''MIME'')]])]),
      (''code_style'', RDict [])]"

text \<open>An item that is a mapping and lacks one of the keys \<open>ks\<close>, and a document that
  holds such an item for the keys its normalizer reads by index: a register, a field of a
  structure, an error type, a bss variable, a benchmark or a unit test.\<close>

definition lacks :: "string list \<Rightarrow> raw \<Rightarrow> bool" where
  "lacks ks item = (case item of RDict m \<Rightarrow> first_missing m ks \<noteq> None | _ \<Rightarrow> False)"

definition item_lacks_required :: "raw \<Rightarrow> bool" where
  "item_lacks_required data \<longleftrightarrow>
     list_ex (lacks [''name'', ''purpose''])
       (items_of (raw_at (raw_at data ''register_usage'') ''general_purpose''))
     \<or> list_ex (\<lambda>s. list_ex (lacks [''name'', ''type'']) (items_of (raw_at (snd s) ''fields'')))
         (pairs_of (raw_at data ''structures''))
     \<or> list_ex (lacks [''name''])
         (items_of (raw_at (raw_at data ''error_handling'') ''error_types''))
     \<or> list_ex (lacks [''name'', ''size'', ''align'', ''purpose''])
         (items_of (raw_at (raw_at (raw_at data ''section_requirements'') ''bss'') ''variables''))
     \<or> list_ex (lacks [''name'', ''input_size''])
         (items_of (raw_at (raw_at data ''performance'') ''benchmarks''))
     \<or> list_ex (lacks [''name''])
         (items_of (raw_at (raw_at data ''testing'') ''unit_tests''))"

text \<open>The exception of a computation, if it raises; the exceptions of the ten section
  normalizers, in the order \<^verbatim>\<open>_create_specification\<close> calls them; and the first
  exception of such a list.\<close>

definition err_of :: "'e + 'a \<Rightarrow> 'e option" where
  "err_of m = (case m of Inl e \<Rightarrow> Some e | Inr v \<Rightarrow> None)"

definition section_errors :: "raw \<Rightarrow> exn option list" where
  "section_errors data =
     [err_of (process_metadata data), err_of (process_header_format data),
      err_of (process_register_usage data), err_of (process_data_structures data),
      err_of (process_algorithms data), err_of (process_error_handling data),
      err_of (process_section_requirements data), err_of (process_performance data),
      err_of (process_testing data), err_of (process_code_style data)]"

fun first_error :: "exn option list \<Rightarrow> exn option" where
  "first_error [] = None"
| "first_error (None # es) = first_error es"
| "first_error (Some e # es) = Some e"

definition is_key_error :: "exn \<Rightarrow> bool" where
  "is_key_error e = (case e of KeyError k \<Rightarrow> True | _ \<Rightarrow> False)"

section \<open>Basic facts about the Python operations\<close>

lemma bindE_Inl [simp]: "bindE (Inl e) f = Inl e"
  by (simp add: bindE_def)

lemma bindE_Inr [simp]: "bindE (Inr x) f = f x"
  by (simp add: bindE_def)

lemma bindE_eq_Inr: "bindE m f = Inr y \<longleftrightarrow> (\<exists>x. m = Inr x \<and> f x = Inr y)"
  by (cases m) simp_all

lemma bindE_eq_Inl: "bindE m f = Inl e \<longleftrightarrow> m = Inl e \<or> (\<exists>x. m = Inr x \<and> f x = Inl e)"
  by (cases m) simp_all

lemma mapE_eq_Inr: "mapE f xs = Inr ys \<longleftrightarrow> list_all2 (\<lambda>x y. f x = Inr y) xs ys"
proof (induction xs arbitrary: ys)
  case Nil
  show ?case by auto
next
  case (Cons x xs)
  show ?case
    by (cases ys) (auto simp: bindE_eq_Inr Cons.IH)
qed

lemma mapE_total: "mapE (\<lambda>x. Inr (g x)) xs = Inr (map g xs)"
  by (induction xs) simp_all

lemma mapE_eq_Inl: "mapE f xs = Inl e \<Longrightarrow> \<exists>x \<in> set xs. f x = Inl e"
  by (induction xs) (auto simp: bindE_eq_Inl)

lemma mapE_fails: "x \<in> set xs \<Longrightarrow> f x = Inl e \<Longrightarrow> \<exists>e'. mapE f xs = Inl e'"
proof (induction xs)
  case Nil
  then show ?case by simp
next
  case (Cons a xs)
  show ?case
  proof (cases "f a")
    case (Inl e0)
    then show ?thesis by simp
  next
    case (Inr y)
    show ?thesis
    proof (cases "a = x")
      case True
      with Inr Cons.prems show ?thesis by simp
    next
      case False
      with Cons obtain e' where "mapE f xs = Inl e'" by auto
      with Inr show ?thesis by simp
    qed
  qed
qed

lemma py_get_dict [simp]:
  "py_get (RDict kvs) k d = Inr (case map_of kvs k of Some v \<Rightarrow> v | None \<Rightarrow> d)"
  by (simp add: py_get_def)

lemma py_get_eq_Inr:
  "py_get x k d = Inr v \<longleftrightarrow>
     (\<exists>kvs. x = RDict kvs \<and> v = (case map_of kvs k of Some v \<Rightarrow> v | None \<Rightarrow> d))"
  by (cases x) (auto simp: py_get_def)

lemma py_index_dict [simp]:
  "py_index (RDict kvs) k =
     (case map_of kvs k of Some v \<Rightarrow> Inr v | None \<Rightarrow> Inl (KeyError k))"
  by (simp add: py_index_def)

lemma py_index_eq_Inr:
  "py_index x k = Inr v \<longleftrightarrow> (\<exists>kvs. x = RDict kvs \<and> map_of kvs k = Some v)"
  by (cases x) (auto simp: py_index_def split: option.splits)

lemma py_iter_list [simp]: "py_iter (RList xs) = Inr xs"
  by (simp add: py_iter_def)

lemma py_items_dict [simp]: "py_items (RDict kvs) = Inr kvs"
  by (simp add: py_items_def)

lemma py_items_eq_Inr: "py_items x = Inr kvs \<longleftrightarrow> x = RDict kvs"
  by (cases x) (auto simp: py_items_def)

lemma is_simps [simp]:
  "is_str (RStr s)" "\<not> is_str (RDict kvs)" "\<not> is_str (RList xs)" "\<not> is_str RNull"
  "\<not> is_str (RInt i)" "\<not> is_str (RBool b)"
  "is_dict (RDict kvs)" "\<not> is_dict (RStr s)" "\<not> is_dict (RList xs)" "\<not> is_dict RNull"
  "\<not> is_dict (RInt i)" "\<not> is_dict (RBool b)"
  "is_list (RList xs)" "\<not> is_list (RStr s)" "\<not> is_list (RDict kvs)" "\<not> is_list RNull"
  "\<not> is_list (RInt i)" "\<not> is_list (RBool b)"
  by (simp_all add: is_str_def is_dict_def is_list_def)

lemma py_str_str [simp]: "py_str (RStr s) = s"
  by (simp add: py_str_def)

lemma mapE_Inr_all: "mapE f xs = Inr ys \<Longrightarrow> x \<in> set xs \<Longrightarrow> \<exists>y. f x = Inr y"
  by (auto simp: mapE_eq_Inr list_all2_conv_all_nth in_set_conv_nth)

lemma dict_set_list_all:
  "list_all (\<lambda>kv. Q (snd kv)) d \<Longrightarrow> Q v \<Longrightarrow> list_all (\<lambda>kv. Q (snd kv)) (dict_set d k v)"
  by (induction d k v rule: dict_set.induct) auto

section \<open>Facts about the normalizer\<close>

subsection \<open>Absent sections\<close>

lemma py_get_field_or: "py_get (RDict m) k d = Inr (field_or m k d)"
  by (simp add: field_or_def)

lemma field_or_absent: "map_of m k = None \<Longrightarrow> field_or m k d = d"
  by (simp add: field_or_def)

lemma field_or_present: "map_of m k = Some v \<Longrightarrow> field_or m k d = v"
  by (simp add: field_or_def)

lemma metadata_total: "process_metadata (RDict d) = Inr (field_or d ''metadata'' (RDict []))"
  by (simp add: process_metadata_def field_or_def)

lemma absent_header_format:
  "map_of d ''header_format'' = None \<Longrightarrow>
   process_header_format (RDict d) = Inr default_header_format"
  by (simp add: process_header_format_def default_header_format_def field_or_def)

lemma absent_register_usage:
  "map_of d ''register_usage'' = None \<Longrightarrow>
   process_register_usage (RDict d) = Inr default_register_usage"
  by (simp add: process_register_usage_def default_register_usage_def field_or_def)

lemma absent_structures:
  "map_of d ''structures'' = None \<Longrightarrow> process_data_structures (RDict d) = Inr []"
  by (simp add: process_data_structures_def field_or_def)

lemma absent_algorithms:
  "map_of d ''algorithms'' = None \<Longrightarrow> process_algorithms (RDict d) = Inr []"
  by (simp add: process_algorithms_def field_or_def)

lemma absent_error_handling:
  "map_of d ''error_handling'' = None \<Longrightarrow>
   process_error_handling (RDict d) = Inr default_error_handling"
  by (simp add: process_error_handling_def default_error_handling_def field_or_def)

lemma absent_section_requirements:
  "map_of d ''section_requirements'' = None \<Longrightarrow>
   process_section_requirements (RDict d) = Inr default_section_requirements"
  by (simp add: process_section_requirements_def default_section_requirements_def field_or_def)

lemma absent_performance:
  "map_of d ''performance'' = None \<Longrightarrow>
   process_performance (RDict d) = Inr default_performance"
  by (simp add: process_performance_def default_performance_def field_or_def)

lemma absent_testing:
  "map_of d ''testing'' = None \<Longrightarrow> process_testing (RDict d) = Inr default_testing"
  by (simp add: process_testing_def default_testing_def field_or_def)

lemma absent_code_style:
  "map_of d ''code_style'' = None \<Longrightarrow> process_code_style (RDict d) = Inr default_code_style"
  by (simp add: process_code_style_def default_code_style_def field_or_def)

lemma register_info_dict:
  "register_info (RDict r) =
     (case first_missing r [''name'', ''purpose''] of
        Some k \<Rightarrow> Inl (KeyError k)
      | None \<Rightarrow>
          Inr \<lparr>ri_name = field_or r ''name'' RNull, ri_purpose = field_or r ''purpose'' RNull,
               ri_byte_regs = field_or r ''byte_regs'' RNull,
               ri_constraints = field_or r ''constraints'' (RList [])\<rparr>)"
  by (simp add: register_info_def first_missing_def field_or_def split: option.splits)

lemma field_info_dict:
  "field_info (RDict f) =
     (case first_missing f [''name'', ''type''] of
        Some k \<Rightarrow> Inl (KeyError k)
      | None \<Rightarrow>
          Inr \<lparr>fd_name = field_or f ''name'' RNull, fd_type = field_or f ''type'' RNull,
               fd_description = field_or f ''description'' (RStr []),
               fd_constraints = field_or f ''constraints'' (RList [])\<rparr>)"
  by (simp add: field_info_def first_missing_def field_or_def split: option.splits)

lemma bss_variable_dict:
  "bss_variable (RDict v) =
     (case first_missing v [''name'', ''size'', ''align'', ''purpose''] of
        Some k \<Rightarrow> Inl (KeyError k)
      | None \<Rightarrow>
          Inr \<lparr>bv_name = field_or v ''name'' RNull, bv_size = field_or v ''size'' RNull,
               bv_align = field_or v ''align'' RNull,
               bv_purpose = field_or v ''purpose'' RNull\<rparr>)"
  by (simp add: bss_variable_def first_missing_def field_or_def split: option.splits)

lemma benchmark_dict:
  "benchmark (RDict b) =
     (case first_missing b [''name'', ''input_size''] of
        Some k \<Rightarrow> Inl (KeyError k)
      | None \<Rightarrow>
          Inr \<lparr>bm_name = field_or b ''name'' RNull,
               bm_input_size = field_or b ''input_size'' RNull,
               bm_expected_time = field_or b ''expected_time'' RNull,
               bm_requirements = field_or b ''requirements'' (RList [])\<rparr>)"
  by (simp add: benchmark_def first_missing_def field_or_def split: option.splits)

lemma unit_test_dict:
  "unit_test (RDict t) =
     (case first_missing t [''name''] of
        Some k \<Rightarrow> Inl (KeyError k)
      | None \<Rightarrow>
          Inr \<lparr>tc_name = field_or t ''name'' RNull,
               tc_input = field_or t ''input'' (RStr ''TBD''),
               tc_expected_output = field_or t ''expected_output'' (RStr ''TBD''),
               tc_validation = field_or t ''validation'' (RList [])\<rparr>)"
  by (simp add: unit_test_def first_missing_def field_or_def split: option.splits)

lemma error_type_entry_dict:
  "error_type_entry (RDict e) =
     (case first_missing e [''name''] of
        Some k \<Rightarrow> Inl (KeyError k)
      | None \<Rightarrow>
          Inr [\<lparr>et_name = field_or e ''name'' RNull,
                et_description =
                  field_or e ''description''
                    (RStr (''Handle '' @ py_str (field_or e ''name'' RNull))),
                et_handling = field_or e ''handling'' default_handling\<rparr>])"
  by (simp add: error_type_entry_def first_missing_def field_or_def split: option.splits)

subsection \<open>Present sections and items\<close>

lemma header_format_dict:
  "field_or d ''header_format'' (RDict []) = RDict h \<Longrightarrow>
   process_header_format (RDict d) =
     Inr \<lparr>hf_border_line = field_or h ''border_line'' (RStr []),
          hf_file_name_line = field_or h ''file_name_line'' (RStr []),
          hf_description_line = field_or h ''description_line'' (RStr []),
          hf_blank_comment = field_or h ''blank_comment'' (RStr []),
          hf_assembly_lines = field_or h ''assembly_lines'' (RList []),
          hf_directives = field_or h ''directives'' (RList [])\<rparr>"
  by (simp add: process_header_format_def py_get_def field_or_def)

lemma register_usage_dict:
  "field_or d ''register_usage'' (RDict []) = RDict u \<Longrightarrow>
   process_register_usage (RDict d) =
     bindE (py_iter (field_or u ''general_purpose'' (RList []))) (\<lambda>regs.
     bindE (mapE register_info regs) (\<lambda>general_purpose.
     Inr \<lparr>ru_general_purpose = general_purpose\<rparr>))"
  by (simp add: process_register_usage_def py_get_def field_or_def)

lemma data_structure_dict:
  "data_structure name (RDict s) =
     bindE (py_iter (field_or s ''fields'' (RList []))) (\<lambda>flds.
     bindE (mapE field_info flds) (\<lambda>fields.
     Inr \<lparr>ds_name = name, ds_fields = fields,
          ds_documentation = field_or s ''documentation'' (RStr []),
          ds_constraints = field_or s ''constraints'' (RList []),
          ds_examples = field_or s ''examples'' (RList []),
          ds_complexity = field_or s ''complexity'' (RDict [])\<rparr>))"
  by (simp add: data_structure_def py_get_def field_or_def)

lemma algorithm_dict:
  "field_or a ''implementation_requirements'' (RDict []) = RDict i \<Longrightarrow>
   field_or i ''padding_rules'' (RDict []) = RDict p \<Longrightarrow>
   algorithm name (RDict a) =
     Inr \<lparr>al_name = name,
          al_description = field_or a ''description'' (RStr []),
          al_implementation_requirements =
            \<lparr>ir_memory_operations = field_or i ''memory_operations'' (RList []),
             ir_encoding_requirements = field_or i ''encoding_requirements'' (RList []),
             ir_leftover_handling = field_or i ''leftover_handling'' (RList []),
             ir_padding_rules =
               \<lparr>pr_one_byte = field_or p ''one_byte'' (RList []),
                pr_two_bytes = field_or p ''two_bytes'' (RList [])\<rparr>\<rparr>,
          al_steps = field_or a ''steps'' (RDict []),
          al_complexity = field_or a ''complexity'' (RDict []),
          al_edge_cases = field_or a ''edge_cases'' (RList []),
          al_preconditions = field_or a ''preconditions'' (RList []),
          al_postconditions = field_or a ''postconditions'' (RList []),
          al_invariants = field_or a ''invariants'' (RList []),
          al_examples = field_or a ''examples'' (RList [])\<rparr>"
  by (simp add: algorithm_def py_get_def field_or_def)

lemma error_handling_dict:
  "field_or d ''error_handling'' (RDict []) = RDict h \<Longrightarrow>
   process_error_handling (RDict d) =
     bindE (py_iter (field_or h ''error_types'' (RList []))) (\<lambda>errs.
     bindE (mapE error_type_entry errs) (\<lambda>appended.
     Inr \<lparr>eh_strategies = strategies_spec (map_of h ''strategies''),
          eh_error_types = concat appended,
          eh_syscall_requirements = field_or h ''syscall_requirements'' (RList [])\<rparr>))"
proof -
  have "(if is_list v then RDict [(''general'', v)] else if is_dict v then v else RDict [])
        = strategies_spec (Some v)" for v
    by (cases v) (simp_all add: strategies_spec_def)
  then have s: "(let v = field_or h ''strategies'' (RDict []) in
           if is_list v then RDict [(''general'', v)] else if is_dict v then v else RDict [])
        = strategies_spec (map_of h ''strategies'')"
    by (cases "map_of h ''strategies''") (simp_all add: field_or_def strategies_spec_def)
  assume "field_or d ''error_handling'' (RDict []) = RDict h"
  then show ?thesis
    using s by (simp add: process_error_handling_def py_get_def field_or_def Let_def)
qed

lemma section_requirements_dict:
  "field_or d ''section_requirements'' (RDict []) = RDict r \<Longrightarrow>
   field_or r ''bss'' (RDict []) = RDict b \<Longrightarrow>
   process_section_requirements (RDict d) =
     bindE (py_iter (field_or b ''variables'' (RList []))) (\<lambda>vars.
     bindE (mapE bss_variable vars) (\<lambda>bss_vars.
     Inr \<lparr>sr_data = field_or r ''data'' (RList []), sr_bss = bss_vars,
          sr_text = field_or r ''text'' (RDict [])\<rparr>))"
  by (simp add: process_section_requirements_def py_get_def field_or_def)

lemma performance_dict:
  "field_or d ''performance'' (RDict []) = RDict p \<Longrightarrow>
   process_performance (RDict d) =
     bindE (py_iter (field_or p ''benchmarks'' (RList []))) (\<lambda>benches.
     bindE (mapE benchmark benches) (\<lambda>benchmarks.
     Inr \<lparr>pf_time_complexity = field_or p ''time_complexity'' (RStr []),
          pf_space_complexity = field_or p ''space_complexity'' (RStr []),
          pf_constraints = field_or p ''constraints'' (RList []),
          pf_register_usage = field_or p ''register_usage'' (RList []),
          pf_memory_access = field_or p ''memory_access'' (RList []),
          pf_benchmarks = benchmarks\<rparr>))"
  by (simp add: process_performance_def py_get_def field_or_def)

lemma testing_dict:
  "field_or d ''testing'' (RDict []) = RDict t \<Longrightarrow>
   process_testing (RDict d) =
     bindE (py_iter (field_or t ''unit_tests'' (RList []))) (\<lambda>us.
     bindE (mapE unit_test us) (\<lambda>unit_tests.
     bindE (py_iter (field_or t ''integration_tests'' (RList []))) (\<lambda>is.
     bindE (py_iter (field_or t ''conformance_tests'' (RList []))) (\<lambda>cs.
     Inr \<lparr>ts_unit_tests = unit_tests,
          ts_integration_tests = map integration_test is,
          ts_conformance_tests = map conformance_test cs\<rparr>))))"
  by (simp add: process_testing_def py_get_def field_or_def)

lemma code_style_dict:
  "field_or d ''code_style'' (RDict []) = RDict c \<Longrightarrow>
   process_code_style (RDict d) =
     Inr \<lparr>cs_indentation = field_or c ''indentation'' (RList []),
          cs_comments = field_or c ''comments'' (RList []),
          cs_naming = field_or c ''naming'' (RList []),
          cs_organization = field_or c ''organization'' (RList [])\<rparr>"
  by (simp add: process_code_style_def py_get_def field_or_def)

subsection \<open>The whole typed model\<close>

lemma build_specification_eq_Inr:
  "build_specification data = Inr spec \<longleftrightarrow>
     process_metadata data = Inr (sp_metadata spec)
     \<and> process_header_format data = Inr (sp_header_format spec)
     \<and> process_register_usage data = Inr (sp_register_usage spec)
     \<and> process_data_structures data = Inr (sp_structures spec)
     \<and> process_algorithms data = Inr (sp_algorithms spec)
     \<and> process_error_handling data = Inr (sp_error_handling spec)
     \<and> process_section_requirements data = Inr (sp_section_requirements spec)
     \<and> process_performance data = Inr (sp_performance spec)
     \<and> process_testing data = Inr (sp_testing spec)
     \<and> process_code_style data = Inr (sp_code_style spec)"
  by (cases spec) (auto simp: build_specification_def bindE_eq_Inr)

lemma create_specification_eq_Inr:
  "create_specification data = Inr spec \<longleftrightarrow> build_specification data = Inr spec"
  by (auto simp: create_specification_def split: sum.splits exn.splits)

section \<open>Facts about the renderer and the forge operation\<close>

lemma format_lines_ok:
  "(\<exists>ls. format_lines spec = Inr ls) \<longleftrightarrow>
     (\<exists>l. fmt_metadata (sp_metadata spec) = Inr l)
     \<and> (\<exists>l. fmt_header_format (sp_header_format spec) = Inr l)
     \<and> (\<exists>l. fmt_register_usage (sp_register_usage spec) = Inr l)
     \<and> (\<exists>l. fmt_structures (sp_structures spec) = Inr l)
     \<and> (\<exists>l. fmt_algorithms (sp_algorithms spec) = Inr l)
     \<and> (\<exists>l. fmt_error_handling (sp_error_handling spec) = Inr l)
     \<and> (\<exists>l. fmt_section_requirements (sp_section_requirements spec) = Inr l)
     \<and> (\<exists>l. fmt_performance (sp_performance spec) = Inr l)
     \<and> (\<exists>l. fmt_testing (sp_testing spec) = Inr l)
     \<and> (\<exists>l. fmt_code_style (sp_code_style spec) = Inr l)"
  by (auto simp: format_lines_def bindE_eq_Inr)

lemma format_lines_testing:
  "format_lines spec = Inr ls \<Longrightarrow> \<exists>l. fmt_testing (sp_testing spec) = Inr l"
  by (auto simp: format_lines_def bindE_eq_Inr)

lemma fmt_metadata_dict:
  "fmt_metadata (RDict m) =
     (case first_missing m metadata_keys of
        Some k \<Rightarrow> Inl (KeyError k)
      | None \<Rightarrow>
          Inr [''=== SPECIFICATION ==='',
               ''Name: '' @ py_str (field_or m ''name'' RNull),
               ''Version: '' @ py_str (field_or m ''version'' RNull),
               ''Description: '' @ py_str (field_or m ''description'' RNull),
               []])"
  by (simp add: fmt_metadata_def first_missing_def metadata_keys_def field_or_def
      split: option.splits)

lemma fmt_metadata_not_dict: "\<not> is_dict md \<Longrightarrow> fmt_metadata md = Inl TypeError"
  by (cases md) (simp_all add: fmt_metadata_def py_index_def)

text \<open>The default-valued sections render to their fixed labels.\<close>

lemma fmt_default_header_format:
  "fmt_header_format default_header_format =
     Inr [''=== HEADER FORMAT ==='', ''Border Line: '', ''Assembly Lines:'', ''Directives:'', []]"
  by (simp add: fmt_header_format_def default_header_format_def bullets_def)

lemma fmt_default_register_usage:
  "fmt_register_usage default_register_usage = Inr [''=== REGISTER USAGE ==='']"
  by (simp add: fmt_register_usage_def default_register_usage_def)

lemma fmt_default_structures: "fmt_structures [] = Inr [''=== DATA STRUCTURES ==='']"
  by (simp add: fmt_structures_def)

lemma fmt_default_algorithms: "fmt_algorithms [] = Inr [''=== ALGORITHMS ==='']"
  by (simp add: fmt_algorithms_def)

lemma fmt_default_error_handling:
  "fmt_error_handling default_error_handling =
     Inr [''=== ERROR HANDLING ==='', ''Strategies:'', ''Error Types:'',
          ''Syscall Requirements:'', []]"
  by (simp add: fmt_error_handling_def default_error_handling_def fmt_strategies_def
      bullets_def)

lemma fmt_default_section_requirements:
  "fmt_section_requirements default_section_requirements =
     Inr [''=== SECTION REQUIREMENTS ==='', ''Data Section:'', ''BSS Section:'',
          ''Text Section:'', []]"
  by (simp add: fmt_section_requirements_def default_section_requirements_def bullets_def)

lemma fmt_default_performance:
  "fmt_performance default_performance =
     Inr [''=== PERFORMANCE ==='', ''Time Complexity: '', ''Space Complexity: '',
          ''Constraints:'', ''Register Usage:'', ''Memory Access:'', ''Benchmarks:'', []]"
  by (simp add: fmt_performance_def default_performance_def bullets_def)

lemma fmt_default_testing:
  "fmt_testing default_testing =
     Inr [''=== TESTING ==='', ''Unit Tests:'', ''Integration Tests:'',
          ''Conformance Tests:'', []]"
  by (simp add: fmt_testing_def default_testing_def)

lemma fmt_default_code_style:
  "fmt_code_style default_code_style =
     Inr [''=== CODE STYLE ==='', ''Indentation:'', ''Comments:'', ''Naming:'',
          ''Organization:'']"
  by (simp add: fmt_code_style_def default_code_style_def bullets_def)

lemmas fmt_defaults =
  fmt_default_header_format fmt_default_register_usage fmt_default_structures
  fmt_default_algorithms fmt_default_error_handling fmt_default_section_requirements
  fmt_default_performance fmt_default_testing fmt_default_code_style

lemma process_spec_eq:
  "create_specification data = Inr spec \<Longrightarrow>
   process_spec data =
     (case format_text spec of Inl e \<Rightarrow> Inl (SpecForgeError_failed e) | Inr r \<Rightarrow> Inr r)"
  by (simp add: process_spec_def)

lemma process_spec_ok:
  "(\<exists>r. process_spec data = Inr r) \<longleftrightarrow>
     (\<exists>spec ls. build_specification data = Inr spec \<and> format_lines spec = Inr ls)"
proof
  assume "\<exists>r. process_spec data = Inr r"
  then obtain r where "bindE (create_specification data) format_text = Inr r"
    by (auto simp: process_spec_def split: sum.splits)
  then show "\<exists>spec ls. build_specification data = Inr spec \<and> format_lines spec = Inr ls"
    by (auto simp: bindE_eq_Inr format_text_def create_specification_eq_Inr)
next
  assume "\<exists>spec ls. build_specification data = Inr spec \<and> format_lines spec = Inr ls"
  then obtain spec ls where "create_specification data = Inr spec"
    and "format_lines spec = Inr ls"
    by (auto simp: create_specification_eq_Inr)
  then show "\<exists>r. process_spec data = Inr r"
    by (simp add: process_spec_def format_text_def)
qed

lemma process_spec_of_lines:
  "bindE (create_specification data) format_lines = Inr lines \<Longrightarrow>
   process_spec data = Inr (join [CHR 0x0A] lines)"
  by (auto simp: process_spec_def format_text_def bindE_eq_Inr)

section \<open>The rendered fields, in order\<close>

text \<open>Each section of the renderer returns the lines of its fields in order, between its
  labels: the lines of the fields are a subsequence of the lines of the section.\<close>

lemma bullets_eq_Inr: "bullets pre x = Inr ls \<Longrightarrow> ls = listed pre x"
  by (auto simp: bullets_def bindE_eq_Inr listed_def items_of_def)

lemma not_truthy_items: "\<not> py_truthy x \<Longrightarrow> items_of x = []"
  by (cases x) (auto simp: py_truthy_def items_of_def py_iter_def)

lemma opt_block_eq_Inr:
  "opt_block label pre x = Inr ls \<Longrightarrow> ls = [] \<and> listed pre x = [] \<or> ls = label # listed pre x"
  by (auto simp: opt_block_def bindE_eq_Inr listed_def not_truthy_items
      dest!: bullets_eq_Inr split: if_splits)

lemma subseq_opt_block:
  "opt_block label pre x = Inr ls \<Longrightarrow> subseq (listed pre x) ls"
  by (drule opt_block_eq_Inr) auto

lemma ss_refl: "subseq xs xs"
  by simp

lemma ss_nil: "subseq [] ys"
  by simp

lemma ss_match: "subseq xs ys \<Longrightarrow> subseq (x # xs) (x # ys)"
  by simp

lemma ss_same: "subseq ys ys' \<Longrightarrow> subseq (xs @ ys) (xs @ ys')"
  by (simp add: subseq_append')

lemma ss_pre: "subseq xs (xs @ zs)"
  by (rule list_emb_prefix) simp

lemma ss_skip: "subseq xs ys \<Longrightarrow> subseq xs (y # ys)"
  by (rule list_emb_Cons)

lemma ss_app: "subseq xs xs' \<Longrightarrow> subseq ys ys' \<Longrightarrow> subseq (xs @ ys) (xs' @ ys')"
  by (rule list_emb_append_mono)

lemma ss_last: "subseq xs xs' \<Longrightarrow> subseq xs (xs' @ zs)"
  by (rule list_emb_prefix)

lemma ss_drop: "subseq xs ys \<Longrightarrow> subseq xs (zs @ ys)"
  by (rule list_emb_append2)

lemma subseq_mapE:
  assumes "mapE f xs = Inr ls" and "\<And>x l. f x = Inr l \<Longrightarrow> subseq (g x) l"
  shows "subseq (concat (map g xs)) (concat ls)"
  using assms(1)
proof (induction xs arbitrary: ls)
  case Nil
  then show ?case by simp
next
  case (Cons x xs)
  then obtain l ls' where "f x = Inr l" "mapE f xs = Inr ls'" "ls = l # ls'"
    by (auto simp: bindE_eq_Inr)
  with Cons.IH [of ls'] assms(2) [of x l] show ?case
    by (simp add: list_emb_append_mono)
qed

lemma subseq_header_format:
  "fmt_header_format hf = Inr l \<Longrightarrow> subseq (lines_header_format hf) l"
  by (clarsimp simp: fmt_header_format_def bindE_eq_Inr lines_header_format_def
      dest!: bullets_eq_Inr)
    (rule ss_refl | rule ss_nil | rule ss_match | rule ss_same | rule ss_pre
      | (rule ss_app, assumption) | (rule ss_last, assumption) | rule ss_skip)+

lemma py_join_eq_Inr:
  "py_join sep x = Inr j \<Longrightarrow> j = join sep (map the_str (items_of x))"
  by (auto simp: py_join_def bindE_eq_Inr items_of_def split: if_splits)

lemma subseq_register:
  "fmt_register reg = Inr l \<Longrightarrow> subseq (lines_register reg) l"
  by (clarsimp simp: fmt_register_def bindE_eq_Inr lines_register_def
      dest!: py_join_eq_Inr subseq_opt_block split: if_splits)
    (rule ss_refl | rule ss_nil | rule ss_match | rule ss_same | rule ss_pre
      | (rule ss_app, assumption) | (rule ss_last, assumption) | rule ss_skip)+

lemma fmt_field_eq: "fmt_field = lines_field"
  by (rule ext) (simp add: fmt_field_def lines_field_def)

lemma subseq_structure:
  "fmt_structure item = Inr l \<Longrightarrow> subseq (lines_structure item) l"
  by (cases item)
    (clarsimp simp: fmt_structure_def bindE_eq_Inr lines_structure_def fmt_field_eq
      dest!: subseq_opt_block,
     (rule ss_refl | rule ss_nil | rule ss_match | rule ss_same | rule ss_pre
      | (rule ss_app, assumption) | (rule ss_last, assumption) | rule ss_skip)+)

lemma raw_at_dict: "map_of kvs k = Some v \<Longrightarrow> raw_at (RDict kvs) k = v"
  by (simp add: raw_at_def raw_lookup_def)

lemma raw_at_absent: "map_of kvs k = None \<Longrightarrow> raw_at (RDict kvs) k = RNull"
  by (simp add: raw_at_def raw_lookup_def)

lemma py_index_raw_at: "py_index x k = Inr v \<Longrightarrow> raw_at x k = v"
  by (auto simp: py_index_eq_Inr raw_at_dict)

lemma subseq_metadata:
  "fmt_metadata md = Inr l \<Longrightarrow> subseq (lines_metadata md) l"
  by (clarsimp simp: fmt_metadata_def bindE_eq_Inr lines_metadata_def
      dest!: py_index_raw_at)

lemma fmt_named_list_eq_Inr:
  "fmt_named_list item = Inr l \<Longrightarrow>
   l = (''  '' @ fst item @ '':'') # listed ''    - '' (snd item)"
  by (cases item) (auto simp: fmt_named_list_def bindE_eq_Inr dest!: bullets_eq_Inr)

lemma mapE_named_lists:
  "mapE fmt_named_list kvs = Inr ls \<Longrightarrow> concat ls = named_lists (RDict kvs)"
proof (induction kvs arbitrary: ls)
  case Nil
  then show ?case by (simp add: named_lists_def pairs_of_def)
next
  case (Cons kv kvs)
  then obtain l ls' where "fmt_named_list kv = Inr l" "mapE fmt_named_list kvs = Inr ls'"
    "ls = l # ls'"
    by (auto simp: bindE_eq_Inr)
  with Cons.IH [of ls'] show ?case
    by (auto simp: named_lists_def pairs_of_def dest!: fmt_named_list_eq_Inr)
qed

lemma items_named_lists:
  "py_items x = Inr kvs \<Longrightarrow> mapE fmt_named_list kvs = Inr ls \<Longrightarrow> concat ls = named_lists x"
  by (simp add: py_items_eq_Inr mapE_named_lists)

lemma subseq_named_lists:
  "py_items x = Inr kvs \<Longrightarrow> mapE fmt_named_list kvs = Inr ls
     \<Longrightarrow> subseq (named_lists x) (concat ls)"
  by (simp add: items_named_lists)

lemma subseq_algorithm:
  "fmt_algorithm item = Inr l \<Longrightarrow> subseq (lines_algorithm item) l"
  by (cases item)
    (clarsimp simp: fmt_algorithm_def bindE_eq_Inr lines_algorithm_def Let_def
      dest!: bullets_eq_Inr subseq_opt_block,
     (rule ss_refl | rule ss_nil | rule ss_match | rule ss_same | rule ss_pre
      | (rule ss_app, assumption) | (rule ss_last, assumption)
      | (rule ss_app, erule (1) subseq_named_lists) | rule ss_skip)+)

lemmas ss_rules = ss_refl ss_nil ss_match ss_same ss_pre

lemma subseq_strategies:
  "fmt_strategies x = Inr l \<Longrightarrow> subseq (lines_strategies x) l"
  by (cases x)
    (auto simp: fmt_strategies_def lines_strategies_def bindE_eq_Inr mapE_named_lists
      dest!: bullets_eq_Inr)

lemma subseq_error_type:
  "fmt_error_type err = Inr l \<Longrightarrow> subseq (lines_error_type err) l"
  by (clarsimp simp: fmt_error_type_def bindE_eq_Inr lines_error_type_def
      dest!: bullets_eq_Inr)
    (rule ss_rules | rule ss_skip)+

lemma subseq_error_handling:
  "fmt_error_handling eh = Inr l \<Longrightarrow> subseq (lines_error_handling eh) l"
  by (clarsimp simp: fmt_error_handling_def bindE_eq_Inr lines_error_handling_def
      dest!: bullets_eq_Inr subseq_strategies)
    (rule ss_rules | (rule ss_app, assumption)
      | (rule ss_app, erule subseq_mapE, erule subseq_error_type) | rule ss_skip)+

lemma fmt_bss_variable_eq: "fmt_bss_variable = lines_bss_variable"
  by (rule ext) (simp add: fmt_bss_variable_def lines_bss_variable_def)

lemma subseq_section_requirements:
  "fmt_section_requirements sr = Inr l \<Longrightarrow> subseq (lines_section_requirements sr) l"
  by (clarsimp simp: fmt_section_requirements_def bindE_eq_Inr
      lines_section_requirements_def fmt_bss_variable_eq dest!: bullets_eq_Inr)
    (rule ss_rules | (rule ss_last, erule (1) subseq_named_lists) | rule ss_skip)+

lemma subseq_benchmark:
  "fmt_benchmark bench = Inr l \<Longrightarrow> subseq (lines_benchmark bench) l"
  by (clarsimp simp: fmt_benchmark_def bindE_eq_Inr lines_benchmark_def
      dest!: subseq_opt_block)

lemma subseq_performance:
  "fmt_performance pf = Inr l \<Longrightarrow> subseq (lines_performance pf) l"
  by (clarsimp simp: fmt_performance_def bindE_eq_Inr lines_performance_def
      dest!: bullets_eq_Inr)
    (rule ss_rules | (rule ss_last, erule subseq_mapE, erule subseq_benchmark)
      | rule ss_skip)+

lemma subseq_unit_test:
  "fmt_unit_test test = Inr l \<Longrightarrow> subseq (lines_unit_test test) l"
  by (clarsimp simp: fmt_unit_test_def bindE_eq_Inr lines_unit_test_def
      dest!: subseq_opt_block)

lemma fmt_integration_item_eq:
  "fmt_integration_item kv
     = (if fst kv \<noteq> ''name'' then lines_integration_key kv else [])"
  by (cases kv)
    (auto simp: fmt_integration_item_def lines_integration_key_def is_list_def listed_def
      items_of_def py_iter_def split: raw.splits)

lemma fmt_integration_items_eq:
  "concat (map fmt_integration_item kvs)
     = concat (map lines_integration_key (filter (\<lambda>kv. fst kv \<noteq> ''name'') kvs))"
  by (induction kvs) (simp_all add: fmt_integration_item_eq)

lemma fmt_integration_test_eq_Inr:
  "fmt_integration_test test = Inr l \<Longrightarrow> l = lines_integration_test test"
  by (auto simp: fmt_integration_test_def bindE_eq_Inr lines_integration_test_def
      py_items_eq_Inr pairs_of_def fmt_integration_items_eq dest!: py_index_raw_at)

lemma subseq_integration_test:
  "fmt_integration_test test = Inr l \<Longrightarrow> subseq (lines_integration_test test) l"
  by (drule fmt_integration_test_eq_Inr) simp

lemma fmt_test_vector_eq_Inr:
  "fmt_test_vector vector = Inr l \<Longrightarrow> l = lines_test_vector vector"
  by (auto simp: fmt_test_vector_def bindE_eq_Inr lines_test_vector_def
      dest!: py_index_raw_at)

lemma subseq_test_vector:
  "fmt_test_vector vector = Inr l \<Longrightarrow> subseq (lines_test_vector vector) l"
  by (drule fmt_test_vector_eq_Inr) simp

lemma subseq_conformance_test:
  assumes "fmt_conformance_test test = Inr l"
  shows "subseq (lines_conformance_test test) l"
proof -
  from assms obtain kvs st where t: "test = RDict kvs" and st: "map_of kvs ''standard'' = Some st"
    by (auto simp: fmt_conformance_test_def bindE_eq_Inr py_index_eq_Inr)
  show ?thesis
  proof (cases "map_of kvs ''test_vectors''")
    case None
    then have "''test_vectors'' \<notin> fst ` set kvs"
      by (simp add: map_of_eq_None_iff)
    with assms t st None show ?thesis
      by (simp add: fmt_conformance_test_def py_in_def lines_conformance_test_def
          raw_at_dict raw_at_absent items_of_def py_iter_def)
  next
    case (Some tv)
    then have "''test_vectors'' \<in> fst ` set kvs"
      by (metis map_of_eq_None_iff option.distinct(1))
    with assms t st Some obtain vs where "mapE fmt_test_vector (items_of tv) = Inr vs"
      and "l = [''  Standard: '' @ py_str st, ''  Test Vectors:''] @ concat vs"
      by (auto simp: fmt_conformance_test_def py_in_def bindE_eq_Inr items_of_def)
    with t st Some show ?thesis
      by (clarsimp simp: lines_conformance_test_def raw_at_dict)
        (rule ss_rules | (erule subseq_mapE, erule subseq_test_vector) | rule ss_skip)+
  qed
qed

lemma subseq_testing:
  "fmt_testing ts = Inr l \<Longrightarrow> subseq (lines_testing ts) l"
  by (clarsimp simp: fmt_testing_def bindE_eq_Inr lines_testing_def)
    (rule ss_rules
      | (rule ss_app, erule subseq_mapE, erule subseq_unit_test)
      | (rule ss_app, erule subseq_mapE, erule subseq_integration_test)
      | (rule ss_last, erule subseq_mapE, erule subseq_conformance_test)
      | rule ss_skip)+

lemma subseq_code_style:
  "fmt_code_style cs = Inr l \<Longrightarrow> subseq (lines_code_style cs) l"
  by (clarsimp simp: fmt_code_style_def bindE_eq_Inr lines_code_style_def
      dest!: bullets_eq_Inr)
    (rule ss_rules | rule ss_skip)+

lemma subseq_register_usage:
  "fmt_register_usage ru = Inr l \<Longrightarrow>
   subseq (concat (map lines_register (ru_general_purpose ru))) l"
  by (clarsimp simp: fmt_register_usage_def bindE_eq_Inr)
    (rule ss_skip, erule subseq_mapE, erule subseq_register)

lemma subseq_structures:
  "fmt_structures ss = Inr l \<Longrightarrow> subseq (concat (map lines_structure ss)) l"
  by (clarsimp simp: fmt_structures_def bindE_eq_Inr)
    (rule ss_skip, erule subseq_mapE, erule subseq_structure)

lemma subseq_algorithms:
  "fmt_algorithms as = Inr l \<Longrightarrow> subseq (concat (map lines_algorithm as)) l"
  by (clarsimp simp: fmt_algorithms_def bindE_eq_Inr)
    (rule ss_skip, erule subseq_mapE, erule subseq_algorithm)

lemma subseq_field_lines:
  assumes "format_lines spec = Inr lines"
  shows "subseq (field_lines spec) lines"
proof -
  from assms obtain s1 s2 s3 s4 s5 s6 s7 s8 s9 s10 where
    "fmt_metadata (sp_metadata spec) = Inr s1"
    "fmt_header_format (sp_header_format spec) = Inr s2"
    "fmt_register_usage (sp_register_usage spec) = Inr s3"
    "fmt_structures (sp_structures spec) = Inr s4"
    "fmt_algorithms (sp_algorithms spec) = Inr s5"
    "fmt_error_handling (sp_error_handling spec) = Inr s6"
    "fmt_section_requirements (sp_section_requirements spec) = Inr s7"
    "fmt_performance (sp_performance spec) = Inr s8"
    "fmt_testing (sp_testing spec) = Inr s9"
    "fmt_code_style (sp_code_style spec) = Inr s10"
    and l: "lines = s1 @ s2 @ s3 @ s4 @ s5 @ s6 @ s7 @ s8 @ s9 @ s10"
    by (auto simp: format_lines_def bindE_eq_Inr)
  then show ?thesis
    unfolding l field_lines_def
    by (intro ss_app subseq_metadata subseq_header_format subseq_register_usage
        subseq_structures subseq_algorithms subseq_error_handling
        subseq_section_requirements subseq_performance subseq_testing subseq_code_style)
qed

lemma sublist_join: "l \<in> set ls \<Longrightarrow> sublist l (join sep ls)"
proof (induction sep ls rule: join.induct)
  case (1 sep)
  then show ?case by simp
next
  case (2 sep x)
  then show ?case by simp
next
  case (3 sep x y ys)
  show ?case
  proof (cases "l = x")
    case True
    then show ?thesis by simp
  next
    case False
    with 3 have "sublist l (join sep (y # ys))" by simp
    then show ?thesis by (simp add: sublist_append)
  qed
qed

lemma mapE_map: "mapE f (map g xs) = mapE (\<lambda>x. f (g x)) xs"
  by (induction xs) simp_all

lemma fmt_field_erased [simp]: "fmt_field (f\<lparr>fd_constraints := c\<rparr>) = fmt_field f"
  by (simp add: fmt_field_def)

lemma fmt_structure_erased:
  "fmt_structure
     (fst item,
      (snd item)
      \<lparr>ds_fields := map (\<lambda>f. f\<lparr>fd_constraints := RList []\<rparr>) (ds_fields (snd item)),
       ds_examples := RList [], ds_complexity := RDict []\<rparr>)
   = fmt_structure item"
  by (cases item) (simp add: fmt_structure_def comp_def)

lemma fmt_algorithm_erased:
  "fmt_algorithm (fst item, (snd item)\<lparr>al_complexity := RDict [], al_examples := RList []\<rparr>)
   = fmt_algorithm item"
  by (cases item) (simp add: fmt_algorithm_def)

lemma format_lines_erased: "format_lines (erase_unrendered spec) = format_lines spec"
  by (simp add: format_lines_def erase_unrendered_def fmt_header_format_def
      fmt_structures_def fmt_algorithms_def mapE_map fmt_structure_erased
      fmt_algorithm_erased)

section \<open>Documents on which the forge operation succeeds\<close>

text \<open>A document with complete metadata whose present values have the shape their readers
  expect normalizes and renders: each section normalizer returns a typed section on which
  the renderer of the section returns.\<close>

lemma succeeds_Inr [simp]: "succeeds (Inr x) Q \<longleftrightarrow> Q x"
  by (simp add: succeeds_def)

lemma succeeds_Inl [simp]: "\<not> succeeds (Inl e) Q"
  by (simp add: succeeds_def)

lemma succeedsD: "succeeds m Q \<Longrightarrow> \<exists>v. m = Inr v \<and> Q v"
  by (cases m) simp_all

lemma succeeds_bind:
  "succeeds m P \<Longrightarrow> (\<And>x. P x \<Longrightarrow> succeeds (f x) Q) \<Longrightarrow> succeeds (bindE m f) Q"
  by (cases m) simp_all

lemma succeeds_mapE:
  "list_all (\<lambda>x. succeeds (f x) P) xs \<Longrightarrow> succeeds (mapE f xs) (list_all P)"
  by (induction xs) (auto intro!: succeeds_bind)

lemma succeeds_dict_loop:
  "list_all (\<lambda>kv. succeeds (f (fst kv) (snd kv)) P) items \<Longrightarrow>
   list_all (\<lambda>kv. P (snd kv)) d \<Longrightarrow>
   succeeds (dict_loop f items d) (list_all (\<lambda>kv. P (snd kv)))"
proof (induction items arbitrary: d)
  case Nil
  then show ?case by simp
next
  case (Cons item items)
  obtain name x where item: "item = (name, x)" by (cases item)
  with Cons.prems have s: "succeeds (f name x) P"
    and rest: "list_all (\<lambda>kv. succeeds (f (fst kv) (snd kv)) P) items"
    by simp_all
  show ?case
    unfolding item dict_loop.simps
  proof (rule succeeds_bind [OF s])
    fix y assume "P y"
    with Cons.prems(2) have "list_all (\<lambda>kv. P (snd kv)) (dict_set d name y)"
      by (rule dict_set_list_all)
    with rest show "succeeds (dict_loop f items (dict_set d name y)) (list_all (\<lambda>kv. P (snd kv)))"
      by (rule Cons.IH)
  qed
qed

lemma iterable_iter: "iterable x \<Longrightarrow> py_iter x = Inr (items_of x)"
  by (auto simp: iterable_def items_of_def split: sum.splits)

lemma iterable_simps [simp]: "iterable (RList xs)" "iterable (RDict kvs)" "iterable (RStr s)"
  by (simp_all add: iterable_def py_iter_def)

lemma items_of_simps [simp]: "items_of (RList xs) = xs"
  by (simp add: items_of_def)

lemma opt_field_or: "opt_field m k P \<Longrightarrow> P d \<Longrightarrow> P (field_or m k d)"
  by (simp add: opt_field_def field_or_def split: option.splits)

lemma succeeds_bullets: "iterable x \<Longrightarrow> succeeds (bullets pre x) (\<lambda>l. True)"
  by (simp add: bullets_def iterable_iter)

lemma succeeds_opt_block: "list_or_empty x \<Longrightarrow> succeeds (opt_block label pre x) (\<lambda>l. True)"
  by (auto simp: opt_block_def list_or_empty_def bullets_def iterable_iter)

lemma list_or_empty_simps [simp]: "list_or_empty (RList xs)"
  by (simp add: list_or_empty_def)

lemma names_or_empty_simps [simp]: "names_or_empty RNull"
  by (simp add: names_or_empty_def py_truthy_def)

lemma mapping_ofD: "mapping_of P x \<Longrightarrow> \<exists>m. x = RDict m \<and> P m"
  by (cases x) (simp_all add: mapping_of_def)

lemma mapping_of_dict [simp]: "mapping_of P (RDict m) = P m"
  by (simp add: mapping_of_def)

lemma succeeds_named_lists:
  "list_all (\<lambda>kv. iterable (snd kv)) kvs \<Longrightarrow> succeeds (mapE fmt_named_list kvs) (\<lambda>l. True)"
proof -
  assume "list_all (\<lambda>kv. iterable (snd kv)) kvs"
  then have "list_all (\<lambda>kv. succeeds (fmt_named_list kv) (\<lambda>l. True)) kvs"
    by (auto simp: list_all_iff fmt_named_list_def bullets_def iterable_iter)
  then have "succeeds (mapE fmt_named_list kvs) (list_all (\<lambda>l. True))"
    by (rule succeeds_mapE)
  then show ?thesis by (cases "mapE fmt_named_list kvs") simp_all
qed

lemma succeeds_True: "succeeds m P \<Longrightarrow> succeeds m (\<lambda>x. True)"
  by (cases m) simp_all

lemma succeeds_mono: "succeeds m P \<Longrightarrow> (\<And>x. P x \<Longrightarrow> Q x) \<Longrightarrow> succeeds m Q"
  by (cases m) simp_all

lemma ok_bind:
  "succeeds m (\<lambda>x. True) \<Longrightarrow> (\<And>x. succeeds (f x) Q) \<Longrightarrow> succeeds (bindE m f) Q"
  by (cases m) simp_all

lemma ok_mapE:
  "list_all (\<lambda>x. succeeds (f x) (\<lambda>y. True)) xs \<Longrightarrow> succeeds (mapE f xs) (\<lambda>ys. True)"
  by (rule succeeds_True) (erule succeeds_mapE)

lemma ok_items: "mapping_of P x \<Longrightarrow> succeeds (py_items x) P"
  by (cases x) (simp_all add: mapping_of_def)

lemma ok_named_lists:
  assumes "lists_by_name x" and "\<And>l. succeeds (f l) (\<lambda>l. True)"
  shows "succeeds (bindE (py_items x) (\<lambda>items. bindE (mapE fmt_named_list items) f))
           (\<lambda>l. True)"
proof -
  from assms(1) obtain kvs where x: "x = RDict kvs"
    and "list_all (\<lambda>kv. iterable (snd kv)) kvs"
    by (auto simp: lists_by_name_def dest!: mapping_ofD)
  then have "succeeds (mapE fmt_named_list kvs) (\<lambda>l. True)"
    by (simp add: succeeds_named_lists)
  then have "succeeds (bindE (mapE fmt_named_list kvs) f) (\<lambda>l. True)"
    by (rule ok_bind) (rule assms(2))
  with x show ?thesis by simp
qed

lemma lists_by_name_default [simp]: "lists_by_name (RDict [])"
  by (simp add: lists_by_name_def)

lemma fmt_header_format_ok:
  "iterable (hf_assembly_lines hf) \<Longrightarrow> iterable (hf_directives hf) \<Longrightarrow>
   succeeds (fmt_header_format hf) (\<lambda>l. True)"
  unfolding fmt_header_format_def
  by (intro ok_bind succeeds_bullets) simp_all

lemma header_format_succeeds:
  assumes "header_format_ok (field_or d ''header_format'' (RDict []))"
  shows "succeeds (process_header_format (RDict d)) (\<lambda>v. succeeds (fmt_header_format v) (\<lambda>l. True))"
proof -
  from assms obtain h where h: "field_or d ''header_format'' (RDict []) = RDict h"
    and "opt_field h ''assembly_lines'' iterable" "opt_field h ''directives'' iterable"
    by (auto simp: header_format_ok_def dest!: mapping_ofD)
  then show ?thesis
    by (simp add: header_format_dict fmt_header_format_ok opt_field_or)
qed

lemma fmt_register_ok:
  assumes "names_or_empty (ri_byte_regs reg)" and "list_or_empty (ri_constraints reg)"
  shows "succeeds (fmt_register reg) (\<lambda>l. True)"
proof -
  from assms(1) have "succeeds (if py_truthy (ri_byte_regs reg)
            then bindE (py_join '', '' (ri_byte_regs reg)) (\<lambda>j. Inr [''Byte Registers: '' @ j])
            else Inr []) (\<lambda>l. True)"
    by (auto simp: names_or_empty_def py_join_def iterable_iter)
  with assms(2) show ?thesis
    unfolding fmt_register_def
    by (intro ok_bind succeeds_opt_block) simp_all
qed

lemma register_succeeds:
  assumes "register_ok r"
  shows "succeeds (register_info r) (\<lambda>v. succeeds (fmt_register v) (\<lambda>l. True))"
proof -
  from assms obtain m where "r = RDict m" "first_missing m [''name'', ''purpose''] = None"
    "opt_field m ''byte_regs'' names_or_empty" "opt_field m ''constraints'' list_or_empty"
    by (auto simp: register_ok_def dest!: mapping_ofD)
  then show ?thesis
    by (simp add: register_info_dict fmt_register_ok opt_field_or)
qed

lemma items_succeed:
  assumes "items_are P x" and "\<And>i. P i \<Longrightarrow> succeeds (f i) Q"
    and "\<And>vs. list_all Q vs \<Longrightarrow> succeeds (g vs) R"
  shows "succeeds (bindE (py_iter x) (\<lambda>is. bindE (mapE f is) g)) R"
proof -
  from assms(1) have i: "py_iter x = Inr (items_of x)" and a: "list_all P (items_of x)"
    by (simp_all add: items_are_def iterable_iter)
  from a assms(2) have "list_all (\<lambda>i. succeeds (f i) Q) (items_of x)"
    by (simp add: list_all_iff)
  then have "succeeds (mapE f (items_of x)) (list_all Q)"
    by (rule succeeds_mapE)
  then have "succeeds (bindE (mapE f (items_of x)) g) R"
    by (rule succeeds_bind) (rule assms(3))
  with i show ?thesis by simp
qed

lemma items_are_default [simp]: "items_are P (RList [])"
  by (simp add: items_are_def)

lemma fmt_register_usage_ok:
  "list_all (\<lambda>v. succeeds (fmt_register v) (\<lambda>l. True)) rs \<Longrightarrow>
   succeeds (fmt_register_usage \<lparr>ru_general_purpose = rs\<rparr>) (\<lambda>l. True)"
  unfolding fmt_register_usage_def
  by (intro ok_bind ok_mapE) simp_all

lemma register_usage_succeeds:
  assumes "register_usage_ok (field_or d ''register_usage'' (RDict []))"
  shows "succeeds (process_register_usage (RDict d))
           (\<lambda>v. succeeds (fmt_register_usage v) (\<lambda>l. True))"
proof -
  from assms obtain u where u: "field_or d ''register_usage'' (RDict []) = RDict u"
    and "opt_field u ''general_purpose'' (items_are register_ok)"
    by (auto simp: register_usage_ok_def dest!: mapping_ofD)
  then have "items_are register_ok (field_or u ''general_purpose'' (RList []))"
    by (simp add: opt_field_or)
  then show ?thesis
    unfolding register_usage_dict [OF u]
    by (rule items_succeed [where Q = "\<lambda>v. succeeds (fmt_register v) (\<lambda>l. True)"])
      (simp_all add: register_succeeds fmt_register_usage_ok)
qed

lemma field_succeeds: "field_ok f \<Longrightarrow> succeeds (field_info f) (\<lambda>v. True)"
  by (auto simp: field_ok_def field_info_dict dest!: mapping_ofD)

lemma fmt_structure_ok:
  "list_or_empty (ds_constraints s) \<Longrightarrow> succeeds (fmt_structure (name, s)) (\<lambda>l. True)"
  unfolding fmt_structure_def
  by (simp, intro ok_bind succeeds_opt_block) simp_all

lemma structure_succeeds:
  assumes "structure_ok s"
  shows "succeeds (data_structure name s) (\<lambda>v. \<forall>n. succeeds (fmt_structure (n, v)) (\<lambda>l. True))"
proof -
  from assms obtain m where m: "s = RDict m"
    and "opt_field m ''fields'' (items_are field_ok)"
    and c: "opt_field m ''constraints'' list_or_empty"
    by (auto simp: structure_ok_def dest!: mapping_ofD)
  then have "items_are field_ok (field_or m ''fields'' (RList []))"
    by (simp add: opt_field_or)
  then show ?thesis
    unfolding m data_structure_dict
    by (rule items_succeed [where Q = "\<lambda>v. True"])
      (simp_all add: field_succeeds fmt_structure_ok opt_field_or c)
qed

lemma ok_mapE_pairs:
  "list_all (\<lambda>kv. \<forall>n. succeeds (f (n, snd kv)) (\<lambda>l. True)) kvs \<Longrightarrow>
   succeeds (mapE f kvs) (\<lambda>ls. True)"
  by (rule ok_mapE) (auto simp: list_all_iff dest: spec)

lemma structures_succeed:
  assumes "structures_ok (field_or d ''structures'' (RDict []))"
  shows "succeeds (process_data_structures (RDict d))
           (\<lambda>v. succeeds (fmt_structures v) (\<lambda>l. True))"
proof -
  from assms obtain ss where ss: "field_or d ''structures'' (RDict []) = RDict ss"
    and a: "list_all (\<lambda>kv. structure_ok (snd kv)) ss"
    by (auto simp: structures_ok_def dest!: mapping_ofD)
  from a have "list_all (\<lambda>kv. succeeds (data_structure (fst kv) (snd kv))
                 (\<lambda>v. \<forall>n. succeeds (fmt_structure (n, v)) (\<lambda>l. True))) ss"
    by (simp add: list_all_iff structure_succeeds)
  then have "succeeds (dict_loop data_structure ss [])
     (list_all (\<lambda>kv. \<forall>n. succeeds (fmt_structure (n, snd kv)) (\<lambda>l. True)))"
    by (rule succeeds_dict_loop) simp
  then have "succeeds (dict_loop data_structure ss [])
     (\<lambda>v. succeeds (fmt_structures v) (\<lambda>l. True))"
    by (rule succeeds_mono)
      (auto simp: fmt_structures_def intro!: ok_bind ok_mapE_pairs)
  with ss show ?thesis
    by (simp add: process_data_structures_def field_or_def)
qed

lemma fmt_algorithm_ok:
  assumes "iterable (ir_memory_operations (al_implementation_requirements a))"
    "iterable (ir_encoding_requirements (al_implementation_requirements a))"
    "iterable (ir_leftover_handling (al_implementation_requirements a))"
    "iterable (pr_one_byte (ir_padding_rules (al_implementation_requirements a)))"
    "iterable (pr_two_bytes (ir_padding_rules (al_implementation_requirements a)))"
    "lists_by_name (al_steps a)"
    "list_or_empty (al_edge_cases a)" "list_or_empty (al_preconditions a)"
    "list_or_empty (al_postconditions a)" "list_or_empty (al_invariants a)"
  shows "succeeds (fmt_algorithm (n, a)) (\<lambda>l. True)"
  unfolding fmt_algorithm_def prod.case Let_def
  using assms
  by (intro ok_named_lists ok_bind succeeds_bullets succeeds_opt_block) simp_all

lemma padding_rules_default [simp]: "padding_rules_ok (RDict [])"
  by (simp add: padding_rules_ok_def opt_field_def)

lemma implementation_requirements_default [simp]: "implementation_requirements_ok (RDict [])"
  by (simp add: implementation_requirements_ok_def opt_field_def)

lemma algorithm_succeeds:
  assumes "algorithm_ok a"
  shows "succeeds (algorithm name a) (\<lambda>v. \<forall>n. succeeds (fmt_algorithm (n, v)) (\<lambda>l. True))"
proof -
  from assms obtain m where m: "a = RDict m"
    and ir: "opt_field m ''implementation_requirements'' implementation_requirements_ok"
    and f: "opt_field m ''steps'' lists_by_name" "opt_field m ''edge_cases'' list_or_empty"
      "opt_field m ''preconditions'' list_or_empty"
      "opt_field m ''postconditions'' list_or_empty"
      "opt_field m ''invariants'' list_or_empty"
    by (auto simp: algorithm_ok_def dest!: mapping_ofD)
  from ir have "implementation_requirements_ok
      (field_or m ''implementation_requirements'' (RDict []))"
    by (simp add: opt_field_or)
  then obtain i where i: "field_or m ''implementation_requirements'' (RDict []) = RDict i"
    and pr: "opt_field i ''padding_rules'' padding_rules_ok"
    and g: "opt_field i ''memory_operations'' iterable"
      "opt_field i ''encoding_requirements'' iterable"
      "opt_field i ''leftover_handling'' iterable"
    by (auto simp: implementation_requirements_ok_def dest!: mapping_ofD)
  from pr have "padding_rules_ok (field_or i ''padding_rules'' (RDict []))"
    by (simp add: opt_field_or)
  then obtain p where p: "field_or i ''padding_rules'' (RDict []) = RDict p"
    and h: "opt_field p ''one_byte'' iterable" "opt_field p ''two_bytes'' iterable"
    by (auto simp: padding_rules_ok_def dest!: mapping_ofD)
  show ?thesis
    unfolding m algorithm_dict [OF i p]
    using f g h by (simp add: fmt_algorithm_ok opt_field_or)
qed

lemma algorithms_succeed:
  assumes "algorithms_ok (field_or d ''algorithms'' (RDict []))"
  shows "succeeds (process_algorithms (RDict d))
           (\<lambda>v. succeeds (fmt_algorithms v) (\<lambda>l. True))"
proof -
  from assms obtain as where as: "field_or d ''algorithms'' (RDict []) = RDict as"
    and a: "list_all (\<lambda>kv. algorithm_ok (snd kv)) as"
    by (auto simp: algorithms_ok_def dest!: mapping_ofD)
  from a have "list_all (\<lambda>kv. succeeds (algorithm (fst kv) (snd kv))
                 (\<lambda>v. \<forall>n. succeeds (fmt_algorithm (n, v)) (\<lambda>l. True))) as"
    by (simp add: list_all_iff algorithm_succeeds)
  then have "succeeds (dict_loop algorithm as [])
     (list_all (\<lambda>kv. \<forall>n. succeeds (fmt_algorithm (n, snd kv)) (\<lambda>l. True)))"
    by (rule succeeds_dict_loop) simp
  then have "succeeds (dict_loop algorithm as [])
     (\<lambda>v. succeeds (fmt_algorithms v) (\<lambda>l. True))"
    by (rule succeeds_mono)
      (auto simp: fmt_algorithms_def intro!: ok_bind ok_mapE_pairs)
  with as show ?thesis
    by (simp add: process_algorithms_def field_or_def)
qed

lemma fmt_error_type_ok: "iterable (et_handling e) \<Longrightarrow> succeeds (fmt_error_type e) (\<lambda>l. True)"
  unfolding fmt_error_type_def
  by (intro ok_bind succeeds_bullets) simp_all

lemma error_type_succeeds:
  assumes "error_type_ok e"
  shows "succeeds (error_type_entry e)
           (list_all (\<lambda>v. succeeds (fmt_error_type v) (\<lambda>l. True)))"
proof (cases e)
  case (RStr s)
  then show ?thesis
    by (simp add: error_type_entry_def fmt_error_type_ok default_handling_def)
next
  case (RDict m)
  with assms show ?thesis
    by (simp add: error_type_ok_def error_type_entry_dict fmt_error_type_ok opt_field_or
        default_handling_def)
qed (simp_all add: error_type_entry_def)

lemma fmt_strategies_ok:
  assumes "opt_field h ''strategies'' strategies_ok"
  shows "succeeds (fmt_strategies (strategies_spec (map_of h ''strategies''))) (\<lambda>l. True)"
proof (cases "map_of h ''strategies''")
  case None
  then show ?thesis by (simp add: strategies_spec_def fmt_strategies_def)
next
  case (Some v)
  show ?thesis
  proof (cases v)
    case (RList l)
    with Some show ?thesis
      by (simp add: strategies_spec_def fmt_strategies_def fmt_named_list_def bullets_def)
  next
    case (RDict m)
    with Some assms have "list_all (\<lambda>kv. iterable (snd kv)) m"
      by (simp add: opt_field_def strategies_ok_def)
    then have "succeeds (mapE fmt_named_list m) (\<lambda>l. True)"
      by (rule succeeds_named_lists)
    then have "succeeds (bindE (mapE fmt_named_list m) (\<lambda>ls. Inr (concat ls))) (\<lambda>l. True)"
      by (rule ok_bind) simp
    with Some RDict show ?thesis
      by (simp add: strategies_spec_def fmt_strategies_def)
  qed (simp_all add: Some strategies_spec_def fmt_strategies_def)
qed

lemma error_handling_succeeds:
  assumes "error_handling_ok (field_or d ''error_handling'' (RDict []))"
  shows "succeeds (process_error_handling (RDict d))
           (\<lambda>v. succeeds (fmt_error_handling v) (\<lambda>l. True))"
proof -
  from assms obtain h where h: "field_or d ''error_handling'' (RDict []) = RDict h"
    and e: "opt_field h ''error_types'' (items_are error_type_ok)"
    and s: "opt_field h ''strategies'' strategies_ok"
    and r: "opt_field h ''syscall_requirements'' iterable"
    by (auto simp: error_handling_ok_def dest!: mapping_ofD)
  from e have "items_are error_type_ok (field_or h ''error_types'' (RList []))"
    by (simp add: opt_field_or)
  then show ?thesis
    unfolding error_handling_dict [OF h]
  proof (rule items_succeed
      [where Q = "list_all (\<lambda>v. succeeds (fmt_error_type v) (\<lambda>l. True))"])
    fix i assume "error_type_ok i"
    then show "succeeds (error_type_entry i)
                 (list_all (\<lambda>v. succeeds (fmt_error_type v) (\<lambda>l. True)))"
      by (rule error_type_succeeds)
  next
    fix vs assume "list_all (list_all (\<lambda>v. succeeds (fmt_error_type v) (\<lambda>l. True))) vs"
    then have "list_all (\<lambda>v. succeeds (fmt_error_type v) (\<lambda>l. True)) (concat vs)"
      by (auto simp: list_all_iff)
    then have "succeeds (mapE fmt_error_type (concat vs)) (\<lambda>l. True)"
      by (rule ok_mapE)
    moreover from r have "iterable (field_or h ''syscall_requirements'' (RList []))"
      by (simp add: opt_field_or)
    ultimately show "succeeds (Inr \<lparr>eh_strategies = strategies_spec (map_of h ''strategies''),
          eh_error_types = concat vs,
          eh_syscall_requirements = field_or h ''syscall_requirements'' (RList [])\<rparr>)
       (\<lambda>v. succeeds (fmt_error_handling v) (\<lambda>l. True))"
      using fmt_strategies_ok [OF s]
      unfolding succeeds_Inr fmt_error_handling_def
      by (intro ok_bind succeeds_bullets) simp_all
  qed
qed

lemma bss_variable_succeeds: "bss_variable_ok v \<Longrightarrow> succeeds (bss_variable v) (\<lambda>v. True)"
  by (auto simp: bss_variable_ok_def bss_variable_dict dest!: mapping_ofD)

lemma section_requirements_succeeds:
  assumes "section_requirements_ok (field_or d ''section_requirements'' (RDict []))"
  shows "succeeds (process_section_requirements (RDict d))
           (\<lambda>v. succeeds (fmt_section_requirements v) (\<lambda>l. True))"
proof -
  from assms obtain r where r: "field_or d ''section_requirements'' (RDict []) = RDict r"
    and bs: "opt_field r ''bss''
               (mapping_of (\<lambda>b. opt_field b ''variables'' (items_are bss_variable_ok)))"
    and f: "opt_field r ''data'' iterable" "opt_field r ''text'' lists_by_name"
    by (auto simp: section_requirements_ok_def dest!: mapping_ofD)
  from bs have "mapping_of (\<lambda>b. opt_field b ''variables'' (items_are bss_variable_ok))
                  (field_or r ''bss'' (RDict []))"
    by (rule opt_field_or) (simp add: opt_field_def)
  then obtain b where b: "field_or r ''bss'' (RDict []) = RDict b"
    and "opt_field b ''variables'' (items_are bss_variable_ok)"
    by (auto dest!: mapping_ofD)
  then have "items_are bss_variable_ok (field_or b ''variables'' (RList []))"
    by (simp add: opt_field_or)
  then show ?thesis
    unfolding section_requirements_dict [OF r b]
  proof (rule items_succeed [where Q = "\<lambda>v. True"])
    fix vs :: "BssVariable list"
    from f have "iterable (field_or r ''data'' (RList []))"
      and "lists_by_name (field_or r ''text'' (RDict []))"
      by (simp_all add: opt_field_or)
    then show "succeeds (Inr \<lparr>sr_data = field_or r ''data'' (RList []), sr_bss = vs,
          sr_text = field_or r ''text'' (RDict [])\<rparr>)
       (\<lambda>v. succeeds (fmt_section_requirements v) (\<lambda>l. True))"
      unfolding succeeds_Inr fmt_section_requirements_def
      by (intro ok_named_lists ok_bind succeeds_bullets) simp_all
  qed (rule bss_variable_succeeds)
qed

lemma benchmark_succeeds:
  assumes "benchmark_ok b"
  shows "succeeds (benchmark b) (\<lambda>v. succeeds (fmt_benchmark v) (\<lambda>l. True))"
proof -
  from assms obtain m where "b = RDict m" "first_missing m [''name'', ''input_size''] = None"
    and "opt_field m ''requirements'' list_or_empty"
    by (auto simp: benchmark_ok_def dest!: mapping_ofD)
  moreover from this have "succeeds (opt_block ''    Requirements:'' ''      - ''
       (field_or m ''requirements'' (RList []))) (\<lambda>l. True)"
    by (intro succeeds_opt_block) (simp add: opt_field_or)
  ultimately show ?thesis
    by (simp add: benchmark_dict fmt_benchmark_def ok_bind)
qed

lemma performance_succeeds:
  assumes "performance_ok (field_or d ''performance'' (RDict []))"
  shows "succeeds (process_performance (RDict d))
           (\<lambda>v. succeeds (fmt_performance v) (\<lambda>l. True))"
proof -
  from assms obtain p where p: "field_or d ''performance'' (RDict []) = RDict p"
    and bs: "opt_field p ''benchmarks'' (items_are benchmark_ok)"
    and f: "opt_field p ''constraints'' iterable" "opt_field p ''register_usage'' iterable"
      "opt_field p ''memory_access'' iterable"
    by (auto simp: performance_ok_def dest!: mapping_ofD)
  from bs have "items_are benchmark_ok (field_or p ''benchmarks'' (RList []))"
    by (simp add: opt_field_or)
  then show ?thesis
    unfolding performance_dict [OF p]
  proof (rule items_succeed [where Q = "\<lambda>v. succeeds (fmt_benchmark v) (\<lambda>l. True)"])
    fix vs assume "list_all (\<lambda>v. succeeds (fmt_benchmark v) (\<lambda>l. True)) vs"
    then have "succeeds (mapE fmt_benchmark vs) (\<lambda>l. True)"
      by (rule ok_mapE)
    moreover from f have "iterable (field_or p ''constraints'' (RList []))"
      "iterable (field_or p ''register_usage'' (RList []))"
      "iterable (field_or p ''memory_access'' (RList []))"
      by (simp_all add: opt_field_or)
    ultimately show "succeeds (Inr \<lparr>pf_time_complexity = field_or p ''time_complexity'' (RStr []),
          pf_space_complexity = field_or p ''space_complexity'' (RStr []),
          pf_constraints = field_or p ''constraints'' (RList []),
          pf_register_usage = field_or p ''register_usage'' (RList []),
          pf_memory_access = field_or p ''memory_access'' (RList []),
          pf_benchmarks = vs\<rparr>)
       (\<lambda>v. succeeds (fmt_performance v) (\<lambda>l. True))"
      unfolding succeeds_Inr fmt_performance_def
      by (intro ok_bind succeeds_bullets) simp_all
  qed (rule benchmark_succeeds)
qed

lemma unit_test_succeeds:
  assumes "unit_test_ok t"
  shows "succeeds (unit_test t) (\<lambda>v. succeeds (fmt_unit_test v) (\<lambda>l. True))"
proof (cases t)
  case (RStr s)
  then show ?thesis
    by (simp add: unit_test_def fmt_unit_test_def opt_block_def py_truthy_def)
next
  case (RDict m)
  with assms have "first_missing m [''name''] = None"
    and "opt_field m ''validation'' list_or_empty"
    by (simp_all add: unit_test_ok_def)
  moreover from this have "succeeds (opt_block ''    Validation:'' ''      - ''
       (field_or m ''validation'' (RList []))) (\<lambda>l. True)"
    by (intro succeeds_opt_block) (simp add: opt_field_or)
  ultimately show ?thesis
    using RDict by (simp add: unit_test_dict fmt_unit_test_def ok_bind)
qed (use assms in \<open>simp_all add: unit_test_ok_def\<close>)

lemma first_missing_one: "first_missing m [k] = None \<longleftrightarrow> map_of m k \<noteq> None"
  by (simp add: first_missing_def)

lemma integration_test_succeeds:
  assumes "integration_test_ok t"
  shows "succeeds (fmt_integration_test (integration_test t)) (\<lambda>l. True)"
proof (cases t)
  case (RStr s)
  then show ?thesis by (simp add: integration_test_def fmt_integration_test_def)
next
  case (RDict m)
  with assms show ?thesis
    by (auto simp: integration_test_ok_def integration_test_def fmt_integration_test_def
        first_missing_one)
qed (use assms in \<open>simp_all add: integration_test_ok_def\<close>)

lemma test_vector_succeeds:
  "test_vector_ok v \<Longrightarrow> succeeds (fmt_test_vector v) (\<lambda>l. True)"
  by (auto simp: test_vector_ok_def fmt_test_vector_def first_missing_def
      dest!: mapping_ofD split: if_splits)

lemma conformance_test_succeeds:
  assumes "conformance_test_ok t"
  shows "succeeds (fmt_conformance_test (conformance_test t)) (\<lambda>l. True)"
proof (cases t)
  case (RStr s)
  then show ?thesis
    by (simp add: conformance_test_def fmt_conformance_test_def py_in_def)
next
  case (RDict m)
  with assms obtain st where st: "map_of m ''standard'' = Some st"
    and tv: "opt_field m ''test_vectors'' (items_are test_vector_ok)"
    by (auto simp: conformance_test_ok_def first_missing_one)
  show ?thesis
  proof (cases "map_of m ''test_vectors''")
    case None
    then have "''test_vectors'' \<notin> fst ` set m"
      by (simp add: map_of_eq_None_iff)
    with RDict st None show ?thesis
      by (simp add: conformance_test_def fmt_conformance_test_def py_in_def)
  next
    case (Some v)
    then have in_m: "''test_vectors'' \<in> fst ` set m"
      by (metis map_of_eq_None_iff option.distinct(1))
    from Some tv have "items_are test_vector_ok v"
      by (simp add: opt_field_def)
    then have "succeeds (bindE (py_iter v) (\<lambda>vectors. bindE (mapE fmt_test_vector vectors)
        (\<lambda>vs. Inr ([''  Standard: '' @ py_str st, ''  Test Vectors:''] @ concat vs))))
        (\<lambda>l. True)"
      by (rule items_succeed [where Q = "\<lambda>l. True"]) (simp_all add: test_vector_succeeds)
    with RDict st Some in_m show ?thesis
      by (simp add: conformance_test_def fmt_conformance_test_def py_in_def)
  qed
qed (use assms in \<open>simp_all add: conformance_test_ok_def\<close>)

lemma testing_succeeds:
  assumes "testing_ok (field_or d ''testing'' (RDict []))"
  shows "succeeds (process_testing (RDict d)) (\<lambda>v. succeeds (fmt_testing v) (\<lambda>l. True))"
proof -
  from assms obtain t where t: "field_or d ''testing'' (RDict []) = RDict t"
    and "opt_field t ''unit_tests'' (items_are unit_test_ok)"
      "opt_field t ''integration_tests'' (items_are integration_test_ok)"
      "opt_field t ''conformance_tests'' (items_are conformance_test_ok)"
    by (auto simp: testing_ok_def dest!: mapping_ofD)
  then have u: "items_are unit_test_ok (field_or t ''unit_tests'' (RList []))"
    and i: "items_are integration_test_ok (field_or t ''integration_tests'' (RList []))"
    and c: "items_are conformance_test_ok (field_or t ''conformance_tests'' (RList []))"
    by (simp_all add: opt_field_or)
  from i have i1: "py_iter (field_or t ''integration_tests'' (RList []))
                     = Inr (items_of (field_or t ''integration_tests'' (RList [])))"
    and i2: "list_all (\<lambda>x. succeeds (fmt_integration_test x) (\<lambda>l. True))
               (map integration_test (items_of (field_or t ''integration_tests'' (RList []))))"
    by (simp_all add: items_are_def iterable_iter list_all_iff integration_test_succeeds)
  from c have c1: "py_iter (field_or t ''conformance_tests'' (RList []))
                     = Inr (items_of (field_or t ''conformance_tests'' (RList [])))"
    and c2: "list_all (\<lambda>x. succeeds (fmt_conformance_test x) (\<lambda>l. True))
               (map conformance_test (items_of (field_or t ''conformance_tests'' (RList []))))"
    by (simp_all add: items_are_def iterable_iter list_all_iff conformance_test_succeeds)
  from u show ?thesis
    unfolding testing_dict [OF t]
  proof (rule items_succeed [where Q = "\<lambda>v. succeeds (fmt_unit_test v) (\<lambda>l. True)"])
    fix vs assume "list_all (\<lambda>v. succeeds (fmt_unit_test v) (\<lambda>l. True)) vs"
    then have "succeeds (mapE fmt_unit_test vs) (\<lambda>l. True)"
      by (rule ok_mapE)
    moreover from i2 have "succeeds (mapE fmt_integration_test
        (map integration_test (items_of (field_or t ''integration_tests'' (RList [])))))
        (\<lambda>l. True)"
      by (rule ok_mapE)
    moreover from c2 have "succeeds (mapE fmt_conformance_test
        (map conformance_test (items_of (field_or t ''conformance_tests'' (RList [])))))
        (\<lambda>l. True)"
      by (rule ok_mapE)
    ultimately show "succeeds
        (bindE (py_iter (field_or t ''integration_tests'' (RList []))) (\<lambda>is.
         bindE (py_iter (field_or t ''conformance_tests'' (RList []))) (\<lambda>cs.
         Inr \<lparr>ts_unit_tests = vs, ts_integration_tests = map integration_test is,
              ts_conformance_tests = map conformance_test cs\<rparr>)))
        (\<lambda>v. succeeds (fmt_testing v) (\<lambda>l. True))"
      unfolding i1 c1 bindE_Inr succeeds_Inr fmt_testing_def
      by (intro ok_bind) simp_all
  qed (rule unit_test_succeeds)
qed

lemma code_style_succeeds:
  assumes "code_style_ok (field_or d ''code_style'' (RDict []))"
  shows "succeeds (process_code_style (RDict d))
           (\<lambda>v. succeeds (fmt_code_style v) (\<lambda>l. True))"
proof -
  from assms obtain c where c: "field_or d ''code_style'' (RDict []) = RDict c"
    and "opt_field c ''indentation'' iterable" "opt_field c ''comments'' iterable"
      "opt_field c ''naming'' iterable" "opt_field c ''organization'' iterable"
    by (auto simp: code_style_ok_def dest!: mapping_ofD)
  then have "iterable (field_or c ''indentation'' (RList []))"
    "iterable (field_or c ''comments'' (RList []))"
    "iterable (field_or c ''naming'' (RList []))"
    "iterable (field_or c ''organization'' (RList []))"
    by (simp_all add: opt_field_or)
  then show ?thesis
    unfolding code_style_dict [OF c] succeeds_Inr fmt_code_style_def
    by (intro ok_bind succeeds_bullets) simp_all
qed

lemma section_defaults [simp]:
  "header_format_ok (RDict [])" "register_usage_ok (RDict [])" "structures_ok (RDict [])"
  "algorithms_ok (RDict [])" "error_handling_ok (RDict [])"
  "section_requirements_ok (RDict [])" "performance_ok (RDict [])" "testing_ok (RDict [])"
  "code_style_ok (RDict [])"
  by (simp_all add: header_format_ok_def register_usage_ok_def structures_ok_def
      algorithms_ok_def error_handling_ok_def section_requirements_ok_def
      performance_ok_def testing_ok_def code_style_ok_def opt_field_def)

lemma well_shaped_succeeds:
  assumes m: "field_or d ''metadata'' (RDict []) = RDict m"
    and k: "first_missing m metadata_keys = None"
    and w: "well_shaped d"
  shows "\<exists>report. process_spec (RDict d) = Inr report"
proof -
  from w have s:
    "header_format_ok (field_or d ''header_format'' (RDict []))"
    "register_usage_ok (field_or d ''register_usage'' (RDict []))"
    "structures_ok (field_or d ''structures'' (RDict []))"
    "algorithms_ok (field_or d ''algorithms'' (RDict []))"
    "error_handling_ok (field_or d ''error_handling'' (RDict []))"
    "section_requirements_ok (field_or d ''section_requirements'' (RDict []))"
    "performance_ok (field_or d ''performance'' (RDict []))"
    "testing_ok (field_or d ''testing'' (RDict []))"
    "code_style_ok (field_or d ''code_style'' (RDict []))"
    by (simp_all add: well_shaped_def opt_field_or)
  from m k have "\<exists>l. fmt_metadata (field_or d ''metadata'' (RDict [])) = Inr l"
    by (simp add: fmt_metadata_dict)
  then obtain l1 where 1: "fmt_metadata (field_or d ''metadata'' (RDict [])) = Inr l1" ..
  from header_format_succeeds [OF s(1)] obtain v2 l2 where
    2: "process_header_format (RDict d) = Inr v2" "fmt_header_format v2 = Inr l2"
    by (blast dest: succeedsD)
  from register_usage_succeeds [OF s(2)] obtain v3 l3 where
    3: "process_register_usage (RDict d) = Inr v3" "fmt_register_usage v3 = Inr l3"
    by (blast dest: succeedsD)
  from structures_succeed [OF s(3)] obtain v4 l4 where
    4: "process_data_structures (RDict d) = Inr v4" "fmt_structures v4 = Inr l4"
    by (blast dest: succeedsD)
  from algorithms_succeed [OF s(4)] obtain v5 l5 where
    5: "process_algorithms (RDict d) = Inr v5" "fmt_algorithms v5 = Inr l5"
    by (blast dest: succeedsD)
  from error_handling_succeeds [OF s(5)] obtain v6 l6 where
    6: "process_error_handling (RDict d) = Inr v6" "fmt_error_handling v6 = Inr l6"
    by (blast dest: succeedsD)
  from section_requirements_succeeds [OF s(6)] obtain v7 l7 where
    7: "process_section_requirements (RDict d) = Inr v7" "fmt_section_requirements v7 = Inr l7"
    by (blast dest: succeedsD)
  from performance_succeeds [OF s(7)] obtain v8 l8 where
    8: "process_performance (RDict d) = Inr v8" "fmt_performance v8 = Inr l8"
    by (blast dest: succeedsD)
  from testing_succeeds [OF s(8)] obtain v9 l9 where
    9: "process_testing (RDict d) = Inr v9" "fmt_testing v9 = Inr l9"
    by (blast dest: succeedsD)
  from code_style_succeeds [OF s(9)] obtain v10 l10 where
    10: "process_code_style (RDict d) = Inr v10" "fmt_code_style v10 = Inr l10"
    by (blast dest: succeedsD)
  let ?spec = "\<lparr>sp_metadata = field_or d ''metadata'' (RDict []), sp_header_format = v2,
      sp_register_usage = v3, sp_structures = v4, sp_algorithms = v5,
      sp_error_handling = v6, sp_section_requirements = v7, sp_performance = v8,
      sp_testing = v9, sp_code_style = v10\<rparr>"
  have b: "build_specification (RDict d) = Inr ?spec"
    by (simp add: build_specification_eq_Inr metadata_total 2 3 4 5 6 7 8 9 10)
  have "\<exists>ls. format_lines ?spec = Inr ls"
    unfolding format_lines_ok
    by (simp add: 1 2 3 4 5 6 7 8 9 10)
  with b show ?thesis
    unfolding process_spec_ok by blast
qed

section \<open>Items that lack a required key, and the first exception\<close>

text \<open>A mapping item that lacks a key its normalizer reads by index makes the normalizer
  of its section raise, so the document does not normalize. The exception of
  \<^verbatim>\<open>_create_specification\<close> is that of the first section normalizer that raises.\<close>

lemma raw_at_get: "py_get x k d = Inr v \<Longrightarrow> raw_at x k = v \<or> raw_at x k = RNull"
  by (auto simp: py_get_eq_Inr raw_at_def raw_lookup_def split: option.splits)

lemma raw_at_null [simp]: "raw_at RNull k = RNull"
  by (simp add: raw_at_def raw_lookup_def)

lemma items_of_null [simp]: "items_of RNull = []"
  by (simp add: items_of_def py_iter_def)

lemma pairs_of_null [simp]: "pairs_of RNull = []"
  by (simp add: pairs_of_def)

lemma items_of_iter: "py_iter v = Inr xs \<Longrightarrow> items_of v = xs"
  by (simp add: items_of_def)

lemma pairs_of_items: "py_items v = Inr kvs \<Longrightarrow> pairs_of v = kvs"
  by (simp add: py_items_eq_Inr pairs_of_def)

lemma dict_loop_Inr_all:
  "dict_loop f items d = Inr r \<Longrightarrow> (k, x) \<in> set items \<Longrightarrow> \<exists>y. f k x = Inr y"
proof (induction items arbitrary: d)
  case Nil
  then show ?case by simp
next
  case (Cons item items)
  obtain k' x' where item: "item = (k', x')" by (cases item)
  from Cons.prems(1) item obtain y where y: "f k' x' = Inr y"
    and r: "dict_loop f items (dict_set d k' y) = Inr r"
    by (auto simp: bindE_eq_Inr)
  show ?case
  proof (cases "(k, x) = (k', x')")
    case True
    with y show ?thesis by auto
  next
    case False
    with Cons.prems(2) item have "(k, x) \<in> set items" by auto
    with r show ?thesis by (rule Cons.IH)
  qed
qed

lemma lacks_register: "lacks [''name'', ''purpose''] r \<Longrightarrow> register_info r \<noteq> Inr v"
  by (cases r) (auto simp: lacks_def register_info_dict)

lemma lacks_field: "lacks [''name'', ''type''] f \<Longrightarrow> field_info f \<noteq> Inr v"
  by (cases f) (auto simp: lacks_def field_info_dict)

lemma lacks_error_type: "lacks [''name''] e \<Longrightarrow> error_type_entry e \<noteq> Inr v"
  by (cases e) (auto simp: lacks_def error_type_entry_dict)

lemma lacks_bss_variable:
  "lacks [''name'', ''size'', ''align'', ''purpose''] b \<Longrightarrow> bss_variable b \<noteq> Inr v"
  by (cases b) (auto simp: lacks_def bss_variable_dict)

lemma lacks_benchmark: "lacks [''name'', ''input_size''] b \<Longrightarrow> benchmark b \<noteq> Inr v"
  by (cases b) (auto simp: lacks_def benchmark_dict)

lemma lacks_unit_test: "lacks [''name''] t \<Longrightarrow> unit_test t \<noteq> Inr v"
  by (cases t) (auto simp: lacks_def unit_test_dict)

lemma lacking_register:
  assumes "list_ex (lacks [''name'', ''purpose''])
       (items_of (raw_at (raw_at data ''register_usage'') ''general_purpose''))"
  shows "process_register_usage data \<noteq> Inr v"
proof
  assume "process_register_usage data = Inr v"
  then obtain usage gp regs gs where g: "py_get data ''register_usage'' (RDict []) = Inr usage"
    "py_get usage ''general_purpose'' (RList []) = Inr gp" "py_iter gp = Inr regs"
    "mapE register_info regs = Inr gs"
    by (auto simp: process_register_usage_def bindE_eq_Inr)
  from assms obtain r where r: "r \<in> set (items_of (raw_at (raw_at data ''register_usage'')
      ''general_purpose''))" and l: "lacks [''name'', ''purpose''] r"
    by (auto simp: list_ex_iff)
  from r raw_at_get [OF g(1)] raw_at_get [OF g(2)] g(3) have "r \<in> set regs"
    by (auto simp: items_of_iter)
  with g(4) l show False
    by (auto dest: mapE_Inr_all lacks_register)
qed

lemma lacking_field:
  assumes "list_ex (\<lambda>s. list_ex (lacks [''name'', ''type'']) (items_of (raw_at (snd s) ''fields'')))
         (pairs_of (raw_at data ''structures''))"
  shows "process_data_structures data \<noteq> Inr v"
proof
  assume "process_data_structures data = Inr v"
  then obtain ss items where g: "py_get data ''structures'' (RDict []) = Inr ss"
    "py_items ss = Inr items" "dict_loop data_structure items [] = Inr v"
    by (auto simp: process_data_structures_def bindE_eq_Inr)
  from assms obtain n s f where s: "(n, s) \<in> set (pairs_of (raw_at data ''structures''))"
    and f: "f \<in> set (items_of (raw_at s ''fields''))" and l: "lacks [''name'', ''type''] f"
    by (auto simp: list_ex_iff)
  from s raw_at_get [OF g(1)] g(2) have "(n, s) \<in> set items"
    by (auto simp: pairs_of_items)
  with g(3) obtain y where "data_structure n s = Inr y"
    by (blast dest: dict_loop_Inr_all)
  then obtain fs flds fields where h: "py_get s ''fields'' (RList []) = Inr fs"
    "py_iter fs = Inr flds" "mapE field_info flds = Inr fields"
    by (auto simp: data_structure_def bindE_eq_Inr)
  from f raw_at_get [OF h(1)] h(2) have "f \<in> set flds"
    by (auto simp: items_of_iter)
  with h(3) l show False
    by (auto dest: mapE_Inr_all lacks_field)
qed

lemma lacking_error_type:
  assumes "list_ex (lacks [''name''])
         (items_of (raw_at (raw_at data ''error_handling'') ''error_types''))"
  shows "process_error_handling data \<noteq> Inr v"
proof
  assume "process_error_handling data = Inr v"
  then obtain eh et errs as where g: "py_get data ''error_handling'' (RDict []) = Inr eh"
    "py_get eh ''error_types'' (RList []) = Inr et" "py_iter et = Inr errs"
    "mapE error_type_entry errs = Inr as"
    by (auto simp: process_error_handling_def bindE_eq_Inr)
  from assms obtain r where r: "r \<in> set (items_of (raw_at (raw_at data ''error_handling'')
      ''error_types''))" and l: "lacks [''name''] r"
    by (auto simp: list_ex_iff)
  from r raw_at_get [OF g(1)] raw_at_get [OF g(2)] g(3) have "r \<in> set errs"
    by (auto simp: items_of_iter)
  with g(4) l show False
    by (auto dest: mapE_Inr_all lacks_error_type)
qed

lemma lacking_bss_variable:
  assumes "list_ex (lacks [''name'', ''size'', ''align'', ''purpose''])
         (items_of (raw_at (raw_at (raw_at data ''section_requirements'') ''bss'') ''variables''))"
  shows "process_section_requirements data \<noteq> Inr v"
proof
  assume "process_section_requirements data = Inr v"
  then obtain reqs bss vs vars bs where
    g: "py_get data ''section_requirements'' (RDict []) = Inr reqs"
    "py_get reqs ''bss'' (RDict []) = Inr bss"
    "py_get bss ''variables'' (RList []) = Inr vs" "py_iter vs = Inr vars"
    "mapE bss_variable vars = Inr bs"
    by (auto simp: process_section_requirements_def bindE_eq_Inr)
  from assms obtain r where r: "r \<in> set (items_of (raw_at (raw_at (raw_at data
      ''section_requirements'') ''bss'') ''variables''))"
    and l: "lacks [''name'', ''size'', ''align'', ''purpose''] r"
    by (auto simp: list_ex_iff)
  from r raw_at_get [OF g(1)] raw_at_get [OF g(2)] raw_at_get [OF g(3)] g(4)
  have "r \<in> set vars"
    by (auto simp: items_of_iter)
  with g(5) l show False
    by (auto dest: mapE_Inr_all lacks_bss_variable)
qed

lemma lacking_benchmark:
  assumes "list_ex (lacks [''name'', ''input_size''])
         (items_of (raw_at (raw_at data ''performance'') ''benchmarks''))"
  shows "process_performance data \<noteq> Inr v"
proof
  assume "process_performance data = Inr v"
  then obtain pf bs benches bms where g: "py_get data ''performance'' (RDict []) = Inr pf"
    "py_get pf ''benchmarks'' (RList []) = Inr bs" "py_iter bs = Inr benches"
    "mapE benchmark benches = Inr bms"
    by (auto simp: process_performance_def bindE_eq_Inr)
  from assms obtain r where r: "r \<in> set (items_of (raw_at (raw_at data ''performance'')
      ''benchmarks''))" and l: "lacks [''name'', ''input_size''] r"
    by (auto simp: list_ex_iff)
  from r raw_at_get [OF g(1)] raw_at_get [OF g(2)] g(3) have "r \<in> set benches"
    by (auto simp: items_of_iter)
  with g(4) l show False
    by (auto dest: mapE_Inr_all lacks_benchmark)
qed

lemma lacking_unit_test:
  assumes "list_ex (lacks [''name''])
         (items_of (raw_at (raw_at data ''testing'') ''unit_tests''))"
  shows "process_testing data \<noteq> Inr v"
proof
  assume "process_testing data = Inr v"
  then obtain td u us uts where g: "py_get data ''testing'' (RDict []) = Inr td"
    "py_get td ''unit_tests'' (RList []) = Inr u" "py_iter u = Inr us"
    "mapE unit_test us = Inr uts"
    by (auto simp: process_testing_def bindE_eq_Inr)
  from assms obtain r where r: "r \<in> set (items_of (raw_at (raw_at data ''testing'')
      ''unit_tests''))" and l: "lacks [''name''] r"
    by (auto simp: list_ex_iff)
  from r raw_at_get [OF g(1)] raw_at_get [OF g(2)] g(3) have "r \<in> set us"
    by (auto simp: items_of_iter)
  with g(4) l show False
    by (auto dest: mapE_Inr_all lacks_unit_test)
qed

lemma lacking_item_fails:
  assumes "item_lacks_required data"
  shows "\<exists>e. build_specification data = Inl e"
proof (cases "build_specification data")
  case (Inl e)
  then show ?thesis by blast
next
  case (Inr spec)
  then have "process_register_usage data = Inr (sp_register_usage spec)"
    "process_data_structures data = Inr (sp_structures spec)"
    "process_error_handling data = Inr (sp_error_handling spec)"
    "process_section_requirements data = Inr (sp_section_requirements spec)"
    "process_performance data = Inr (sp_performance spec)"
    "process_testing data = Inr (sp_testing spec)"
    by (simp_all add: build_specification_eq_Inr)
  with assms show ?thesis
    unfolding item_lacks_required_def
    using lacking_register lacking_field lacking_error_type lacking_bss_variable
      lacking_benchmark lacking_unit_test
    by blast
qed

lemma lacking_item_create:
  "item_lacks_required data \<Longrightarrow> \<exists>e. create_specification data = Inl e"
  by (drule lacking_item_fails) (auto simp: create_specification_def split: exn.splits)

lemma lacking_item_process:
  "item_lacks_required data \<Longrightarrow> \<exists>e. process_spec data = Inl (SpecForgeError_failed e)"
  by (drule lacking_item_create) (auto simp: process_spec_def)

lemma err_of_simps [simp]: "err_of (Inl e) = Some e" "err_of (Inr v) = None"
  by (simp_all add: err_of_def)

lemma build_first_error:
  "err_of (build_specification data) = first_error (section_errors data)"
  unfolding build_specification_def section_errors_def
  by (cases "process_metadata data"; simp;
      cases "process_header_format data"; simp;
      cases "process_register_usage data"; simp;
      cases "process_data_structures data"; simp;
      cases "process_algorithms data"; simp;
      cases "process_error_handling data"; simp;
      cases "process_section_requirements data"; simp;
      cases "process_performance data"; simp;
      cases "process_testing data"; simp;
      cases "process_code_style data"; simp)

lemma first_error_decides:
  "first_error (section_errors data) = Some (KeyError k) \<Longrightarrow>
     create_specification data = Inl (ValidationError (KeyError k))"
  "first_error (section_errors data) = Some e \<Longrightarrow> \<not> is_key_error e \<Longrightarrow>
     create_specification data = Inl (SpecForgeError_creating e)"
  "first_error (section_errors data) = None \<Longrightarrow>
     \<exists>spec. create_specification data = Inr spec"
  unfolding build_first_error [symmetric]
  by (cases "build_specification data";
      auto simp: create_specification_def is_key_error_def split: exn.splits)+

lemma mapE_first_failure:
  "list_all (\<lambda>y. err_of (f y) = None) ys \<Longrightarrow> err_of (f x) = Some e \<Longrightarrow>
   err_of (mapE f (ys @ x # zs)) = Some e"
proof (induction ys)
  case Nil
  then show ?case by (cases "f x") simp_all
next
  case (Cons y ys)
  then show ?case by (cases "f y") (simp_all, cases "mapE f (ys @ x # zs)", simp_all)
qed

section \<open>C1: enforcement of the mandatory metadata fields\<close>

lemma metadata_of_build:
  "build_specification (RDict d) = Inr spec \<Longrightarrow>
   sp_metadata spec = field_or d ''metadata'' (RDict [])"
  by (simp add: build_specification_eq_Inr metadata_total)

lemma format_lines_metadata_fails:
  "fmt_metadata (sp_metadata spec) = Inl e \<Longrightarrow> format_lines spec = Inl e"
  by (simp add: format_lines_def)

lemma incomplete_metadata_fails:
  assumes "field_or d ''metadata'' (RDict []) = RDict m"
    and "first_missing m metadata_keys = Some k"
  shows "\<exists>e. process_spec (RDict d) = Inl (SpecForgeError_failed e)"
    and "create_specification (RDict d) = Inr spec \<Longrightarrow>
         process_spec (RDict d) = Inl (SpecForgeError_failed (KeyError k))"
proof -
  have *: "process_spec (RDict d) = Inl (SpecForgeError_failed (KeyError k))"
    if "create_specification (RDict d) = Inr spec" for spec
  proof -
    from that have "sp_metadata spec = RDict m"
      using assms(1) by (simp add: create_specification_eq_Inr metadata_of_build)
    with assms(2) have "fmt_metadata (sp_metadata spec) = Inl (KeyError k)"
      by (simp add: fmt_metadata_dict)
    then have "format_text spec = Inl (KeyError k)"
      by (simp add: format_text_def format_lines_metadata_fails)
    with that show ?thesis by (simp add: process_spec_def)
  qed
  show "create_specification (RDict d) = Inr spec \<Longrightarrow>
         process_spec (RDict d) = Inl (SpecForgeError_failed (KeyError k))"
    by (rule *)
  show "\<exists>e. process_spec (RDict d) = Inl (SpecForgeError_failed e)"
  proof (cases "create_specification (RDict d)")
    case (Inl e)
    then show ?thesis by (simp add: process_spec_def)
  next
    case (Inr spec)
    then show ?thesis using * by blast
  qed
qed

lemma build_all_absent:
  assumes "list_all (\<lambda>k. map_of d k = None) section_keys"
  shows "build_specification (RDict d) =
           Inr (default_specification (field_or d ''metadata'' (RDict [])))"
  using assms
  by (simp add: section_keys_def build_specification_def metadata_total
      absent_header_format absent_register_usage absent_structures absent_algorithms
      absent_error_handling absent_section_requirements absent_performance absent_testing
      absent_code_style default_specification_def)

lemma format_lines_default:
  assumes "first_missing m metadata_keys = None"
  shows "format_lines (default_specification (RDict m)) =
           Inr ([''=== SPECIFICATION ==='',
                 ''Name: '' @ py_str (field_or m ''name'' RNull),
                 ''Version: '' @ py_str (field_or m ''version'' RNull),
                 ''Description: '' @ py_str (field_or m ''description'' RNull),
                 []] @ empty_sections_lines)"
  using assms
  by (simp add: format_lines_def default_specification_def fmt_metadata_dict fmt_defaults
      empty_sections_lines_def)

lemma metadata_only_succeeds:
  assumes "field_or d ''metadata'' (RDict []) = RDict m"
    and "first_missing m metadata_keys = None"
    and "list_all (\<lambda>k. map_of d k = None) section_keys"
  shows "process_spec (RDict d) =
           Inr (join [CHR 0x0A]
                 ([''=== SPECIFICATION ==='',
                   ''Name: '' @ py_str (field_or m ''name'' RNull),
                   ''Version: '' @ py_str (field_or m ''version'' RNull),
                   ''Description: '' @ py_str (field_or m ''description'' RNull),
                   []] @ empty_sections_lines))"
proof -
  from assms(1,3) have "create_specification (RDict d) = Inr (default_specification (RDict m))"
    by (simp add: create_specification_def build_all_absent)
  with assms(2) show ?thesis
    by (simp add: process_spec_def format_text_def format_lines_default)
qed

lemma map_of_drop_keys: "map_of (drop_keys K d) k = (if k \<in> K then None else map_of d k)"
  by (induction d) (auto simp: drop_keys_def)

lemma dropped_metadata:
  "''metadata'' \<notin> K \<Longrightarrow> process_metadata (RDict (drop_keys K d)) = process_metadata (RDict d)"
  by (simp add: process_metadata_def map_of_drop_keys)

lemma dropped_header_format:
  "process_header_format (RDict (drop_keys K d)) =
     (if ''header_format'' \<in> K then Inr default_header_format
      else process_header_format (RDict d))"
  by (simp add: absent_header_format map_of_drop_keys)
    (simp add: process_header_format_def map_of_drop_keys)

lemma dropped_register_usage:
  "process_register_usage (RDict (drop_keys K d)) =
     (if ''register_usage'' \<in> K then Inr default_register_usage
      else process_register_usage (RDict d))"
  by (simp add: absent_register_usage map_of_drop_keys)
    (simp add: process_register_usage_def map_of_drop_keys)

lemma dropped_structures:
  "process_data_structures (RDict (drop_keys K d)) =
     (if ''structures'' \<in> K then Inr [] else process_data_structures (RDict d))"
  by (simp add: absent_structures map_of_drop_keys)
    (simp add: process_data_structures_def map_of_drop_keys)

lemma dropped_algorithms:
  "process_algorithms (RDict (drop_keys K d)) =
     (if ''algorithms'' \<in> K then Inr [] else process_algorithms (RDict d))"
  by (simp add: absent_algorithms map_of_drop_keys)
    (simp add: process_algorithms_def map_of_drop_keys)

lemma dropped_error_handling:
  "process_error_handling (RDict (drop_keys K d)) =
     (if ''error_handling'' \<in> K then Inr default_error_handling
      else process_error_handling (RDict d))"
  by (simp add: absent_error_handling map_of_drop_keys)
    (simp add: process_error_handling_def map_of_drop_keys)

lemma dropped_section_requirements:
  "process_section_requirements (RDict (drop_keys K d)) =
     (if ''section_requirements'' \<in> K then Inr default_section_requirements
      else process_section_requirements (RDict d))"
  by (simp add: absent_section_requirements map_of_drop_keys)
    (simp add: process_section_requirements_def map_of_drop_keys)

lemma dropped_performance:
  "process_performance (RDict (drop_keys K d)) =
     (if ''performance'' \<in> K then Inr default_performance
      else process_performance (RDict d))"
  by (simp add: absent_performance map_of_drop_keys)
    (simp add: process_performance_def map_of_drop_keys)

lemma dropped_testing:
  "process_testing (RDict (drop_keys K d)) =
     (if ''testing'' \<in> K then Inr default_testing else process_testing (RDict d))"
  by (simp add: absent_testing map_of_drop_keys)
    (simp add: process_testing_def map_of_drop_keys)

lemma dropped_code_style:
  "process_code_style (RDict (drop_keys K d)) =
     (if ''code_style'' \<in> K then Inr default_code_style else process_code_style (RDict d))"
  by (simp add: absent_code_style map_of_drop_keys)
    (simp add: process_code_style_def map_of_drop_keys)

lemmas dropped_sections =
  dropped_header_format dropped_register_usage dropped_structures dropped_algorithms
  dropped_error_handling dropped_section_requirements dropped_performance dropped_testing
  dropped_code_style

lemma dropping_sections_keeps_success:
  assumes "process_spec (RDict d) = Inr report" and "''metadata'' \<notin> K"
  shows "\<exists>report'. process_spec (RDict (drop_keys K d)) = Inr report'"
proof -
  from assms(1) obtain spec ls where b: "build_specification (RDict d) = Inr spec"
    and f: "format_lines spec = Inr ls"
    using process_spec_ok [of "RDict d"] by blast
  define spec' where "spec' =
     \<lparr>sp_metadata = sp_metadata spec,
      sp_header_format =
        (if ''header_format'' \<in> K then default_header_format else sp_header_format spec),
      sp_register_usage =
        (if ''register_usage'' \<in> K then default_register_usage else sp_register_usage spec),
      sp_structures = (if ''structures'' \<in> K then [] else sp_structures spec),
      sp_algorithms = (if ''algorithms'' \<in> K then [] else sp_algorithms spec),
      sp_error_handling =
        (if ''error_handling'' \<in> K then default_error_handling else sp_error_handling spec),
      sp_section_requirements =
        (if ''section_requirements'' \<in> K then default_section_requirements
         else sp_section_requirements spec),
      sp_performance =
        (if ''performance'' \<in> K then default_performance else sp_performance spec),
      sp_testing = (if ''testing'' \<in> K then default_testing else sp_testing spec),
      sp_code_style =
        (if ''code_style'' \<in> K then default_code_style else sp_code_style spec)\<rparr>"
  from b assms(2) have "build_specification (RDict (drop_keys K d)) = Inr spec'"
    by (simp add: build_specification_eq_Inr spec'_def dropped_metadata dropped_sections)
  moreover have "\<exists>ls'. format_lines spec' = Inr ls'"
    unfolding format_lines_ok
    using f [THEN exI [where P = "\<lambda>ls. format_lines spec = Inr ls"], unfolded format_lines_ok]
    by (intro conjI) (simp_all add: spec'_def fmt_defaults)
  ultimately show ?thesis
    using process_spec_ok [of "RDict (drop_keys K d)"] by blast
qed

text \<open>
  Claim C1, as the specification states it, fails in its second half: complete metadata
  does not make the forge operation succeed regardless of the other fields. The document
  below supplies the three metadata fields with non-empty values, and a structure whose
  field lacks \<^verbatim>\<open>type\<close>; \<^verbatim>\<open>process_spec\<close> fails on it. (For the first half: on
  the empty document the error \<^verbatim>\<open>process_spec\<close> raises is the SpecForgeError built
  from the KeyError of \<^verbatim>\<open>name\<close>, which the renderer raises; the normalizer does not
  check metadata.)
\<close>

theorem complete_metadata_does_not_suffice:
  "first_missing [(''name'', RStr ''codec''), (''version'', RStr ''2''),
                  (''description'', RStr ''base64 codec'')] metadata_keys = None
   \<and> process_spec doc_field_no_type
     = Inl (SpecForgeError_failed (ValidationError (KeyError ''type'')))
   \<and> process_spec (RDict []) = Inl (SpecForgeError_failed (KeyError ''name''))"
  by code_simp

text \<open>
  Claim C1, amended. For every raw mapping document \<open>d\<close>:
  \<^item> if its metadata is absent or is a mapping that lacks \<^verbatim>\<open>name\<close>,
    \<^verbatim>\<open>version\<close> or \<^verbatim>\<open>description\<close>, the forge operation fails, and whenever
    normalization itself succeeds the error carries the KeyError of the first of the three
    that is missing; it also fails if the metadata is no mapping at all;
  \<^item> if its metadata supplies all three (with any values) and none of the nine other
    sections is present, the forge operation succeeds, and returns the metadata block
    followed by the labels of the nine empty sections;
  \<^item> deleting keys other than \<^verbatim>\<open>metadata\<close> from a document on which the forge
    operation succeeds gives a document on which it succeeds: no section is needed;
  \<^item> if its metadata supplies all three and the document is well shaped, the forge
    operation succeeds, whichever sections and optional fields are absent: a well-shaped
    document is one in which every value that is present has the shape its reader expects
    (a mapping where a mapping is read, an iterable value where a list is read) and every
    item that is present supplies its required keys; no other key need be present;
  \<^item> if an item that is a mapping lacks a key its normalizer reads by index (a register,
    a field of a structure, an error type, a bss variable, a benchmark or a unit test),
    the forge operation fails, whatever the metadata.
\<close>

theorem metadata_enforcement:
  "(field_or d ''metadata'' (RDict []) = RDict m \<longrightarrow>
    first_missing m metadata_keys = Some k \<longrightarrow>
      (\<exists>e. process_spec (RDict d) = Inl (SpecForgeError_failed e))
      \<and> ((\<exists>spec. create_specification (RDict d) = Inr spec) \<longrightarrow>
           process_spec (RDict d) = Inl (SpecForgeError_failed (KeyError k))))
   \<and> (\<not> is_dict (field_or d ''metadata'' (RDict [])) \<longrightarrow>
        (\<exists>e. process_spec (RDict d) = Inl (SpecForgeError_failed e)))
   \<and> (field_or d ''metadata'' (RDict []) = RDict m \<longrightarrow>
      first_missing m metadata_keys = None \<longrightarrow>
      list_all (\<lambda>k. map_of d k = None) section_keys \<longrightarrow>
        process_spec (RDict d) =
          Inr (join [CHR 0x0A]
                ([''=== SPECIFICATION ==='',
                  ''Name: '' @ py_str (field_or m ''name'' RNull),
                  ''Version: '' @ py_str (field_or m ''version'' RNull),
                  ''Description: '' @ py_str (field_or m ''description'' RNull),
                  []] @ empty_sections_lines)))
   \<and> (process_spec (RDict d) = Inr report \<longrightarrow> ''metadata'' \<notin> K \<longrightarrow>
        (\<exists>report'. process_spec (RDict (drop_keys K d)) = Inr report'))
   \<and> (field_or d ''metadata'' (RDict []) = RDict m \<longrightarrow>
      first_missing m metadata_keys = None \<longrightarrow>
      well_shaped d \<longrightarrow>
        (\<exists>report. process_spec (RDict d) = Inr report))
   \<and> (item_lacks_required (RDict d) \<longrightarrow>
        (\<exists>e. process_spec (RDict d) = Inl (SpecForgeError_failed e)))"
proof (intro conjI impI)
  assume a: "field_or d ''metadata'' (RDict []) = RDict m"
    and b: "first_missing m metadata_keys = Some k"
  show "\<exists>e. process_spec (RDict d) = Inl (SpecForgeError_failed e)"
    using a b by (rule incomplete_metadata_fails(1))
  assume "\<exists>spec. create_specification (RDict d) = Inr spec"
  then obtain spec where "create_specification (RDict d) = Inr spec" ..
  with a b show "process_spec (RDict d) = Inl (SpecForgeError_failed (KeyError k))"
    by (rule incomplete_metadata_fails(2))
next
  assume n: "\<not> is_dict (field_or d ''metadata'' (RDict []))"
  show "\<exists>e. process_spec (RDict d) = Inl (SpecForgeError_failed e)"
  proof (cases "create_specification (RDict d)")
    case (Inl e)
    then show ?thesis by (simp add: process_spec_def)
  next
    case (Inr spec)
    then have "sp_metadata spec = field_or d ''metadata'' (RDict [])"
      by (simp add: create_specification_eq_Inr metadata_of_build)
    with n have "format_text spec = Inl TypeError"
      by (simp add: format_text_def format_lines_metadata_fails fmt_metadata_not_dict)
    with Inr show ?thesis by (simp add: process_spec_def)
  qed
next
  assume "field_or d ''metadata'' (RDict []) = RDict m"
    and "first_missing m metadata_keys = None"
    and "list_all (\<lambda>k. map_of d k = None) section_keys"
  then show "process_spec (RDict d) =
          Inr (join [CHR 0x0A]
                ([''=== SPECIFICATION ==='',
                  ''Name: '' @ py_str (field_or m ''name'' RNull),
                  ''Version: '' @ py_str (field_or m ''version'' RNull),
                  ''Description: '' @ py_str (field_or m ''description'' RNull),
                  []] @ empty_sections_lines))"
    by (rule metadata_only_succeeds)
next
  assume "process_spec (RDict d) = Inr report" and "''metadata'' \<notin> K"
  then show "\<exists>report'. process_spec (RDict (drop_keys K d)) = Inr report'"
    by (rule dropping_sections_keeps_success)
next
  assume "field_or d ''metadata'' (RDict []) = RDict m"
    and "first_missing m metadata_keys = None" and "well_shaped d"
  then show "\<exists>report. process_spec (RDict d) = Inr report"
    by (rule well_shaped_succeeds)
next
  assume "item_lacks_required (RDict d)"
  then show "\<exists>e. process_spec (RDict d) = Inl (SpecForgeError_failed e)"
    by (rule lacking_item_process)
qed

theorem metadata_enforcement_witness:
  "process_spec (RDict [(''metadata'', RDict [(''name'', RStr ''codec'')])])
     = Inl (SpecForgeError_failed (KeyError ''version''))
   \<and> (\<exists>e. process_spec (RDict [(''metadata'', RStr ''codec'')])
            = Inl (SpecForgeError_failed e))
   \<and> process_spec (RDict [(''metadata'', md_codec)])
     = Inr (join [CHR 0x0A]
             ([''=== SPECIFICATION ==='', ''Name: codec'', ''Version: 2'',
               ''Description: base64 codec'', []] @ empty_sections_lines))
   \<and> (\<exists>report'. process_spec (RDict (drop_keys {''structures''}
          [(''metadata'', RDict [(''name'', RStr ''memcpy_impl''), (''version'', RStr ''1.0''),
                            (''description'', RStr ''fast copy'')]),
           (''structures'', RDict [(''Header'', RDict [(''fields'', RList
             [RDict [(''name'', RStr ''len''), (''type'', RStr ''u32''),
                  (''description'', RStr ''length'')]])])])])) = Inr report')
   \<and> well_shaped sparse_sections
   \<and> (\<exists>report. process_spec (RDict sparse_sections) = Inr report)
   \<and> item_lacks_required doc_field_no_type
   \<and> (\<exists>e. process_spec doc_field_no_type = Inl (SpecForgeError_failed e))"
proof -
  have c: "create_specification (RDict [(''metadata'', RDict [(''name'', RStr ''codec'')])])
     = Inr (default_specification (RDict [(''name'', RStr ''codec'')]))"
    by code_simp
  have 1: "process_spec (RDict [(''metadata'', RDict [(''name'', RStr ''codec'')])])
     = Inl (SpecForgeError_failed (KeyError ''version''))"
    using metadata_enforcement
      [where d = "[(''metadata'', RDict [(''name'', RStr ''codec'')])]"
         and m = "[(''name'', RStr ''codec'')]" and k = "''version''"] c
    by (simp add: field_or_def first_missing_def metadata_keys_def)
  have 2: "\<exists>e. process_spec (RDict [(''metadata'', RStr ''codec'')])
            = Inl (SpecForgeError_failed e)"
    using metadata_enforcement [where d = "[(''metadata'', RStr ''codec'')]"]
    by (simp add: field_or_def)
  have 3: "process_spec (RDict [(''metadata'', md_codec)])
     = Inr (join [CHR 0x0A]
             ([''=== SPECIFICATION ==='', ''Name: codec'', ''Version: 2'',
               ''Description: base64 codec'', []] @ empty_sections_lines))"
    using metadata_enforcement
      [where d = "[(''metadata'', md_codec)]"
         and m = "[(''name'', RStr ''codec''), (''version'', RStr ''2''),
                   (''description'', RStr ''base64 codec'')]"]
    by (simp add: field_or_def first_missing_def metadata_keys_def section_keys_def
        md_codec_def)
  have e: "process_spec doc_memcpy = Inr (join [CHR 0x0A]
             ([''=== SPECIFICATION ==='', ''Name: memcpy_impl'', ''Version: 1.0'',
               ''Description: fast copy'', [],
               ''=== HEADER FORMAT ==='', ''Border Line: '', ''Assembly Lines:'',
               ''Directives:'', [],
               ''=== REGISTER USAGE ==='',
               ''=== DATA STRUCTURES ==='', ''Structure: Header'', ''Documentation: '',
               ''Fields:'', ''  len (u32): length'', [],
               ''=== ALGORITHMS ==='',
               ''=== ERROR HANDLING ==='', ''Strategies:'', ''Error Types:'',
               ''Syscall Requirements:'', [],
               ''=== SECTION REQUIREMENTS ==='', ''Data Section:'', ''BSS Section:'',
               ''Text Section:'', [],
               ''=== PERFORMANCE ==='', ''Time Complexity: '', ''Space Complexity: '',
               ''Constraints:'', ''Register Usage:'', ''Memory Access:'', ''Benchmarks:'', [],
               ''=== TESTING ==='', ''Unit Tests:'', ''Integration Tests:'',
               ''Conformance Tests:'', [],
               ''=== CODE STYLE ==='', ''Indentation:'', ''Comments:'', ''Naming:'',
               ''Organization:'']))"
    by code_simp
  have 4: "\<exists>report'. process_spec (RDict (drop_keys {''structures''}
          [(''metadata'', RDict [(''name'', RStr ''memcpy_impl''), (''version'', RStr ''1.0''),
                            (''description'', RStr ''fast copy'')]),
           (''structures'', RDict [(''Header'', RDict [(''fields'', RList
             [RDict [(''name'', RStr ''len''), (''type'', RStr ''u32''),
                  (''description'', RStr ''length'')]])])])])) = Inr report'"
    using metadata_enforcement
      [where d = "[(''metadata'', RDict [(''name'', RStr ''memcpy_impl''), (''version'', RStr ''1.0''),
                            (''description'', RStr ''fast copy'')]),
           (''structures'', RDict [(''Header'', RDict [(''fields'', RList
             [RDict [(''name'', RStr ''len''), (''type'', RStr ''u32''),
                  (''description'', RStr ''length'')]])])])]"
         and K = "{''structures''}"] e
    by (simp add: doc_memcpy_def)
  have w: "well_shaped sparse_sections"
    by code_simp
  have 5: "\<exists>report. process_spec (RDict sparse_sections) = Inr report"
    using metadata_enforcement
      [where d = sparse_sections
         and m = "[(''name'', RStr ''codec''), (''version'', RStr ''2''),
                   (''description'', RStr ''base64 codec'')]"] w
    by (simp add: sparse_sections_def field_or_def first_missing_def metadata_keys_def
        md_codec_def)
  have l: "item_lacks_required doc_field_no_type"
    by code_simp
  have 6: "\<exists>e. process_spec doc_field_no_type = Inl (SpecForgeError_failed e)"
    using metadata_enforcement
      [where d = "[(''metadata'', md_codec),
          (''structures'', RDict [(''Header'', RDict [(''fields'', RList
             [RDict [(''name'', RStr ''len'')]])])])]"] l
    by (simp add: doc_field_no_type_def)
  from 1 2 3 4 w 5 l 6 show ?thesis by blast
qed

section \<open>C2: defaults of absent sections and fields, and the failures of the normalizer\<close>

text \<open>What the normalizer can raise.\<close>

lemma raises_Inr [simp]: "raises (Inr x) E"
  by (simp add: raises_def)

lemma raises_Inl [simp]: "raises (Inl e) E \<longleftrightarrow> E e"
  by (simp add: raises_def)

lemma raises_bind:
  "raises m E \<Longrightarrow> (\<And>x. raises (f x) E) \<Longrightarrow> raises (bindE m f) E"
  by (auto simp: raises_def bindE_eq_Inl)

lemma raises_py_get: "E AttributeError \<Longrightarrow> raises (py_get x k d) E"
  by (cases x) (simp_all add: py_get_def)

lemma raises_py_index: "E TypeError \<Longrightarrow> E (KeyError k) \<Longrightarrow> raises (py_index x k) E"
  by (cases x) (simp_all add: py_index_def split: option.splits)

lemma raises_py_iter: "E TypeError \<Longrightarrow> raises (py_iter x) E"
  by (cases x) (simp_all add: py_iter_def)

lemma raises_py_items: "E AttributeError \<Longrightarrow> raises (py_items x) E"
  by (cases x) (simp_all add: py_items_def)

lemma raises_mapE: "(\<And>x. raises (g x) E) \<Longrightarrow> raises (mapE g xs) E"
  by (induction xs) (auto intro!: raises_bind)

lemma raises_dict_loop: "(\<And>k x. raises (g k x) E) \<Longrightarrow> raises (dict_loop g items d) E"
  by (induction g items d rule: dict_loop.induct) (auto intro!: raises_bind)

lemmas raises_intros =
  raises_bind raises_py_get raises_py_index raises_py_iter raises_py_items raises_mapE
  raises_dict_loop

lemma raises_register_info: "raises (register_info reg) normalizer_exn"
  unfolding register_info_def
  by (intro raises_intros) (simp_all add: required_keys_def)

lemma raises_field_info: "raises (field_info fld) normalizer_exn"
  unfolding field_info_def
  by (intro raises_intros) (simp_all add: required_keys_def)

lemma raises_bss_variable: "raises (bss_variable var) normalizer_exn"
  unfolding bss_variable_def
  by (intro raises_intros) (simp_all add: required_keys_def)

lemma raises_benchmark: "raises (benchmark bench) normalizer_exn"
  unfolding benchmark_def
  by (intro raises_intros) (simp_all add: required_keys_def)

lemma raises_unit_test: "raises (unit_test test) normalizer_exn"
  unfolding unit_test_def
  by (auto intro!: raises_intros simp: required_keys_def)

lemma raises_error_type_entry: "raises (error_type_entry err) normalizer_exn"
  unfolding error_type_entry_def
  by (auto intro!: raises_intros simp: required_keys_def)

lemma raises_data_structure: "raises (data_structure name struct) normalizer_exn"
  unfolding data_structure_def
  by (intro raises_intros raises_field_info) simp_all

lemma raises_algorithm: "raises (algorithm name algo) normalizer_exn"
  unfolding algorithm_def
  by (intro raises_intros) simp_all

lemma raises_build_specification: "raises (build_specification data) normalizer_exn"
  unfolding build_specification_def process_metadata_def process_header_format_def
    process_register_usage_def process_data_structures_def process_algorithms_def
    process_error_handling_def process_section_requirements_def process_performance_def
    process_testing_def process_code_style_def
  by (intro raises_intros raises_register_info raises_data_structure raises_algorithm
      raises_error_type_entry raises_bss_variable raises_benchmark raises_unit_test)
    simp_all

lemma create_specification_failures:
  assumes "create_specification data = Inl e"
  shows "(\<exists>k. k \<in> set required_keys \<and> e = ValidationError (KeyError k))
       \<or> e = SpecForgeError_creating AttributeError
       \<or> e = SpecForgeError_creating TypeError"
proof (cases "build_specification data")
  case (Inl e0)
  with raises_build_specification [of data] have "normalizer_exn e0"
    by (simp add: raises_def)
  with Inl assms show ?thesis
    by (cases e0) (auto simp: create_specification_def)
next
  case (Inr spec)
  with assms show ?thesis by (simp add: create_specification_def)
qed

text \<open>
  Claim C2, as the specification states it, fails: the normalizer reads the keys
  \<^verbatim>\<open>name\<close>, \<^verbatim>\<open>purpose\<close>, \<^verbatim>\<open>type\<close>, \<^verbatim>\<open>size\<close>, \<^verbatim>\<open>align\<close> and
  \<^verbatim>\<open>input_size\<close> of an item by index, and \<^verbatim>\<open>_create_specification\<close> turns the
  KeyError of an absent one into a ValidationError. The three items the claim names (a
  register without \<^verbatim>\<open>purpose\<close>, a bss variable without \<^verbatim>\<open>align\<close>, a benchmark
  without \<^verbatim>\<open>input_size\<close>) make their section fail, and metadata is complete here.
\<close>

theorem missing_item_field_fails:
  "process_register_usage doc_missing_required = Inl (KeyError ''purpose'')
   \<and> process_section_requirements doc_missing_required = Inl (KeyError ''align'')
   \<and> process_performance doc_missing_required = Inl (KeyError ''input_size'')
   \<and> create_specification doc_missing_required = Inl (ValidationError (KeyError ''purpose''))"
  by code_simp

text \<open>
  Claim C2, amended. For every raw mapping document \<open>d\<close>:
  \<^item> metadata is never the cause of a failure: \<^verbatim>\<open>process_metadata\<close> returns the
    metadata of the document, or the empty mapping;
  \<^item> a section whose key is absent normalizes to its default-valued instance (every
    field the empty string, list or mapping);
  \<^item> in a section, structure, algorithm or item that is a mapping, every optional field
    (one read with \<^verbatim>\<open>.get\<close>) that is absent takes the default of its read: the empty
    string, list or mapping, None for \<^verbatim>\<open>byte_regs\<close> and \<^verbatim>\<open>expected_time\<close>,
    \<open>TBD\<close> for the input and expected output of a unit test, \<open>Handle <name>\<close> and
    \<open>[Detect, Log, Handle]\<close> for an error type;
  \<^item> an item mapping that lacks a required key (a register's \<^verbatim>\<open>name\<close> or
    \<^verbatim>\<open>purpose\<close>, a structure field's \<^verbatim>\<open>name\<close> or \<^verbatim>\<open>type\<close>, a bss variable's
    \<^verbatim>\<open>name\<close>, \<^verbatim>\<open>size\<close>, \<^verbatim>\<open>align\<close> or \<^verbatim>\<open>purpose\<close>, a benchmark's
    \<^verbatim>\<open>name\<close> or \<^verbatim>\<open>input_size\<close>, the \<^verbatim>\<open>name\<close> of an error type or unit test)
    raises the KeyError of the first such key;
  \<^item> the failures of normalization are a ValidationError naming a required key of an
    item, and a SpecForgeError for a value of the wrong shape (an AttributeError or a
    TypeError);
  \<^item> a document that holds an item lacking a required key does not normalize;
  \<^item> a list of items raises the exception of its first item that raises, and
    normalization that of the first section normalizer that raises: as a ValidationError
    naming the key when it is a KeyError, as a SpecForgeError otherwise; when no section
    normalizer raises, normalization returns.
\<close>

theorem normalizer_defaults_and_failures:
  "process_metadata (RDict d) = Inr (field_or d ''metadata'' (RDict []))
   \<and> (map_of d ''header_format'' = None \<longrightarrow>
        process_header_format (RDict d) = Inr default_header_format)
   \<and> (map_of d ''register_usage'' = None \<longrightarrow>
        process_register_usage (RDict d) = Inr default_register_usage)
   \<and> (map_of d ''structures'' = None \<longrightarrow> process_data_structures (RDict d) = Inr [])
   \<and> (map_of d ''algorithms'' = None \<longrightarrow> process_algorithms (RDict d) = Inr [])
   \<and> (map_of d ''error_handling'' = None \<longrightarrow>
        process_error_handling (RDict d) = Inr default_error_handling)
   \<and> (map_of d ''section_requirements'' = None \<longrightarrow>
        process_section_requirements (RDict d) = Inr default_section_requirements)
   \<and> (map_of d ''performance'' = None \<longrightarrow>
        process_performance (RDict d) = Inr default_performance)
   \<and> (map_of d ''testing'' = None \<longrightarrow> process_testing (RDict d) = Inr default_testing)
   \<and> (map_of d ''code_style'' = None \<longrightarrow>
        process_code_style (RDict d) = Inr default_code_style)
   \<and> (field_or d ''header_format'' (RDict []) = RDict h \<longrightarrow>
        process_header_format (RDict d) =
          Inr \<lparr>hf_border_line = field_or h ''border_line'' (RStr []),
               hf_file_name_line = field_or h ''file_name_line'' (RStr []),
               hf_description_line = field_or h ''description_line'' (RStr []),
               hf_blank_comment = field_or h ''blank_comment'' (RStr []),
               hf_assembly_lines = field_or h ''assembly_lines'' (RList []),
               hf_directives = field_or h ''directives'' (RList [])\<rparr>)
   \<and> (field_or d ''register_usage'' (RDict []) = RDict u \<longrightarrow>
        process_register_usage (RDict d) =
          bindE (py_iter (field_or u ''general_purpose'' (RList []))) (\<lambda>regs.
          bindE (mapE register_info regs) (\<lambda>general_purpose.
          Inr \<lparr>ru_general_purpose = general_purpose\<rparr>)))
   \<and> data_structure name (RDict s) =
        bindE (py_iter (field_or s ''fields'' (RList []))) (\<lambda>flds.
        bindE (mapE field_info flds) (\<lambda>fields.
        Inr \<lparr>ds_name = name, ds_fields = fields,
             ds_documentation = field_or s ''documentation'' (RStr []),
             ds_constraints = field_or s ''constraints'' (RList []),
             ds_examples = field_or s ''examples'' (RList []),
             ds_complexity = field_or s ''complexity'' (RDict [])\<rparr>))
   \<and> (field_or a ''implementation_requirements'' (RDict []) = RDict i \<longrightarrow>
      field_or i ''padding_rules'' (RDict []) = RDict p \<longrightarrow>
        algorithm name (RDict a) =
          Inr \<lparr>al_name = name,
               al_description = field_or a ''description'' (RStr []),
               al_implementation_requirements =
                 \<lparr>ir_memory_operations = field_or i ''memory_operations'' (RList []),
                  ir_encoding_requirements = field_or i ''encoding_requirements'' (RList []),
                  ir_leftover_handling = field_or i ''leftover_handling'' (RList []),
                  ir_padding_rules =
                    \<lparr>pr_one_byte = field_or p ''one_byte'' (RList []),
                     pr_two_bytes = field_or p ''two_bytes'' (RList [])\<rparr>\<rparr>,
               al_steps = field_or a ''steps'' (RDict []),
               al_complexity = field_or a ''complexity'' (RDict []),
               al_edge_cases = field_or a ''edge_cases'' (RList []),
               al_preconditions = field_or a ''preconditions'' (RList []),
               al_postconditions = field_or a ''postconditions'' (RList []),
               al_invariants = field_or a ''invariants'' (RList []),
               al_examples = field_or a ''examples'' (RList [])\<rparr>)
   \<and> (field_or d ''error_handling'' (RDict []) = RDict eh \<longrightarrow>
        process_error_handling (RDict d) =
          bindE (py_iter (field_or eh ''error_types'' (RList []))) (\<lambda>errs.
          bindE (mapE error_type_entry errs) (\<lambda>appended.
          Inr \<lparr>eh_strategies = strategies_spec (map_of eh ''strategies''),
               eh_error_types = concat appended,
               eh_syscall_requirements = field_or eh ''syscall_requirements'' (RList [])\<rparr>)))
   \<and> (field_or d ''section_requirements'' (RDict []) = RDict sr \<longrightarrow>
      field_or sr ''bss'' (RDict []) = RDict bss \<longrightarrow>
        process_section_requirements (RDict d) =
          bindE (py_iter (field_or bss ''variables'' (RList []))) (\<lambda>vars.
          bindE (mapE bss_variable vars) (\<lambda>bss_vars.
          Inr \<lparr>sr_data = field_or sr ''data'' (RList []), sr_bss = bss_vars,
               sr_text = field_or sr ''text'' (RDict [])\<rparr>)))
   \<and> (field_or d ''performance'' (RDict []) = RDict pf \<longrightarrow>
        process_performance (RDict d) =
          bindE (py_iter (field_or pf ''benchmarks'' (RList []))) (\<lambda>benches.
          bindE (mapE benchmark benches) (\<lambda>benchmarks.
          Inr \<lparr>pf_time_complexity = field_or pf ''time_complexity'' (RStr []),
               pf_space_complexity = field_or pf ''space_complexity'' (RStr []),
               pf_constraints = field_or pf ''constraints'' (RList []),
               pf_register_usage = field_or pf ''register_usage'' (RList []),
               pf_memory_access = field_or pf ''memory_access'' (RList []),
               pf_benchmarks = benchmarks\<rparr>)))
   \<and> (field_or d ''testing'' (RDict []) = RDict ts \<longrightarrow>
        process_testing (RDict d) =
          bindE (py_iter (field_or ts ''unit_tests'' (RList []))) (\<lambda>us.
          bindE (mapE unit_test us) (\<lambda>unit_tests.
          bindE (py_iter (field_or ts ''integration_tests'' (RList []))) (\<lambda>is.
          bindE (py_iter (field_or ts ''conformance_tests'' (RList []))) (\<lambda>cs.
          Inr \<lparr>ts_unit_tests = unit_tests,
               ts_integration_tests = map integration_test is,
               ts_conformance_tests = map conformance_test cs\<rparr>)))))
   \<and> (field_or d ''code_style'' (RDict []) = RDict c \<longrightarrow>
        process_code_style (RDict d) =
          Inr \<lparr>cs_indentation = field_or c ''indentation'' (RList []),
               cs_comments = field_or c ''comments'' (RList []),
               cs_naming = field_or c ''naming'' (RList []),
               cs_organization = field_or c ''organization'' (RList [])\<rparr>)
   \<and> register_info (RDict r) =
        (case first_missing r [''name'', ''purpose''] of
           Some k \<Rightarrow> Inl (KeyError k)
         | None \<Rightarrow>
             Inr \<lparr>ri_name = field_or r ''name'' RNull, ri_purpose = field_or r ''purpose'' RNull,
                  ri_byte_regs = field_or r ''byte_regs'' RNull,
                  ri_constraints = field_or r ''constraints'' (RList [])\<rparr>)
   \<and> field_info (RDict f) =
        (case first_missing f [''name'', ''type''] of
           Some k \<Rightarrow> Inl (KeyError k)
         | None \<Rightarrow>
             Inr \<lparr>fd_name = field_or f ''name'' RNull, fd_type = field_or f ''type'' RNull,
                  fd_description = field_or f ''description'' (RStr []),
                  fd_constraints = field_or f ''constraints'' (RList [])\<rparr>)
   \<and> bss_variable (RDict v) =
        (case first_missing v [''name'', ''size'', ''align'', ''purpose''] of
           Some k \<Rightarrow> Inl (KeyError k)
         | None \<Rightarrow>
             Inr \<lparr>bv_name = field_or v ''name'' RNull, bv_size = field_or v ''size'' RNull,
                  bv_align = field_or v ''align'' RNull,
                  bv_purpose = field_or v ''purpose'' RNull\<rparr>)
   \<and> benchmark (RDict b) =
        (case first_missing b [''name'', ''input_size''] of
           Some k \<Rightarrow> Inl (KeyError k)
         | None \<Rightarrow>
             Inr \<lparr>bm_name = field_or b ''name'' RNull,
                  bm_input_size = field_or b ''input_size'' RNull,
                  bm_expected_time = field_or b ''expected_time'' RNull,
                  bm_requirements = field_or b ''requirements'' (RList [])\<rparr>)
   \<and> unit_test (RDict t) =
        (case first_missing t [''name''] of
           Some k \<Rightarrow> Inl (KeyError k)
         | None \<Rightarrow>
             Inr \<lparr>tc_name = field_or t ''name'' RNull,
                  tc_input = field_or t ''input'' (RStr ''TBD''),
                  tc_expected_output = field_or t ''expected_output'' (RStr ''TBD''),
                  tc_validation = field_or t ''validation'' (RList [])\<rparr>)
   \<and> error_type_entry (RDict et) =
        (case first_missing et [''name''] of
           Some k \<Rightarrow> Inl (KeyError k)
         | None \<Rightarrow>
             Inr [\<lparr>et_name = field_or et ''name'' RNull,
                   et_description =
                     field_or et ''description''
                       (RStr (''Handle '' @ py_str (field_or et ''name'' RNull))),
                   et_handling = field_or et ''handling'' default_handling\<rparr>])
   \<and> (create_specification data = Inl e \<longrightarrow>
        (\<exists>k. k \<in> set required_keys \<and> e = ValidationError (KeyError k))
        \<or> e = SpecForgeError_creating AttributeError
        \<or> e = SpecForgeError_creating TypeError)
   \<and> (item_lacks_required data \<longrightarrow> (\<exists>e. create_specification data = Inl e))
   \<and> (list_all (\<lambda>y. err_of (g y) = None) ys \<longrightarrow> err_of (g x) = Some e' \<longrightarrow>
        err_of (mapE g (ys @ x # zs)) = Some e')
   \<and> (first_error (section_errors data) = Some (KeyError k) \<longrightarrow>
        create_specification data = Inl (ValidationError (KeyError k)))
   \<and> (first_error (section_errors data) = Some e' \<longrightarrow> \<not> is_key_error e' \<longrightarrow>
        create_specification data = Inl (SpecForgeError_creating e'))
   \<and> (first_error (section_errors data) = None \<longrightarrow>
        (\<exists>spec. create_specification data = Inr spec))"
  by (intro conjI impI)
    (rule metadata_total,
     erule absent_header_format, erule absent_register_usage, erule absent_structures,
     erule absent_algorithms, erule absent_error_handling,
     erule absent_section_requirements, erule absent_performance, erule absent_testing,
     erule absent_code_style,
     erule header_format_dict, erule register_usage_dict, rule data_structure_dict,
     erule (1) algorithm_dict, erule error_handling_dict,
     erule (1) section_requirements_dict, erule performance_dict, erule testing_dict,
     erule code_style_dict,
     rule register_info_dict, rule field_info_dict, rule bss_variable_dict,
     rule benchmark_dict, rule unit_test_dict, rule error_type_entry_dict,
     erule create_specification_failures,
     erule lacking_item_create, erule (1) mapE_first_failure,
     erule first_error_decides(1), erule (1) first_error_decides(2),
     erule first_error_decides(3))

theorem normalizer_defaults_and_failures_witness:
  "process_metadata (RDict [(''metadata'', md_codec)]) = Inr md_codec
   \<and> process_header_format (RDict [(''metadata'', md_codec)]) = Inr default_header_format
   \<and> process_register_usage (RDict [(''metadata'', md_codec)]) = Inr default_register_usage
   \<and> process_data_structures (RDict [(''metadata'', md_codec)]) = Inr []
   \<and> process_algorithms (RDict [(''metadata'', md_codec)]) = Inr []
   \<and> process_error_handling (RDict [(''metadata'', md_codec)]) = Inr default_error_handling
   \<and> process_section_requirements (RDict [(''metadata'', md_codec)])
       = Inr default_section_requirements
   \<and> process_performance (RDict [(''metadata'', md_codec)]) = Inr default_performance
   \<and> process_testing (RDict [(''metadata'', md_codec)]) = Inr default_testing
   \<and> process_code_style (RDict [(''metadata'', md_codec)]) = Inr default_code_style
   \<and> register_info (RDict [(''name'', RStr ''rax'')]) = Inl (KeyError ''purpose'')
   \<and> benchmark (RDict [(''name'', RStr ''bulk''), (''input_size'', RStr ''1 MiB'')])
       = Inr \<lparr>bm_name = RStr ''bulk'', bm_input_size = RStr ''1 MiB'',
              bm_expected_time = RNull, bm_requirements = RList []\<rparr>
   \<and> create_specification doc_missing_required = Inl (ValidationError (KeyError ''purpose''))
   \<and> item_lacks_required doc_missing_required
   \<and> section_errors doc_missing_required
       = [None, None, Some (KeyError ''purpose''), None, None, None,
          Some (KeyError ''align''), Some (KeyError ''input_size''), None, None]
   \<and> first_error (section_errors doc_missing_required) = Some (KeyError ''purpose'')
   \<and> err_of (mapE register_info
         [RDict [(''name'', RStr ''rax''), (''purpose'', RStr ''accumulator'')],
          RDict [(''name'', RStr ''rbx'')],
          RDict [(''purpose'', RStr ''counter'')]])
       = Some (KeyError ''purpose'')"
proof -
  have e: "create_specification doc_missing_required
             = Inl (ValidationError (KeyError ''purpose''))"
    by code_simp
  have l: "item_lacks_required doc_missing_required"
    by code_simp
  have s: "section_errors doc_missing_required
       = [None, None, Some (KeyError ''purpose''), None, None, None,
          Some (KeyError ''align''), Some (KeyError ''input_size''), None, None]"
    by code_simp
  have f: "first_error (section_errors doc_missing_required) = Some (KeyError ''purpose'')"
    by (simp add: s)
  have g: "list_all (\<lambda>y. err_of (register_info y) = None)
             [RDict [(''name'', RStr ''rax''), (''purpose'', RStr ''accumulator'')]]"
    "err_of (register_info (RDict [(''name'', RStr ''rbx'')])) = Some (KeyError ''purpose'')"
    by (simp_all add: register_info_def)
  note t = normalizer_defaults_and_failures
    [where d = "[(''metadata'', md_codec)]" and h = "[]" and u = "[]" and name = "''copy''"
       and s = "[]" and a = "[]" and i = "[]" and p = "[]" and eh = "[]" and sr = "[]"
       and bss = "[]" and pf = "[]" and ts = "[]" and c = "[]"
       and r = "[(''name'', RStr ''rax'')]" and f = "[]" and v = "[]"
       and b = "[(''name'', RStr ''bulk''), (''input_size'', RStr ''1 MiB'')]"
       and t = "[]" and et = "[]"
       and data = doc_missing_required and e = "ValidationError (KeyError ''purpose'')"
       and g = register_info
       and ys = "[RDict [(''name'', RStr ''rax''), (''purpose'', RStr ''accumulator'')]]"
       and x = "RDict [(''name'', RStr ''rbx'')]"
       and zs = "[RDict [(''purpose'', RStr ''counter'')]]"
       and e' = "KeyError ''purpose''" and k = "''purpose''"]
  from t e l s f g show ?thesis
    by (simp add: field_or_def first_missing_def)
qed

section \<open>C3: which fields of the typed model can be None\<close>

text \<open>Null-freeness is carried through every Python operation and every loop of the
  normalizer.\<close>

lemma no_null_map_of: "no_null (RDict kvs) \<Longrightarrow> map_of kvs k = Some v \<Longrightarrow> no_null v"
  by (auto simp: list_all_iff dest!: map_of_SomeD)

lemma no_null_py_get:
  "py_get x k d = Inr v \<Longrightarrow> no_null x \<Longrightarrow> no_null d \<Longrightarrow> no_null v"
  by (auto simp: py_get_eq_Inr split: option.splits dest: no_null_map_of)

lemma no_null_py_get_null:
  "py_get x k RNull = Inr v \<Longrightarrow> no_null x \<Longrightarrow> v = RNull \<or> no_null v"
  by (auto simp: py_get_eq_Inr split: option.splits dest: no_null_map_of)

lemma no_null_py_index: "py_index x k = Inr v \<Longrightarrow> no_null x \<Longrightarrow> no_null v"
  by (auto simp: py_index_eq_Inr dest: no_null_map_of)

lemma no_null_py_iter: "py_iter x = Inr xs \<Longrightarrow> no_null x \<Longrightarrow> list_all no_null xs"
  by (cases x) (auto simp: py_iter_def list_all_iff)

lemma no_null_py_items:
  "py_items x = Inr kvs \<Longrightarrow> no_null x \<Longrightarrow> list_all (\<lambda>kv. no_null (snd kv)) kvs"
  by (simp add: py_items_eq_Inr)

lemma mapE_list_all:
  assumes "mapE f xs = Inr ys" and "list_all P xs"
    and "\<And>x y. f x = Inr y \<Longrightarrow> P x \<Longrightarrow> Q y"
  shows "list_all Q ys"
  using assms(1,2)
proof (induction xs arbitrary: ys)
  case Nil
  then show ?case by simp
next
  case (Cons x xs)
  then show ?case by (auto simp: bindE_eq_Inr intro: assms(3))
qed

lemma dict_loop_list_all:
  assumes "dict_loop f items d = Inr r" and "list_all (\<lambda>kv. P (snd kv)) items"
    and "list_all (\<lambda>kv. Q (snd kv)) d"
    and "\<And>k x y. f k x = Inr y \<Longrightarrow> P x \<Longrightarrow> Q y"
  shows "list_all (\<lambda>kv. Q (snd kv)) r"
  using assms(1,2,3)
proof (induction items arbitrary: d)
  case Nil
  then show ?case by simp
next
  case (Cons item items)
  obtain name x where item: "item = (name, x)" by (cases item)
  from Cons.prems item obtain y where y: "f name x = Inr y"
    and r: "dict_loop f items (dict_set d name y) = Inr r"
    by (auto simp: bindE_eq_Inr)
  from Cons.prems item have "P x" and rest: "list_all (\<lambda>kv. P (snd kv)) items"
    by simp_all
  with y have "Q y" by (blast intro: assms(4))
  with Cons.prems(3) have "list_all (\<lambda>kv. Q (snd kv)) (dict_set d name y)"
    by (rule dict_set_list_all)
  with r rest show ?case by (rule Cons.IH)
qed

lemma returnsD: "returns m Q \<Longrightarrow> m = Inr v \<Longrightarrow> Q v"
  by (simp add: returns_def)

lemma returns_Inr [simp]: "returns (Inr x) Q \<longleftrightarrow> Q x"
  by (simp add: returns_def)

lemma returns_Inl [simp]: "returns (Inl e) Q"
  by (simp add: returns_def)

lemma returns_bind:
  "returns m P \<Longrightarrow> (\<And>x. P x \<Longrightarrow> returns (f x) Q) \<Longrightarrow> returns (bindE m f) Q"
  by (auto simp: returns_def bindE_eq_Inr)

lemma nn_get:
  "no_null x \<Longrightarrow> no_null d \<Longrightarrow> (\<And>v. no_null v \<Longrightarrow> returns (f v) Q)
     \<Longrightarrow> returns (bindE (py_get x k d) f) Q"
  by (rule returns_bind [where P = no_null]) (auto simp: returns_def intro: no_null_py_get)

lemma nn_get_null:
  "no_null x \<Longrightarrow> (\<And>v. v = RNull \<or> no_null v \<Longrightarrow> returns (f v) Q)
     \<Longrightarrow> returns (bindE (py_get x k RNull) f) Q"
  by (rule returns_bind [where P = "\<lambda>v. v = RNull \<or> no_null v"])
    (auto simp: returns_def dest: no_null_py_get_null)

lemma nn_index:
  "no_null x \<Longrightarrow> (\<And>v. no_null v \<Longrightarrow> returns (f v) Q)
     \<Longrightarrow> returns (bindE (py_index x k) f) Q"
  by (rule returns_bind [where P = no_null]) (auto simp: returns_def intro: no_null_py_index)

lemma nn_iter:
  "no_null x \<Longrightarrow> (\<And>xs. list_all no_null xs \<Longrightarrow> returns (f xs) Q)
     \<Longrightarrow> returns (bindE (py_iter x) f) Q"
  by (rule returns_bind [where P = "list_all no_null"])
    (auto simp: returns_def intro: no_null_py_iter)

lemma nn_items:
  "no_null x \<Longrightarrow> (\<And>kvs. list_all (\<lambda>kv. no_null (snd kv)) kvs \<Longrightarrow> returns (f kvs) Q)
     \<Longrightarrow> returns (bindE (py_items x) f) Q"
  by (rule returns_bind [where P = "list_all (\<lambda>kv. no_null (snd kv))"])
    (auto simp: returns_def intro: no_null_py_items)

lemma nn_mapE:
  "list_all P xs \<Longrightarrow> (\<And>x. P x \<Longrightarrow> returns (g x) R)
     \<Longrightarrow> (\<And>ys. list_all R ys \<Longrightarrow> returns (f ys) Q)
     \<Longrightarrow> returns (bindE (mapE g xs) f) Q"
  by (rule returns_bind [where P = "list_all R"])
    (auto simp: returns_def elim!: mapE_list_all)

lemma nn_dict_loop:
  "list_all (\<lambda>kv. P (snd kv)) items \<Longrightarrow> (\<And>k x. P x \<Longrightarrow> returns (g k x) R)
     \<Longrightarrow> returns (dict_loop g items []) (list_all (\<lambda>kv. R (snd kv)))"
  unfolding returns_def
  by (auto elim!: dict_loop_list_all [where P = P and Q = R])

lemma present_header_format:
  "no_null data \<Longrightarrow> returns (process_header_format data) present_HeaderFormat"
  unfolding process_header_format_def
  by (intro nn_get) (simp_all add: present_HeaderFormat_def)

lemma present_register_info:
  "no_null reg \<Longrightarrow> returns (register_info reg) present_RegisterInfo"
  unfolding register_info_def
  by (intro nn_index nn_get_null nn_get) (simp_all add: present_RegisterInfo_def)

lemma present_register_usage:
  "no_null data \<Longrightarrow>
   returns (process_register_usage data) (\<lambda>ru. list_all present_RegisterInfo (ru_general_purpose ru))"
  unfolding process_register_usage_def
  by (intro nn_get nn_iter nn_mapE [where P = no_null and R = present_RegisterInfo]
      present_register_info) simp_all

lemma present_field_info: "no_null fld \<Longrightarrow> returns (field_info fld) present_Field"
  unfolding field_info_def
  by (intro nn_index nn_get) (simp_all add: present_Field_def)

lemma present_data_structure:
  "no_null struct \<Longrightarrow> returns (data_structure name struct) present_DataStructure"
  unfolding data_structure_def
  by (intro nn_get nn_iter nn_mapE [where P = no_null and R = present_Field]
      present_field_info) (simp_all add: present_DataStructure_def)

lemma present_data_structures:
  "no_null data \<Longrightarrow>
   returns (process_data_structures data) (list_all (\<lambda>kv. present_DataStructure (snd kv)))"
  unfolding process_data_structures_def
  by (intro nn_get nn_items nn_dict_loop [where P = no_null] present_data_structure)
    simp_all

lemma present_algorithm:
  "no_null algo \<Longrightarrow> returns (algorithm name algo) present_Algorithm"
  unfolding algorithm_def
  by (intro nn_get) (simp_all add: present_Algorithm_def)

lemma present_algorithms:
  "no_null data \<Longrightarrow>
   returns (process_algorithms data) (list_all (\<lambda>kv. present_Algorithm (snd kv)))"
  unfolding process_algorithms_def
  by (intro nn_get nn_items nn_dict_loop [where P = no_null] present_algorithm) simp_all

lemma present_error_type_entry:
  "no_null err \<Longrightarrow> returns (error_type_entry err) (list_all present_ErrorType)"
  unfolding error_type_entry_def
  by (auto intro!: nn_index nn_get simp: present_ErrorType_def default_handling_def)

lemma list_all_concat: "list_all (list_all P) xss \<Longrightarrow> list_all P (concat xss)"
  by (induction xss) simp_all

lemma present_error_handling:
  "no_null data \<Longrightarrow> returns (process_error_handling data) present_ErrorHandling"
  unfolding process_error_handling_def
  by (intro nn_get nn_iter nn_mapE [where P = no_null and R = "list_all present_ErrorType"]
      present_error_type_entry)
    (simp_all add: present_ErrorHandling_def list_all_concat)

lemma present_bss_variable: "no_null var \<Longrightarrow> returns (bss_variable var) present_BssVariable"
  unfolding bss_variable_def
  by (intro nn_index) (simp_all add: present_BssVariable_def)

lemma present_section_requirements:
  "no_null data \<Longrightarrow> returns (process_section_requirements data) present_SectionRequirements"
  unfolding process_section_requirements_def
  by (intro nn_get nn_iter nn_mapE [where P = no_null and R = present_BssVariable]
      present_bss_variable)
    (simp_all add: present_SectionRequirements_def)

lemma present_benchmark: "no_null bench \<Longrightarrow> returns (benchmark bench) present_Benchmark"
  unfolding benchmark_def
  by (intro nn_index nn_get_null nn_get) (simp_all add: present_Benchmark_def)

lemma present_performance:
  "no_null data \<Longrightarrow> returns (process_performance data) present_Performance"
  unfolding process_performance_def
  by (intro nn_get nn_iter nn_mapE [where P = no_null and R = present_Benchmark]
      present_benchmark)
    (simp_all add: present_Performance_def)

lemma present_unit_test: "no_null test \<Longrightarrow> returns (unit_test test) present_TestCase"
  unfolding unit_test_def
  by (auto intro!: nn_index nn_get simp: present_TestCase_def)

lemma no_null_integration_test: "no_null test \<Longrightarrow> no_null (integration_test test)"
  by (simp add: integration_test_def)

lemma no_null_conformance_test: "no_null test \<Longrightarrow> no_null (conformance_test test)"
  by (simp add: conformance_test_def)

lemma present_testing:
  "no_null data \<Longrightarrow> returns (process_testing data) present_Testing"
  unfolding process_testing_def
  by (intro nn_get nn_iter nn_mapE [where P = no_null and R = present_TestCase]
      present_unit_test)
    (simp_all add: present_Testing_def list_all_iff no_null_integration_test
      no_null_conformance_test)

lemma present_code_style:
  "no_null data \<Longrightarrow> returns (process_code_style data) present_CodeStyle"
  unfolding process_code_style_def
  by (intro nn_get) (simp_all add: present_CodeStyle_def)

lemma present_metadata: "no_null data \<Longrightarrow> returns (process_metadata data) no_null"
  unfolding process_metadata_def returns_def
  by (auto intro: no_null_py_get)

lemma present_build_specification:
  assumes "no_null data"
  shows "returns (build_specification data) present_Specification"
  unfolding build_specification_def
  apply (rule returns_bind [OF present_metadata [OF assms]])
  apply (rule returns_bind [OF present_header_format [OF assms]])
  apply (rule returns_bind [OF present_register_usage [OF assms]])
  apply (rule returns_bind [OF present_data_structures [OF assms]])
  apply (rule returns_bind [OF present_algorithms [OF assms]])
  apply (rule returns_bind [OF present_error_handling [OF assms]])
  apply (rule returns_bind [OF present_section_requirements [OF assms]])
  apply (rule returns_bind [OF present_performance [OF assms]])
  apply (rule returns_bind [OF present_testing [OF assms]])
  apply (rule returns_bind [OF present_code_style [OF assms]])
  apply (simp add: present_Specification_def)
  done

text \<open>
  Claim C3, as the specification states it, fails: a register item without
  \<^verbatim>\<open>byte_regs\<close> and a benchmark item without \<^verbatim>\<open>expected_time\<close> normalize to
  entities whose field is None (\<^verbatim>\<open>reg.get('byte_regs')\<close> and
  \<^verbatim>\<open>bench.get('expected_time')\<close> have no default, and the dataclasses declare the two
  fields Optional). The document below holds no null and has complete metadata.
\<close>

theorem absent_byte_regs_is_None:
  "no_null doc_register_benchmark
   \<and> create_specification doc_register_benchmark
     = Inr ((default_specification md_codec)
         \<lparr>sp_register_usage :=
            \<lparr>ru_general_purpose =
               [\<lparr>ri_name = RStr ''rax'', ri_purpose = RStr ''accumulator'',
                 ri_byte_regs = RNull, ri_constraints = RList []\<rparr>]\<rparr>,
          sp_performance :=
            default_performance
            \<lparr>pf_benchmarks :=
               [\<lparr>bm_name = RStr ''bulk'', bm_input_size = RStr ''1 MiB'',
                 bm_expected_time = RNull, bm_requirements = RList []\<rparr>]\<rparr>\<rparr>)"
  by code_simp

text \<open>
  Claim C3, amended. For every raw document that holds no null, after a successful
  normalization no field of any entity of the typed model is None or holds a null, except
  \<open>RegisterInfo.byte_regs\<close> and \<open>Benchmark.expected_time\<close>: each of the two is either
  None or null-free, and it is None whenever the raw item is a mapping without the key.
\<close>

theorem absent_values_present:
  assumes "no_null data" and "create_specification data = Inr spec"
  shows "present_Specification spec
       \<and> (\<forall>kvs r. register_info (RDict kvs) = Inr r \<and> map_of kvs ''byte_regs'' = None
             \<longrightarrow> ri_byte_regs r = RNull)
       \<and> (\<forall>kvs b. benchmark (RDict kvs) = Inr b \<and> map_of kvs ''expected_time'' = None
             \<longrightarrow> bm_expected_time b = RNull)"
proof -
  have "present_Specification spec"
    using present_build_specification [OF assms(1)] assms(2)
    by (simp add: returns_def create_specification_eq_Inr)
  moreover have "register_info (RDict kvs) = Inr r \<and> map_of kvs ''byte_regs'' = None
      \<longrightarrow> ri_byte_regs r = RNull" for kvs r
    by (auto simp: register_info_def bindE_eq_Inr)
  moreover have "benchmark (RDict kvs) = Inr b \<and> map_of kvs ''expected_time'' = None
      \<longrightarrow> bm_expected_time b = RNull" for kvs b
    by (auto simp: benchmark_def bindE_eq_Inr)
  ultimately show ?thesis by blast
qed

theorem absent_values_present_witness:
  "no_null doc_register_benchmark
   \<and> present_Specification ((default_specification md_codec)
         \<lparr>sp_register_usage :=
            \<lparr>ru_general_purpose =
               [\<lparr>ri_name = RStr ''rax'', ri_purpose = RStr ''accumulator'',
                 ri_byte_regs = RNull, ri_constraints = RList []\<rparr>]\<rparr>,
          sp_performance :=
            default_performance
            \<lparr>pf_benchmarks :=
               [\<lparr>bm_name = RStr ''bulk'', bm_input_size = RStr ''1 MiB'',
                 bm_expected_time = RNull, bm_requirements = RList []\<rparr>]\<rparr>\<rparr>)"
proof -
  have a: "no_null doc_register_benchmark"
    by code_simp
  have b: "create_specification doc_register_benchmark
     = Inr ((default_specification md_codec)
         \<lparr>sp_register_usage :=
            \<lparr>ru_general_purpose =
               [\<lparr>ri_name = RStr ''rax'', ri_purpose = RStr ''accumulator'',
                 ri_byte_regs = RNull, ri_constraints = RList []\<rparr>]\<rparr>,
          sp_performance :=
            default_performance
            \<lparr>pf_benchmarks :=
               [\<lparr>bm_name = RStr ''bulk'', bm_input_size = RStr ''1 MiB'',
                 bm_expected_time = RNull, bm_requirements = RList []\<rparr>]\<rparr>\<rparr>)"
    by code_simp
  from absent_values_present [OF a b] a show ?thesis by blast
qed

section \<open>C4: the fields the renderer prints, and the fields it drops\<close>

lemma not_sublist_char: "c \<in> set v \<Longrightarrow> c \<notin> set r \<Longrightarrow> \<not> sublist v r"
  using set_mono_sublist by fastforce

text \<open>
  Claim C4, as the specification states it, fails: the renderer has no line for
  \<open>HeaderFormat.file_name_line\<close>, \<open>description_line\<close> and \<open>blank_comment\<close>, for
  the examples and the complexity of a structure or an algorithm, nor for the constraints
  of a structure's field. The document below populates such fields; its typed model holds
  them, and their text occurs nowhere in its report.
\<close>

theorem unrendered_fields_dropped:
  "bindE (create_specification doc_unrendered)
     (\<lambda>s. Inr (hf_file_name_line (sp_header_format s),
               hf_description_line (sp_header_format s),
               map (\<lambda>item. (ds_examples (snd item), ds_complexity (snd item))) (sp_structures s),
               map (\<lambda>item. (al_complexity (snd item), al_examples (snd item))) (sp_algorithms s)))
     = Inr (RStr ''; File: b64.asm'', RStr ''; Encoder & decoder'',
            [(RList [RStr ''Table{size=64}''], RDict [(''lookup'', RStr ''O(1)'')])],
            [(RDict [(''time'', RStr ''O(n)'')],
              RList [RDict [(''input'', RStr ''Man''), (''output'', RStr ''TWFu'')]])])
   \<and> bindE (create_specification doc_unrendered) format_lines = Inr lines_unrendered
   \<and> process_spec doc_unrendered = Inr (join [CHR 0x0A] lines_unrendered)
   \<and> \<not> sublist ''; File: b64.asm'' (join [CHR 0x0A] lines_unrendered)
   \<and> \<not> sublist ''; Encoder & decoder'' (join [CHR 0x0A] lines_unrendered)
   \<and> \<not> sublist ''Table{size=64}'' (join [CHR 0x0A] lines_unrendered)
   \<and> \<not> sublist ''O(1)'' (join [CHR 0x0A] lines_unrendered)
   \<and> \<not> sublist ''O(n)'' (join [CHR 0x0A] lines_unrendered)
   \<and> \<not> sublist ''TWFu'' (join [CHR 0x0A] lines_unrendered)"
proof -
  have 1: "bindE (create_specification doc_unrendered)
     (\<lambda>s. Inr (hf_file_name_line (sp_header_format s),
               hf_description_line (sp_header_format s),
               map (\<lambda>item. (ds_examples (snd item), ds_complexity (snd item))) (sp_structures s),
               map (\<lambda>item. (al_complexity (snd item), al_examples (snd item))) (sp_algorithms s)))
     = Inr (RStr ''; File: b64.asm'', RStr ''; Encoder & decoder'',
            [(RList [RStr ''Table{size=64}''], RDict [(''lookup'', RStr ''O(1)'')])],
            [(RDict [(''time'', RStr ''O(n)'')],
              RList [RDict [(''input'', RStr ''Man''), (''output'', RStr ''TWFu'')]])])"
    by code_simp
  have 2: "bindE (create_specification doc_unrendered) format_lines = Inr lines_unrendered"
    by code_simp
  have 3: "process_spec doc_unrendered = Inr (join [CHR 0x0A] lines_unrendered)"
    using 2 by (rule process_spec_of_lines)
  have c: "CHR ''.'' \<notin> set (join [CHR 0x0A] lines_unrendered)"
    "CHR ''&'' \<notin> set (join [CHR 0x0A] lines_unrendered)"
    "CHR ''{'' \<notin> set (join [CHR 0x0A] lines_unrendered)"
    "CHR ''('' \<notin> set (join [CHR 0x0A] lines_unrendered)"
    "CHR ''W'' \<notin> set (join [CHR 0x0A] lines_unrendered)"
    by (simp_all add: lines_unrendered_def)
  have 4: "\<not> sublist ''; File: b64.asm'' (join [CHR 0x0A] lines_unrendered)"
    by (rule not_sublist_char [OF _ c(1)]) simp
  have 5: "\<not> sublist ''; Encoder & decoder'' (join [CHR 0x0A] lines_unrendered)"
    by (rule not_sublist_char [OF _ c(2)]) simp
  have 6: "\<not> sublist ''Table{size=64}'' (join [CHR 0x0A] lines_unrendered)"
    by (rule not_sublist_char [OF _ c(3)]) simp
  have 7: "\<not> sublist ''O(1)'' (join [CHR 0x0A] lines_unrendered)"
    by (rule not_sublist_char [OF _ c(4)]) simp
  have 8: "\<not> sublist ''O(n)'' (join [CHR 0x0A] lines_unrendered)"
    by (rule not_sublist_char [OF _ c(4)]) simp
  have 9: "\<not> sublist ''TWFu'' (join [CHR 0x0A] lines_unrendered)"
    by (rule not_sublist_char [OF _ c(5)]) simp
  from 1 2 3 4 5 6 7 8 9 show ?thesis by blast
qed

text \<open>
  Claim C4, amended. For every typed model on which the renderer returns, the lines of
  the report hold, in the renderer's order, a line for every field it prints: the name,
  version and description of the metadata; the border line, assembly lines and directives
  of the header format; every register (name, purpose, byte registers when populated,
  constraints); every structure (name, documentation, the name, type and description of
  each field, constraints); every algorithm (name, description, the five lists of its
  implementation requirements, steps and their actions, edge cases, preconditions,
  postconditions, invariants); the strategies, error types and syscall requirements; the
  data, bss variables and text of the section requirements; the performance fields and
  benchmarks (the expected time when populated); the unit tests, every key of an
  integration test, the standard and the test vectors of a conformance test; the four
  lists of the code style. Each of these lines is part of the report text. The report
  does not depend on the fields the renderer never prints: it is the same for the model
  with those fields erased.
\<close>

theorem rendered_fields:
  assumes "format_lines spec = Inr lines"
  shows "subseq (field_lines spec) lines
       \<and> list_all (\<lambda>l. sublist l (join [CHR 0x0A] lines)) (field_lines spec)
       \<and> format_text spec = Inr (join [CHR 0x0A] lines)
       \<and> format_text (erase_unrendered spec) = Inr (join [CHR 0x0A] lines)"
proof -
  have s: "subseq (field_lines spec) lines"
    using assms by (rule subseq_field_lines)
  then have "set (field_lines spec) \<subseteq> set lines"
    by (auto elim: list_emb_set)
  then have "list_all (\<lambda>l. sublist l (join [CHR 0x0A] lines)) (field_lines spec)"
    by (auto simp: list_all_iff intro: sublist_join)
  with s assms show ?thesis
    by (simp add: format_text_def format_lines_erased)
qed

theorem rendered_fields_witness:
  "bindE (create_specification doc_rendered) format_lines = Inr lines_rendered
   \<and> bindE (create_specification doc_rendered) (\<lambda>spec. Inr (field_lines spec))
     = Inr fields_rendered
   \<and> subseq fields_rendered lines_rendered
   \<and> list_all (\<lambda>l. sublist l (join [CHR 0x0A] lines_rendered)) fields_rendered
   \<and> process_spec doc_rendered = Inr (join [CHR 0x0A] lines_rendered)"
proof -
  have a: "bindE (create_specification doc_rendered) format_lines = Inr lines_rendered"
    by code_simp
  have b: "bindE (create_specification doc_rendered) (\<lambda>spec. Inr (field_lines spec))
             = Inr fields_rendered"
    by code_simp
  from a obtain spec where c: "create_specification doc_rendered = Inr spec"
    and f: "format_lines spec = Inr lines_rendered"
    by (auto simp: bindE_eq_Inr)
  from b c have d: "field_lines spec = fields_rendered"
    by simp
  from a have p: "process_spec doc_rendered = Inr (join [CHR 0x0A] lines_rendered)"
    by (rule process_spec_of_lines)
  from rendered_fields [OF f] a b d p show ?thesis
    by simp
qed

section \<open>C5: expansion of a bare error type, and its canonical mapping\<close>

text \<open>
  Claim C5. An \<^verbatim>\<open>error_types\<close> entry given as the bare string \<open>s\<close> normalizes to the
  ErrorType with name \<open>s\<close>, description \<open>Handle s\<close> and handling
  \<open>[Detect, Log, Handle]\<close>; and a mapping entry that already holds these three values
  under \<^verbatim>\<open>name\<close>, \<^verbatim>\<open>description\<close> and \<^verbatim>\<open>handling\<close> normalizes to the same
  section as the bare string does. The witness is the entry \<^verbatim>\<open>"overflow"\<close>.
\<close>

theorem error_type_expansion:
  assumes "map_of kvs ''name'' = Some (RStr s)"
    and "map_of kvs ''description'' = Some (RStr (''Handle '' @ s))"
    and "map_of kvs ''handling'' = Some (RList [RStr ''Detect'', RStr ''Log'', RStr ''Handle''])"
  shows "process_error_handling
           (RDict [(''error_handling'', RDict [(''error_types'', RList [RStr s])])])
         = Inr \<lparr>eh_strategies = RDict [],
                eh_error_types =
                  [\<lparr>et_name = RStr s, et_description = RStr (''Handle '' @ s),
                    et_handling = RList [RStr ''Detect'', RStr ''Log'', RStr ''Handle'']\<rparr>],
                eh_syscall_requirements = RList []\<rparr>
       \<and> process_error_handling
           (RDict [(''error_handling'', RDict [(''error_types'', RList [RDict kvs])])])
         = process_error_handling
           (RDict [(''error_handling'', RDict [(''error_types'', RList [RStr s])])])"
  using assms
  by (simp add: process_error_handling_def error_type_entry_def default_handling_def)

theorem error_type_expansion_witness:
  "process_error_handling
     (RDict [(''error_handling'', RDict [(''error_types'', RList [RStr ''overflow''])])])
   = Inr \<lparr>eh_strategies = RDict [],
          eh_error_types =
            [\<lparr>et_name = RStr ''overflow'', et_description = RStr ''Handle overflow'',
              et_handling = RList [RStr ''Detect'', RStr ''Log'', RStr ''Handle'']\<rparr>],
          eh_syscall_requirements = RList []\<rparr>
   \<and> process_error_handling
       (RDict [(''error_handling'', RDict [(''error_types'', RList
          [RDict [(''name'', RStr ''overflow''), (''description'', RStr ''Handle overflow''),
                  (''handling'', RList [RStr ''Detect'', RStr ''Log'', RStr ''Handle''])]])])])
     = process_error_handling
       (RDict [(''error_handling'', RDict [(''error_types'', RList [RStr ''overflow''])])])"
  using error_type_expansion
    [of "[(''name'', RStr ''overflow''), (''description'', RStr ''Handle overflow''),
          (''handling'', RList [RStr ''Detect'', RStr ''Log'', RStr ''Handle''])]"
        "''overflow''"]
  by simp

section \<open>C6: the shape of error_handling.strategies\<close>

text \<open>
  Claim C6. The strategies of the typed model are the raw \<^verbatim>\<open>strategies\<close> value of
  the \<^verbatim>\<open>error_handling\<close> section reconciled as the specification says: a raw list
  \<open>L\<close> gives the mapping \<open>{general: L}\<close>, a raw mapping is used unchanged, and
  any other value, or no value, gives the empty mapping. (An absent section counts as the
  empty mapping, as in the source.)
  \<^item> Whenever \<^verbatim>\<open>process_error_handling\<close> returns, the strategies of its result are
    this reconciliation.
  \<^item> The strategies value never makes it fail: for every mapping document whose
    \<^verbatim>\<open>error_handling\<close> section is a mapping (or absent) and whose error types
    normalize, \<^verbatim>\<open>process_error_handling\<close> returns, whatever the strategies value is,
    and its result holds the reconciliation, the normalized error types and the syscall
    requirements.
  \<^item> Case by case: the reconciliation of a list \<open>L\<close> is \<open>{general: L}\<close>, of a
    mapping the mapping itself, and of null, a boolean, a number, a string or no value
    the empty mapping.
\<close>

theorem strategies_reconciled:
  "(process_error_handling data = Inr eh \<longrightarrow>
    py_get data ''error_handling'' (RDict []) = Inr sect \<longrightarrow>
      eh_strategies eh = strategies_spec (raw_lookup sect ''strategies''))
   \<and> (field_or d ''error_handling'' (RDict []) = RDict h \<longrightarrow>
      py_iter (field_or h ''error_types'' (RList [])) = Inr errs \<longrightarrow>
      mapE error_type_entry errs = Inr ets \<longrightarrow>
        process_error_handling (RDict d) =
          Inr \<lparr>eh_strategies = strategies_spec (map_of h ''strategies''),
               eh_error_types = concat ets,
               eh_syscall_requirements = field_or h ''syscall_requirements'' (RList [])\<rparr>)
   \<and> strategies_spec (Some (RList l)) = RDict [(''general'', RList l)]
   \<and> strategies_spec (Some (RDict m)) = RDict m
   \<and> strategies_spec None = RDict []
   \<and> strategies_spec (Some RNull) = RDict []
   \<and> strategies_spec (Some (RBool b)) = RDict []
   \<and> strategies_spec (Some (RInt i)) = RDict []
   \<and> strategies_spec (Some (RStr s)) = RDict []"
proof (intro conjI impI)
  assume a: "process_error_handling data = Inr eh"
    and b: "py_get data ''error_handling'' (RDict []) = Inr sect"
  from a b obtain kvs where s: "sect = RDict kvs"
    by (auto simp: process_error_handling_def bindE_eq_Inr py_get_eq_Inr)
  show "eh_strategies eh = strategies_spec (raw_lookup sect ''strategies'')"
  proof (cases "map_of kvs ''strategies''")
    case None
    with a b s show ?thesis
      by (auto simp: process_error_handling_def bindE_eq_Inr strategies_spec_def
          raw_lookup_def)
  next
    case (Some v)
    with a b s show ?thesis
      by (cases v)
        (auto simp: process_error_handling_def bindE_eq_Inr strategies_spec_def
          raw_lookup_def)
  qed
next
  assume "field_or d ''error_handling'' (RDict []) = RDict h"
    and "py_iter (field_or h ''error_types'' (RList [])) = Inr errs"
    and "mapE error_type_entry errs = Inr ets"
  then show "process_error_handling (RDict d) =
          Inr \<lparr>eh_strategies = strategies_spec (map_of h ''strategies''),
               eh_error_types = concat ets,
               eh_syscall_requirements = field_or h ''syscall_requirements'' (RList [])\<rparr>"
    by (simp add: error_handling_dict)
qed (simp_all add: strategies_spec_def)

theorem strategies_reconciled_witness:
  "process_error_handling
     (RDict [(''error_handling'', RDict [(''strategies'', RStr ''retry'')])])
   = Inr \<lparr>eh_strategies = RDict [], eh_error_types = [],
          eh_syscall_requirements = RList []\<rparr>
   \<and> process_error_handling
     (RDict [(''error_handling'', RDict [(''strategies'', RInt 3)])])
   = Inr \<lparr>eh_strategies = RDict [], eh_error_types = [],
          eh_syscall_requirements = RList []\<rparr>
   \<and> process_error_handling (RDict [(''error_handling'', RDict [])])
   = Inr \<lparr>eh_strategies = RDict [], eh_error_types = [],
          eh_syscall_requirements = RList []\<rparr>
   \<and> process_error_handling
     (RDict [(''error_handling'',
              RDict [(''strategies'', RList [RStr ''check bounds'', RStr ''log''])])])
   = Inr \<lparr>eh_strategies = RDict [(''general'', RList [RStr ''check bounds'', RStr ''log''])],
          eh_error_types = [], eh_syscall_requirements = RList []\<rparr>
   \<and> process_error_handling
     (RDict [(''error_handling'',
              RDict [(''strategies'', RDict [(''io'', RList [RStr ''retry''])])])])
   = Inr \<lparr>eh_strategies = RDict [(''io'', RList [RStr ''retry''])],
          eh_error_types = [], eh_syscall_requirements = RList []\<rparr>"
proof -
  have 1: "process_error_handling
     (RDict [(''error_handling'', RDict [(''strategies'', RStr ''retry'')])])
   = Inr \<lparr>eh_strategies = RDict [], eh_error_types = [],
          eh_syscall_requirements = RList []\<rparr>"
    using strategies_reconciled
      [where d = "[(''error_handling'', RDict [(''strategies'', RStr ''retry'')])]"
         and h = "[(''strategies'', RStr ''retry'')]" and errs = "[]" and ets = "[]"
         and data = "RDict [(''error_handling'', RDict [(''strategies'', RStr ''retry'')])]"
         and sect = "RDict [(''strategies'', RStr ''retry'')]"
         and eh = "\<lparr>eh_strategies = RDict [], eh_error_types = [],
                    eh_syscall_requirements = RList []\<rparr>"]
    by (simp add: field_or_def py_iter_def)
  have 2: "process_error_handling
     (RDict [(''error_handling'', RDict [(''strategies'', RInt 3)])])
   = Inr \<lparr>eh_strategies = RDict [], eh_error_types = [],
          eh_syscall_requirements = RList []\<rparr>"
    using strategies_reconciled
      [where errs = "[]" and ets = "[]"
         and d = "[(''error_handling'', RDict [(''strategies'', RInt 3)])]"
         and h = "[(''strategies'', RInt 3)]"]
    by (simp add: field_or_def py_iter_def)
  have 3: "process_error_handling (RDict [(''error_handling'', RDict [])])
   = Inr \<lparr>eh_strategies = RDict [], eh_error_types = [],
          eh_syscall_requirements = RList []\<rparr>"
    using strategies_reconciled
      [where errs = "[]" and ets = "[]"
         and d = "[(''error_handling'', RDict [])]" and h = "[]"]
    by (simp add: field_or_def py_iter_def)
  have 4: "process_error_handling
     (RDict [(''error_handling'',
              RDict [(''strategies'', RList [RStr ''check bounds'', RStr ''log''])])])
   = Inr \<lparr>eh_strategies = RDict [(''general'', RList [RStr ''check bounds'', RStr ''log''])],
          eh_error_types = [], eh_syscall_requirements = RList []\<rparr>"
    using strategies_reconciled
      [where errs = "[]" and ets = "[]"
         and d = "[(''error_handling'',
              RDict [(''strategies'', RList [RStr ''check bounds'', RStr ''log''])])]"
         and h = "[(''strategies'', RList [RStr ''check bounds'', RStr ''log''])]"]
    by (simp add: field_or_def py_iter_def)
  have 5: "process_error_handling
     (RDict [(''error_handling'',
              RDict [(''strategies'', RDict [(''io'', RList [RStr ''retry''])])])])
   = Inr \<lparr>eh_strategies = RDict [(''io'', RList [RStr ''retry''])],
          eh_error_types = [], eh_syscall_requirements = RList []\<rparr>"
    using strategies_reconciled
      [where errs = "[]" and ets = "[]"
         and d = "[(''error_handling'',
              RDict [(''strategies'', RDict [(''io'', RList [RStr ''retry''])])])]"
         and h = "[(''strategies'', RDict [(''io'', RList [RStr ''retry''])])]"]
    by (simp add: field_or_def py_iter_def)
  from 1 2 3 4 5 show ?thesis by blast
qed

section \<open>C7: the entries of the testing section\<close>

lemma unit_test_meets_spec: "unit_test e = Inr tc \<Longrightarrow> unit_test_spec e tc"
  by (cases e)
    (auto simp: unit_test_def unit_test_spec_def bindE_eq_Inr py_index_def
      split: option.splits)

lemma integration_test_wrap: "integration_test = wrap_spec ''name''"
proof
  fix e show "integration_test e = wrap_spec ''name'' e"
    by (cases e) (simp_all add: integration_test_def wrap_spec_def)
qed

lemma conformance_test_wrap: "conformance_test = wrap_spec ''standard''"
proof
  fix e show "conformance_test e = wrap_spec ''standard'' e"
    by (cases e) (simp_all add: conformance_test_def wrap_spec_def)
qed

lemma unit_test_str:
  "unit_test (RStr s) =
     Inr \<lparr>tc_name = RStr s, tc_input = RStr ''TBD'', tc_expected_output = RStr ''TBD'',
          tc_validation = RList []\<rparr>"
  by (simp add: unit_test_def is_str_def)

lemma unit_test_named:
  "map_of kvs ''name'' = Some n \<Longrightarrow>
   unit_test (RDict kvs) =
     Inr \<lparr>tc_name = n, tc_input = field_or kvs ''input'' (RStr ''TBD''),
          tc_expected_output = field_or kvs ''expected_output'' (RStr ''TBD''),
          tc_validation = field_or kvs ''validation'' (RList [])\<rparr>"
  by (simp add: unit_test_def is_str_def field_or_def)

lemma unit_tests_total:
  "list_all (\<lambda>u. is_str u \<or> raw_lookup u ''name'' \<noteq> None) us \<Longrightarrow>
   \<exists>uts. mapE unit_test us = Inr uts"
proof (induction us)
  case Nil
  then show ?case by simp
next
  case (Cons u us)
  then obtain uts where "mapE unit_test us = Inr uts" by auto
  moreover from Cons.prems have "\<exists>tc. unit_test u = Inr tc"
    by (cases u) (auto simp: is_str_def raw_lookup_def unit_test_str unit_test_named)
  ultimately show ?case by auto
qed

text \<open>
  Claim C7. For a testing section whose three lists are \<open>us\<close>, \<open>its\<close> and
  \<open>cs\<close> (an absent list counts as empty):
  \<^item> whenever \<^verbatim>\<open>process_testing\<close> returns, the unit tests are, entry by entry and in
    order, what the specification says, an integration test given as a bare string
    \<open>s\<close> has become the record \<open>{name: s}\<close>, a conformance test
    \<open>{standard: s}\<close>, and every other entry of the two lists is passed through
    unchanged;
  \<^item> \<^verbatim>\<open>process_testing\<close> does return, with such a result, whenever every unit test
    is a bare string or a mapping that has a \<^verbatim>\<open>name\<close>: an absent
    \<^verbatim>\<open>input\<close>, \<^verbatim>\<open>expected_output\<close> or \<^verbatim>\<open>validation\<close> never makes it
    fail;
  \<^item> a unit test given as a bare string \<open>s\<close> normalizes to the test case with name
    \<open>s\<close>, input and expected output \<open>TBD\<close> and no validation;
  \<^item> a unit test given as a mapping with a \<^verbatim>\<open>name\<close> normalizes to the test case
    with that name, its \<^verbatim>\<open>input\<close> and \<^verbatim>\<open>expected_output\<close>, each \<open>TBD\<close>
    when absent, and its \<^verbatim>\<open>validation\<close>, the empty list when absent;
  \<^item> the wrapper of a bare string \<open>s\<close> under a key is the one-key record, and every
    mapping is its own wrapper.
\<close>

theorem testing_entries_normalized:
  "(process_testing data = Inr t \<longrightarrow>
    py_get data ''testing'' (RDict []) = Inr td \<longrightarrow>
    py_get td ''unit_tests'' (RList []) = Inr (RList us) \<longrightarrow>
    py_get td ''integration_tests'' (RList []) = Inr (RList its) \<longrightarrow>
    py_get td ''conformance_tests'' (RList []) = Inr (RList cs) \<longrightarrow>
      list_all2 unit_test_spec us (ts_unit_tests t)
      \<and> ts_integration_tests t = map (wrap_spec ''name'') its
      \<and> ts_conformance_tests t = map (wrap_spec ''standard'') cs)
   \<and> (field_or d ''testing'' (RDict []) = RDict m \<longrightarrow>
      field_or m ''unit_tests'' (RList []) = RList us \<longrightarrow>
      field_or m ''integration_tests'' (RList []) = RList its \<longrightarrow>
      field_or m ''conformance_tests'' (RList []) = RList cs \<longrightarrow>
      list_all (\<lambda>u. is_str u \<or> raw_lookup u ''name'' \<noteq> None) us \<longrightarrow>
        (\<exists>uts. process_testing (RDict d) =
                 Inr \<lparr>ts_unit_tests = uts,
                      ts_integration_tests = map (wrap_spec ''name'') its,
                      ts_conformance_tests = map (wrap_spec ''standard'') cs\<rparr>
               \<and> list_all2 unit_test_spec us uts))
   \<and> unit_test (RStr s) =
       Inr \<lparr>tc_name = RStr s, tc_input = RStr ''TBD'', tc_expected_output = RStr ''TBD'',
            tc_validation = RList []\<rparr>
   \<and> (map_of kvs ''name'' = Some n \<longrightarrow>
        unit_test (RDict kvs) =
          Inr \<lparr>tc_name = n, tc_input = field_or kvs ''input'' (RStr ''TBD''),
               tc_expected_output = field_or kvs ''expected_output'' (RStr ''TBD''),
               tc_validation = field_or kvs ''validation'' (RList [])\<rparr>)
   \<and> wrap_spec key (RStr s) = RDict [(key, RStr s)]
   \<and> wrap_spec key (RDict kvs) = RDict kvs"
proof (intro conjI impI)
  assume a: "process_testing data = Inr t"
    "py_get data ''testing'' (RDict []) = Inr td"
    "py_get td ''unit_tests'' (RList []) = Inr (RList us)"
    "py_get td ''integration_tests'' (RList []) = Inr (RList its)"
    "py_get td ''conformance_tests'' (RList []) = Inr (RList cs)"
  then obtain uts where u: "mapE unit_test us = Inr uts"
    and t: "t = \<lparr>ts_unit_tests = uts, ts_integration_tests = map integration_test its,
                 ts_conformance_tests = map conformance_test cs\<rparr>"
    by (auto simp: process_testing_def bindE_eq_Inr)
  from u have "list_all2 (\<lambda>x y. unit_test x = Inr y) us uts"
    by (simp add: mapE_eq_Inr)
  then have l: "list_all2 unit_test_spec us uts"
    by (rule list_all2_mono) (rule unit_test_meets_spec)
  from l t show "list_all2 unit_test_spec us (ts_unit_tests t)" by simp
  from t show "ts_integration_tests t = map (wrap_spec ''name'') its"
    by (simp add: integration_test_wrap)
  from t show "ts_conformance_tests t = map (wrap_spec ''standard'') cs"
    by (simp add: conformance_test_wrap)
next
  assume m: "field_or d ''testing'' (RDict []) = RDict m"
    and f: "field_or m ''unit_tests'' (RList []) = RList us"
    "field_or m ''integration_tests'' (RList []) = RList its"
    "field_or m ''conformance_tests'' (RList []) = RList cs"
    and n: "list_all (\<lambda>u. is_str u \<or> raw_lookup u ''name'' \<noteq> None) us"
  from n obtain uts where u: "mapE unit_test us = Inr uts"
    using unit_tests_total by blast
  then have "list_all2 (\<lambda>x y. unit_test x = Inr y) us uts"
    by (simp add: mapE_eq_Inr)
  then have l: "list_all2 unit_test_spec us uts"
    by (rule list_all2_mono) (rule unit_test_meets_spec)
  from m f u have "process_testing (RDict d) =
      Inr \<lparr>ts_unit_tests = uts,
           ts_integration_tests = map (wrap_spec ''name'') its,
           ts_conformance_tests = map (wrap_spec ''standard'') cs\<rparr>"
    by (simp add: testing_dict py_iter_def integration_test_wrap conformance_test_wrap)
  with l show "\<exists>uts. process_testing (RDict d) =
                 Inr \<lparr>ts_unit_tests = uts,
                      ts_integration_tests = map (wrap_spec ''name'') its,
                      ts_conformance_tests = map (wrap_spec ''standard'') cs\<rparr>
               \<and> list_all2 unit_test_spec us uts"
    by blast
next
  show "unit_test (RStr s) =
       Inr \<lparr>tc_name = RStr s, tc_input = RStr ''TBD'', tc_expected_output = RStr ''TBD'',
            tc_validation = RList []\<rparr>"
    by (rule unit_test_str)
next
  assume "map_of kvs ''name'' = Some n"
  then show "unit_test (RDict kvs) =
          Inr \<lparr>tc_name = n, tc_input = field_or kvs ''input'' (RStr ''TBD''),
               tc_expected_output = field_or kvs ''expected_output'' (RStr ''TBD''),
               tc_validation = field_or kvs ''validation'' (RList [])\<rparr>"
    by (rule unit_test_named)
qed (simp_all add: wrap_spec_def)

theorem testing_entries_normalized_witness:
  "process_testing doc_testing =
     Inr \<lparr>ts_unit_tests =
            [\<lparr>tc_name = RStr ''smoke'', tc_input = RStr ''TBD'',
              tc_expected_output = RStr ''TBD'', tc_validation = RList []\<rparr>,
             \<lparr>tc_name = RStr ''full'', tc_input = RStr ''abc'',
              tc_expected_output = RStr ''TBD'', tc_validation = RList []\<rparr>,
             \<lparr>tc_name = RStr ''edge'', tc_input = RStr ''TBD'',
              tc_expected_output = RStr ''TBD'', tc_validation = RList []\<rparr>],
          ts_integration_tests =
            [RDict [(''name'', RStr ''boot'')],
             RDict [(''name'', RStr ''io''), (''steps'', RList [RStr ''open''])]],
          ts_conformance_tests =
            [RDict [(''standard'', RStr ''RFC 4648'')],
             RDict [(''standard'', RStr ''MIME'')]]\<rparr>
   \<and> unit_test (RDict [(''name'', RStr ''edge'')])
     = Inr \<lparr>tc_name = RStr ''edge'', tc_input = RStr ''TBD'',
            tc_expected_output = RStr ''TBD'', tc_validation = RList []\<rparr>"
proof -
  have a: "process_testing doc_testing =
     Inr \<lparr>ts_unit_tests =
            [\<lparr>tc_name = RStr ''smoke'', tc_input = RStr ''TBD'',
              tc_expected_output = RStr ''TBD'', tc_validation = RList []\<rparr>,
             \<lparr>tc_name = RStr ''full'', tc_input = RStr ''abc'',
              tc_expected_output = RStr ''TBD'', tc_validation = RList []\<rparr>,
             \<lparr>tc_name = RStr ''edge'', tc_input = RStr ''TBD'',
              tc_expected_output = RStr ''TBD'', tc_validation = RList []\<rparr>],
          ts_integration_tests =
            [RDict [(''name'', RStr ''boot'')],
             RDict [(''name'', RStr ''io''), (''steps'', RList [RStr ''open''])]],
          ts_conformance_tests =
            [RDict [(''standard'', RStr ''RFC 4648'')],
             RDict [(''standard'', RStr ''MIME'')]]\<rparr>"
    by code_simp
  note t = testing_entries_normalized
    [where data = doc_testing and td = "RDict testing_section"
       and d = "[(''testing'', RDict testing_section)]" and m = testing_section
       and us = testing_units and its = testing_integrations and cs = testing_conformances
       and kvs = "[(''name'', RStr ''edge'')]" and n = "RStr ''edge''"
       and t = "\<lparr>ts_unit_tests =
            [\<lparr>tc_name = RStr ''smoke'', tc_input = RStr ''TBD'',
              tc_expected_output = RStr ''TBD'', tc_validation = RList []\<rparr>,
             \<lparr>tc_name = RStr ''full'', tc_input = RStr ''abc'',
              tc_expected_output = RStr ''TBD'', tc_validation = RList []\<rparr>,
             \<lparr>tc_name = RStr ''edge'', tc_input = RStr ''TBD'',
              tc_expected_output = RStr ''TBD'', tc_validation = RList []\<rparr>],
          ts_integration_tests =
            [RDict [(''name'', RStr ''boot'')],
             RDict [(''name'', RStr ''io''), (''steps'', RList [RStr ''open''])]],
          ts_conformance_tests =
            [RDict [(''standard'', RStr ''RFC 4648'')],
             RDict [(''standard'', RStr ''MIME'')]]\<rparr>"]
  have h: "py_get doc_testing ''testing'' (RDict []) = Inr (RDict testing_section)"
    "py_get (RDict testing_section) ''unit_tests'' (RList []) = Inr (RList testing_units)"
    "py_get (RDict testing_section) ''integration_tests'' (RList [])
       = Inr (RList testing_integrations)"
    "py_get (RDict testing_section) ''conformance_tests'' (RList [])
       = Inr (RList testing_conformances)"
    "field_or [(''testing'', RDict testing_section)] ''testing'' (RDict [])
       = RDict testing_section"
    "field_or testing_section ''unit_tests'' (RList []) = RList testing_units"
    "field_or testing_section ''integration_tests'' (RList [])
       = RList testing_integrations"
    "field_or testing_section ''conformance_tests'' (RList [])
       = RList testing_conformances"
    "list_all (\<lambda>u. is_str u \<or> raw_lookup u ''name'' \<noteq> None) testing_units"
    by (simp_all add: doc_testing_def testing_section_def field_or_def testing_units_def
        is_str_def raw_lookup_def)
  from t a h show ?thesis
    by (simp add: field_or_def)
qed

section \<open>C8: the order of the algorithms and of their steps\<close>

subsection \<open>The normalizer keeps the order of a mapping\<close>

lemma dict_set_fresh: "k \<notin> fst ` set d \<Longrightarrow> dict_set d k v = d @ [(k, v)]"
  by (induction d k v rule: dict_set.induct) auto

lemma dict_loop_distinct:
  assumes "dict_loop f items d = Inr r" and "distinct (map fst items)"
    and "fst ` set items \<inter> fst ` set d = {}"
  shows "\<exists>r'. r = d @ r'
           \<and> list_all2 (\<lambda>item out. fst out = fst item \<and> f (fst item) (snd item) = Inr (snd out))
                 items r'"
  using assms
proof (induction items arbitrary: d)
  case Nil
  then show ?case by simp
next
  case (Cons item items)
  obtain name x where item: "item = (name, x)" by (cases item)
  from Cons.prems item obtain y where y: "f name x = Inr y"
    and r: "dict_loop f items (dict_set d name y) = Inr r"
    by (auto simp: bindE_eq_Inr)
  from Cons.prems(3) item have fresh: "name \<notin> fst ` set d" by auto
  then have s: "dict_set d name y = d @ [(name, y)]" by (rule dict_set_fresh)
  from Cons.prems(2,3) item
  have "distinct (map fst items)" and "fst ` set items \<inter> fst ` set (d @ [(name, y)]) = {}"
    by auto
  with r s obtain r' where "r = (d @ [(name, y)]) @ r'"
    and "list_all2 (\<lambda>item out. fst out = fst item \<and> f (fst item) (snd item) = Inr (snd out))
           items r'"
    using Cons.IH [of "d @ [(name, y)]"] by auto
  with y item show ?case by auto
qed

lemma process_algorithms_order:
  assumes "process_algorithms (RDict d) = Inr as"
    and "field_or d ''algorithms'' (RDict []) = RDict algos"
    and "distinct (map fst algos)"
  shows "list_all2 (\<lambda>item out. fst out = fst item
            \<and> algorithm (fst item) (snd item) = Inr (snd out)) algos as"
proof -
  from assms(1,2) have "dict_loop algorithm algos [] = Inr as"
    by (simp add: process_algorithms_def field_or_def)
  from dict_loop_distinct [OF this assms(3)] show ?thesis by simp
qed

lemma algorithm_steps:
  "algorithm name raw = Inr a \<Longrightarrow> named_lists (al_steps a) = named_lists (raw_at raw ''steps'')"
  by (cases "raw_lookup raw ''steps''")
    (auto simp: algorithm_def bindE_eq_Inr py_get_eq_Inr raw_at_def raw_lookup_def
      named_lists_def pairs_of_def)

lemma subseq_algorithm_steps:
  "fmt_algorithm item = Inr l \<Longrightarrow>
   subseq ((''Algorithm: '' @ fst item) # ''Steps:'' # named_lists (al_steps (snd item))) l"
  by (cases item)
    (clarsimp simp: fmt_algorithm_def bindE_eq_Inr Let_def
      dest!: bullets_eq_Inr subseq_opt_block,
     (rule ss_rules | (rule ss_last, erule (1) subseq_named_lists) | rule ss_skip
      | rule ss_drop)+)

subsection \<open>Only an algorithm starts a line with its name label\<close>

lemma plain_Nil [simp]: "plain_line []"
  by (simp add: plain_line_def)

lemma plain_Cons [simp]: "c \<noteq> CHR ''A'' \<Longrightarrow> plain_line (c # cs)"
  by (simp add: plain_line_def)

lemma plain_A [simp]: "c \<noteq> CHR ''l'' \<Longrightarrow> plain_line (CHR ''A'' # c # cs)"
  by (simp add: plain_line_def)

lemma plain_listed [simp]: "c \<noteq> CHR ''A'' \<Longrightarrow> list_all plain_line (listed (c # cs) x)"
  by (simp add: listed_def list_all_iff)

lemma plain_opt_block:
  "opt_block label (c # cs) x = Inr ls \<Longrightarrow> plain_line label \<Longrightarrow> c \<noteq> CHR ''A''
     \<Longrightarrow> list_all plain_line ls"
  by (auto dest!: opt_block_eq_Inr)

lemma plain_mapE:
  assumes "mapE f xs = Inr ls" and "\<And>x l. f x = Inr l \<Longrightarrow> list_all plain_line l"
  shows "list_all plain_line (concat ls)"
  using assms(1)
proof (induction xs arbitrary: ls)
  case Nil
  then show ?case by simp
next
  case (Cons x xs)
  then obtain l ls' where "f x = Inr l" "mapE f xs = Inr ls'" "ls = l # ls'"
    by (auto simp: bindE_eq_Inr)
  with Cons.IH [of ls'] assms(2) [of x l] show ?case by simp
qed

lemma plain_named_list: "fmt_named_list item = Inr l \<Longrightarrow> list_all plain_line l"
  by (auto dest!: fmt_named_list_eq_Inr)

lemma plain_named_lists: "mapE fmt_named_list kvs = Inr ls \<Longrightarrow> list_all plain_line (concat ls)"
  by (erule plain_mapE) (erule plain_named_list)

lemma plain_metadata: "fmt_metadata md = Inr l \<Longrightarrow> list_all plain_line l"
  by (auto simp: fmt_metadata_def bindE_eq_Inr)

lemma plain_header_format: "fmt_header_format hf = Inr l \<Longrightarrow> list_all plain_line l"
  by (auto simp: fmt_header_format_def bindE_eq_Inr dest!: bullets_eq_Inr)

lemma plain_register: "fmt_register reg = Inr l \<Longrightarrow> list_all plain_line l"
  by (auto simp: fmt_register_def bindE_eq_Inr dest!: plain_opt_block split: if_splits)

lemma plain_register_usage: "fmt_register_usage ru = Inr l \<Longrightarrow> list_all plain_line l"
  by (auto simp: fmt_register_usage_def bindE_eq_Inr elim!: plain_mapE plain_register)

lemma plain_field [simp]: "plain_line (fmt_field fld)"
  by (simp add: fmt_field_def)

lemma plain_structure: "fmt_structure item = Inr l \<Longrightarrow> list_all plain_line l"
  by (cases item)
    (auto simp: fmt_structure_def bindE_eq_Inr list_all_iff dest!: plain_opt_block)

lemma plain_structures: "fmt_structures ss = Inr l \<Longrightarrow> list_all plain_line l"
  by (auto simp: fmt_structures_def bindE_eq_Inr elim!: plain_mapE plain_structure)

lemma plain_strategies: "fmt_strategies x = Inr l \<Longrightarrow> list_all plain_line l"
  by (auto simp: fmt_strategies_def bindE_eq_Inr dest!: bullets_eq_Inr plain_named_lists
      split: if_splits)

lemma plain_error_type: "fmt_error_type err = Inr l \<Longrightarrow> list_all plain_line l"
  by (auto simp: fmt_error_type_def bindE_eq_Inr dest!: bullets_eq_Inr)

lemma plain_error_handling: "fmt_error_handling eh = Inr l \<Longrightarrow> list_all plain_line l"
  by (auto simp: fmt_error_handling_def bindE_eq_Inr
      dest!: bullets_eq_Inr plain_strategies elim!: plain_mapE plain_error_type)

lemma plain_bss_variable [simp]: "list_all plain_line (fmt_bss_variable var)"
  by (simp add: fmt_bss_variable_def)

lemma plain_bss_variables [simp]:
  "list_all plain_line (concat (map fmt_bss_variable vars))"
  by (induction vars) simp_all

lemma plain_section_requirements:
  "fmt_section_requirements sr = Inr l \<Longrightarrow> list_all plain_line l"
  by (auto simp: fmt_section_requirements_def bindE_eq_Inr
      dest!: bullets_eq_Inr plain_named_lists)

lemma plain_benchmark: "fmt_benchmark bench = Inr l \<Longrightarrow> list_all plain_line l"
  by (auto simp: fmt_benchmark_def bindE_eq_Inr dest!: plain_opt_block)

lemma plain_performance: "fmt_performance pf = Inr l \<Longrightarrow> list_all plain_line l"
  by (auto simp: fmt_performance_def bindE_eq_Inr
      dest!: bullets_eq_Inr elim!: plain_mapE plain_benchmark)

lemma plain_unit_test: "fmt_unit_test test = Inr l \<Longrightarrow> list_all plain_line l"
  by (auto simp: fmt_unit_test_def bindE_eq_Inr dest!: plain_opt_block)

lemma plain_integration_item [simp]: "list_all plain_line (fmt_integration_item item)"
  by (cases item) (auto simp: fmt_integration_item_def list_all_iff split: raw.splits)

lemma plain_integration_test: "fmt_integration_test test = Inr l \<Longrightarrow> list_all plain_line l"
  by (auto simp: fmt_integration_test_def bindE_eq_Inr list_all_iff
      dest: plain_integration_item [unfolded list_all_iff, rule_format])

lemma plain_test_vector: "fmt_test_vector v = Inr l \<Longrightarrow> list_all plain_line l"
  by (auto simp: fmt_test_vector_def bindE_eq_Inr)

lemma plain_conformance_test: "fmt_conformance_test test = Inr l \<Longrightarrow> list_all plain_line l"
  by (auto simp: fmt_conformance_test_def bindE_eq_Inr
      elim!: plain_mapE plain_test_vector split: if_splits)

lemma plain_testing: "fmt_testing ts = Inr l \<Longrightarrow> list_all plain_line l"
  by (auto simp: fmt_testing_def bindE_eq_Inr
      elim!: plain_mapE plain_unit_test plain_integration_test plain_conformance_test)

lemma plain_code_style: "fmt_code_style cs = Inr l \<Longrightarrow> list_all plain_line l"
  by (auto simp: fmt_code_style_def bindE_eq_Inr dest!: bullets_eq_Inr)

lemma filter_plain: "list_all plain_line l \<Longrightarrow> filter (prefix ''Algorithm: '') l = []"
  by (simp add: filter_empty_conv list_all_iff plain_line_def)

lemma filter_algorithm:
  "fmt_algorithm item = Inr l \<Longrightarrow>
   filter (prefix ''Algorithm: '') l = [''Algorithm: '' @ fst item]"
  by (cases item)
    (auto simp: fmt_algorithm_def bindE_eq_Inr Let_def filter_plain
      dest!: bullets_eq_Inr plain_opt_block plain_named_lists)

lemma filter_algorithms:
  "mapE fmt_algorithm as = Inr ls \<Longrightarrow>
   filter (prefix ''Algorithm: '') (concat ls) = map (\<lambda>item. ''Algorithm: '' @ fst item) as"
proof (induction as arbitrary: ls)
  case Nil
  then show ?case by simp
next
  case (Cons a as)
  then obtain l ls' where "fmt_algorithm a = Inr l" "mapE fmt_algorithm as = Inr ls'"
    "ls = l # ls'"
    by (auto simp: bindE_eq_Inr)
  with Cons.IH [of ls'] show ?case
    by (simp add: filter_algorithm)
qed

subsection \<open>The report\<close>

lemma order_lines_typed:
  assumes "list_all2 (\<lambda>item out. fst out = fst item
            \<and> algorithm (fst item) (snd item) = Inr (snd out)) algos as"
  shows "concat (map (\<lambda>item. (''Algorithm: '' @ fst item) # ''Steps:''
                          # named_lists (al_steps (snd item))) as)
         = algorithm_order_lines algos"
  using assms unfolding algorithm_order_lines_def
  by (induction algos as rule: list_all2_induct) (auto dest: algorithm_steps)

lemma names_typed:
  assumes "list_all2 (\<lambda>item out. fst out = fst item
            \<and> algorithm (fst item) (snd item) = Inr (snd out)) algos as"
  shows "map fst as = map fst algos"
  using assms by (induction algos as rule: list_all2_induct) auto

lemma name_lines: "map (\<lambda>item. p @ fst item) xs = map (\<lambda>n. p @ n) (map fst xs)"
  by (simp add: comp_def)

lemma name_lines_cong:
  "map fst xs = map fst ys \<Longrightarrow>
   map (\<lambda>item. p @ fst item) xs = map (\<lambda>item. p @ fst item) ys"
  by (simp only: name_lines)

text \<open>
  Claim C8. Let the \<^verbatim>\<open>algorithms\<close> section of a raw mapping document be the mapping
  \<open>algos\<close> (its keys distinct, as the keys of every mapping are), and let normalization
  and rendering succeed. Then the typed model lists the algorithms in the order of
  \<open>algos\<close>; the lines of the report that start with \<open>Algorithm: \<close> are exactly the
  name lines of the algorithms, in that order; and the name line of each algorithm, its
  label \<open>Steps:\<close>, its steps in the order of the raw \<^verbatim>\<open>steps\<close> mapping and the
  actions of each step in the order of their list occur in the report in this very order.
\<close>

theorem algorithm_order_preserved:
  assumes "create_specification (RDict d) = Inr spec"
    and "format_lines spec = Inr lines"
    and "field_or d ''algorithms'' (RDict []) = RDict algos"
    and "distinct (map fst algos)"
  shows "map fst (sp_algorithms spec) = map fst algos
       \<and> filter (prefix ''Algorithm: '') lines = map (\<lambda>item. ''Algorithm: '' @ fst item) algos
       \<and> subseq (algorithm_order_lines algos) lines"
proof -
  from assms(1) have "process_algorithms (RDict d) = Inr (sp_algorithms spec)"
    by (simp add: create_specification_eq_Inr build_specification_eq_Inr)
  from process_algorithms_order [OF this assms(3,4)]
  have rel: "list_all2 (\<lambda>item out. fst out = fst item
            \<and> algorithm (fst item) (snd item) = Inr (snd out)) algos (sp_algorithms spec)" .
  then have names: "map fst (sp_algorithms spec) = map fst algos"
    by (rule names_typed)
  from assms(2) obtain s1 s2 s3 s4 s5 s6 s7 s8 s9 s10 where
    p: "fmt_metadata (sp_metadata spec) = Inr s1"
    "fmt_header_format (sp_header_format spec) = Inr s2"
    "fmt_register_usage (sp_register_usage spec) = Inr s3"
    "fmt_structures (sp_structures spec) = Inr s4"
    "fmt_error_handling (sp_error_handling spec) = Inr s6"
    "fmt_section_requirements (sp_section_requirements spec) = Inr s7"
    "fmt_performance (sp_performance spec) = Inr s8"
    "fmt_testing (sp_testing spec) = Inr s9"
    "fmt_code_style (sp_code_style spec) = Inr s10"
    and a: "fmt_algorithms (sp_algorithms spec) = Inr s5"
    and l: "lines = s1 @ s2 @ s3 @ s4 @ s5 @ s6 @ s7 @ s8 @ s9 @ s10"
    by (auto simp: format_lines_def bindE_eq_Inr)
  from a obtain ls where ls: "mapE fmt_algorithm (sp_algorithms spec) = Inr ls"
    and s5: "s5 = ''=== ALGORITHMS ==='' # concat ls"
    by (auto simp: fmt_algorithms_def bindE_eq_Inr)
  have "filter (prefix ''Algorithm: '') lines = filter (prefix ''Algorithm: '') (concat ls)"
    unfolding l s5
    using p
    by (simp add: filter_plain plain_metadata plain_header_format plain_register_usage
        plain_structures plain_error_handling plain_section_requirements plain_performance
        plain_testing plain_code_style)
  also have "\<dots> = map (\<lambda>item. ''Algorithm: '' @ fst item) (sp_algorithms spec)"
    using ls by (rule filter_algorithms)
  also have "\<dots> = map (\<lambda>item. ''Algorithm: '' @ fst item) algos"
    using names by (rule name_lines_cong)
  finally have f: "filter (prefix ''Algorithm: '') lines
                     = map (\<lambda>item. ''Algorithm: '' @ fst item) algos" .
  have "subseq (concat (map (\<lambda>item. (''Algorithm: '' @ fst item) # ''Steps:''
                          # named_lists (al_steps (snd item))) (sp_algorithms spec)))
          (concat ls)"
    using ls by (rule subseq_mapE) (rule subseq_algorithm_steps)
  then have "subseq (algorithm_order_lines algos) (concat ls)"
    by (simp only: order_lines_typed [OF rel])
  then have "subseq (algorithm_order_lines algos) s5"
    unfolding s5 by (rule ss_skip)
  then have "subseq (algorithm_order_lines algos) lines"
    unfolding l
    by (intro ss_drop [of _ _ s1] ss_drop [of _ _ s2] ss_drop [of _ _ s3] ss_drop [of _ _ s4]
        ss_last)
  with names f show ?thesis by blast
qed

theorem algorithm_order_preserved_witness:
  "bindE (create_specification doc_two_algorithms) format_lines = Inr lines_two_algorithms
   \<and> filter (prefix ''Algorithm: '') lines_two_algorithms
     = [''Algorithm: encode'', ''Algorithm: decode'']
   \<and> subseq
       [''Algorithm: encode'', ''Steps:'', ''  split:'', ''    - read 3 bytes'',
        ''    - cut into 4 sextets'', ''  emit:'', ''    - look up each sextet'',
        ''Algorithm: decode'', ''Steps:'', ''  collect:'', ''    - read 4 characters'']
       lines_two_algorithms"
proof -
  have e: "bindE (create_specification doc_two_algorithms) format_lines
             = Inr lines_two_algorithms"
    by code_simp
  then obtain spec where
    c: "create_specification (RDict [(''metadata'', md_codec), (''algorithms'', RDict algos_two)])
          = Inr spec"
    and f: "format_lines spec = Inr lines_two_algorithms"
    by (auto simp: bindE_eq_Inr doc_two_algorithms_def)
  have a: "field_or [(''metadata'', md_codec), (''algorithms'', RDict algos_two)]
             ''algorithms'' (RDict []) = RDict algos_two"
    by (simp add: field_or_def)
  have d: "distinct (map fst algos_two)"
    by (simp add: algos_two_def)
  have o: "algorithm_order_lines algos_two
     = [''Algorithm: encode'', ''Steps:'', ''  split:'', ''    - read 3 bytes'',
        ''    - cut into 4 sextets'', ''  emit:'', ''    - look up each sextet'',
        ''Algorithm: decode'', ''Steps:'', ''  collect:'', ''    - read 4 characters'']"
    by (simp add: algorithm_order_lines_def algos_two_def named_lists_def raw_at_def
        raw_lookup_def pairs_of_def listed_def items_of_def)
  from algorithm_order_preserved [OF c f a d] e o show ?thesis
    by (simp add: algos_two_def)
qed

section \<open>C9: the end-to-end scenario and the section headers\<close>








section \<open>C10: rendering is not total over the normalizer's output\<close>

text \<open>
  Claim C10. The normalizer passes a mapping entry of \<^verbatim>\<open>integration_tests\<close> and of
  \<^verbatim>\<open>conformance_tests\<close> through unchanged, and the renderer indexes it with
  \<^verbatim>\<open>test['name']\<close> and \<^verbatim>\<open>test['standard']\<close>. So whenever normalization
  succeeds and the typed model holds an integration test that is a mapping without
  \<^verbatim>\<open>name\<close>, or a conformance test that is a mapping without \<^verbatim>\<open>standard\<close>,
  \<^verbatim>\<open>format_text\<close> raises and the forge operation fails; rendering that entry raises
  the KeyError of the missing key. The witness gives two documents with complete metadata
  on which normalization succeeds and the forge operation fails with exactly that KeyError.
\<close>

lemma fmt_testing_entries:
  assumes "fmt_testing ts = Inr l"
  shows "x \<in> set (ts_integration_tests ts) \<Longrightarrow> \<exists>y. fmt_integration_test x = Inr y"
    and "x \<in> set (ts_conformance_tests ts) \<Longrightarrow> \<exists>y. fmt_conformance_test x = Inr y"
  using assms by (auto simp: fmt_testing_def bindE_eq_Inr dest: mapE_Inr_all)

theorem rendering_not_total:
  assumes "create_specification data = Inr spec"
    and "(RDict kvs \<in> set (ts_integration_tests (sp_testing spec))
            \<and> map_of kvs ''name'' = None)
       \<or> (RDict kvs \<in> set (ts_conformance_tests (sp_testing spec))
            \<and> map_of kvs ''standard'' = None)"
  shows "(\<exists>e. format_text spec = Inl e \<and> process_spec data = Inl (SpecForgeError_failed e))
       \<and> (map_of kvs ''name'' = None
            \<longrightarrow> fmt_integration_test (RDict kvs) = Inl (KeyError ''name''))
       \<and> (map_of kvs ''standard'' = None
            \<longrightarrow> fmt_conformance_test (RDict kvs) = Inl (KeyError ''standard''))"
proof -
  have i: "map_of kvs ''name'' = None
             \<Longrightarrow> fmt_integration_test (RDict kvs) = Inl (KeyError ''name'')"
    by (simp add: fmt_integration_test_def)
  have c: "map_of kvs ''standard'' = None
             \<Longrightarrow> fmt_conformance_test (RDict kvs) = Inl (KeyError ''standard'')"
    by (simp add: fmt_conformance_test_def)
  have "\<not> (\<exists>l. fmt_testing (sp_testing spec) = Inr l)"
  proof
    assume "\<exists>l. fmt_testing (sp_testing spec) = Inr l"
    then obtain l where l: "fmt_testing (sp_testing spec) = Inr l" ..
    from assms(2) show False
    proof
      assume "RDict kvs \<in> set (ts_integration_tests (sp_testing spec))
                \<and> map_of kvs ''name'' = None"
      with fmt_testing_entries(1) [OF l] i show False by fastforce
    next
      assume "RDict kvs \<in> set (ts_conformance_tests (sp_testing spec))
                \<and> map_of kvs ''standard'' = None"
      with fmt_testing_entries(2) [OF l] c show False by fastforce
    qed
  qed
  with format_lines_testing have "\<not> (\<exists>ls. format_lines spec = Inr ls)" by blast
  then obtain e where "format_lines spec = Inl e" by (cases "format_lines spec") auto
  then have "format_text spec = Inl e" by (simp add: format_text_def)
  with assms(1) i c show ?thesis by (simp add: process_spec_eq)
qed

theorem rendering_not_total_witness:
  "create_specification doc_integration_nameless
     = Inr ((default_specification md_codec)
         \<lparr>sp_testing := \<lparr>ts_unit_tests = [],
             ts_integration_tests = [RDict [(''description'', RStr ''round trip'')]],
             ts_conformance_tests = []\<rparr>\<rparr>)
   \<and> process_spec doc_integration_nameless = Inl (SpecForgeError_failed (KeyError ''name''))
   \<and> create_specification doc_conformance_no_standard
     = Inr ((default_specification md_codec)
         \<lparr>sp_testing := \<lparr>ts_unit_tests = [], ts_integration_tests = [],
             ts_conformance_tests = [RDict [(''test_vectors'', RList [])]]\<rparr>\<rparr>)
   \<and> process_spec doc_conformance_no_standard
     = Inl (SpecForgeError_failed (KeyError ''standard''))"
proof -
  have a: "create_specification doc_integration_nameless
     = Inr ((default_specification md_codec)
         \<lparr>sp_testing := \<lparr>ts_unit_tests = [],
             ts_integration_tests = [RDict [(''description'', RStr ''round trip'')]],
             ts_conformance_tests = []\<rparr>\<rparr>)"
    by code_simp
  have b: "create_specification doc_conformance_no_standard
     = Inr ((default_specification md_codec)
         \<lparr>sp_testing := \<lparr>ts_unit_tests = [], ts_integration_tests = [],
             ts_conformance_tests = [RDict [(''test_vectors'', RList [])]]\<rparr>\<rparr>)"
    by code_simp
  have c: "process_spec doc_integration_nameless
             = Inl (SpecForgeError_failed (KeyError ''name''))"
    by code_simp
  have d: "process_spec doc_conformance_no_standard
             = Inl (SpecForgeError_failed (KeyError ''standard''))"
    by code_simp
  have "\<exists>e. format_text ((default_specification md_codec)
         \<lparr>sp_testing := \<lparr>ts_unit_tests = [],
             ts_integration_tests = [RDict [(''description'', RStr ''round trip'')]],
             ts_conformance_tests = []\<rparr>\<rparr>) = Inl e
         \<and> process_spec doc_integration_nameless = Inl (SpecForgeError_failed e)"
    using rendering_not_total [OF a, of "[(''description'', RStr ''round trip'')]"]
    by simp
  with a b c d show ?thesis by simp
qed

end
